theory Spec2Isabelle
  imports Complex_Main "HOL-Library.Product_Lexorder" "HOL-Library.Log_Nat"
begin

section \<open>Transaction and attachment matching (src/match.py)\<close>

text \<open>
  A shallow embedding of the matching engine of \<^verbatim>\<open>src/src/match.py\<close>.

  Conventions of the embedding.
  \<^item> A Python \<^verbatim>\<open>str\<close> is the list of its code points (\<open>str\<close>, a list of integers). The string methods the
    code calls (\<^verbatim>\<open>upper\<close>, \<^verbatim>\<open>lower\<close>, \<^verbatim>\<open>isdigit\<close>) and the classes the regular
    expressions use are those of CPython 3.11 (Unicode 14.0): a rule for the ASCII
    characters and a table for the code points from U+0080.
  \<^item> A value that may be \<^verbatim>\<open>None\<close> or a missing dictionary key (\<^verbatim>\<open>d.get(k)\<close>) is an
    \<open>option\<close>.
  \<^item> A Python \<^verbatim>\<open>float\<close> is the rational number it denotes. Every arithmetic operation
    that Python performs on floats rounds its exact result to the nearest double, ties to
    even (\<open>round_double\<close>); the exponent is not bounded, so infinities and the loss of
    precision of subnormal numbers are not modelled. An amount is the double that its
    JSON number denotes.
  \<^item> A \<^verbatim>\<open>datetime\<close> produced by \<^verbatim>\<open>strptime(value, "%Y-%m-%d")\<close> is the proleptic
    Gregorian ordinal of its day, so that \<^verbatim>\<open>(d - tx_date).days\<close> is a difference of
    integers.
  \<^item> An implicit raise (indexing a list, dividing) is a value \<open>Inl e\<close> of a sum type.
\<close>

subsection \<open>Python primitives\<close>

datatype py_error = IndexError | ZeroDivisionError

type_synonym str = "int list"

text \<open>A string literal of the source, which is ASCII, as a \<open>str\<close>.\<close>

definition ustr :: "string \<Rightarrow> str" where
  "ustr s = map of_char s"

text \<open>Truthiness of an \<^verbatim>\<open>Optional[str]\<close>: \<^verbatim>\<open>None\<close> and \<^verbatim>\<open>""\<close> are falsy.\<close>

definition truthy :: "str option \<Rightarrow> bool" where
  "truthy v = (case v of None \<Rightarrow> False | Some s \<Rightarrow> s \<noteq> [])"

text \<open>\<^verbatim>\<open>xs[i]\<close> for a list: a negative index counts from the end, an index out of range
  raises \<^verbatim>\<open>IndexError\<close>.\<close>

definition getitem :: "'a list \<Rightarrow> int \<Rightarrow> py_error + 'a" where
  "getitem xs i =
     (let k = (if i < 0 then i + int (length xs) else i)
      in if k < 0 \<or> int (length xs) \<le> k then Inl IndexError else Inr (xs ! nat k))"

subsection \<open>Floating-point arithmetic\<close>

text \<open>Rounding a rational to the nearest integer, a tie to the even one.\<close>

definition round_half_even :: "rat \<Rightarrow> int" where
  "round_half_even x =
     (let f = \<lfloor>x\<rfloor>; d = x - of_int f
      in if d < 1 / 2 then f else if 1 / 2 < d then f + 1 else if even f then f else f + 1)"

text \<open>The exponent \<open>e\<close> of a positive number: \<open>2 powi e \<le> x < 2 powi (e + 1)\<close>.\<close>

definition binade :: "rat \<Rightarrow> int" where
  "binade x = (if 1 \<le> x then bitlen \<lfloor>x\<rfloor> - 1 else - bitlen (\<lceil>1 / x\<rceil> - 1))"

text \<open>The double nearest to a rational: 53 significant bits, so the doubles around \<open>x\<close>
  are the multiples of \<open>2 powi (e - 52)\<close>.\<close>

definition round_double :: "rat \<Rightarrow> rat" where
  "round_double x =
     (if x = 0 then 0
      else
        let ulp = 2 powi (binade \<bar>x\<bar> - 52)
        in sgn x * (of_int (round_half_even (\<bar>x\<bar> / ulp)) * ulp))"

text \<open>\<^verbatim>\<open>a + b\<close> and \<^verbatim>\<open>a - b\<close> on floats (an \<^verbatim>\<open>int\<close> operand is converted first, which is
  exact for the small integers of this program).\<close>

definition fadd :: "rat \<Rightarrow> rat \<Rightarrow> rat" where
  "fadd a b = round_double (a + b)"

definition fsub :: "rat \<Rightarrow> rat \<Rightarrow> rat" where
  "fsub a b = round_double (a - b)"

text \<open>\<^verbatim>\<open>a / b\<close> on two \<^verbatim>\<open>int\<close>s: the correctly rounded quotient, \<^verbatim>\<open>ZeroDivisionError\<close> when
  \<^verbatim>\<open>b == 0\<close>.\<close>

definition int_quotient :: "int \<Rightarrow> int \<Rightarrow> rat" where
  "int_quotient a b = round_double (of_int a / of_int b)"

definition truediv :: "int \<Rightarrow> int \<Rightarrow> py_error + rat" where
  "truediv a b = (if b = 0 then Inl ZeroDivisionError else Inr (int_quotient a b))"

text \<open>The literal \<^verbatim>\<open>1e-6\<close>: the double nearest to one millionth. The literals \<^verbatim>\<open>0.5\<close> and
  \<^verbatim>\<open>1.5\<close> are the doubles \<open>1 / 2\<close> and \<open>3 / 2\<close>.\<close>

definition lit_1e_6 :: rat where
  "lit_1e_6 = round_double (1 / 1000000)"

subsection \<open>Unicode tables\<close>

text \<open>The tables list the code points from U+0080; the definitions of the next subsection
  give the ASCII characters by a rule.\<close>

text \<open>Membership in a list of ranges sorted by their lower bounds.\<close>

fun in_ranges :: "(int \<times> int) list \<Rightarrow> int \<Rightarrow> bool" where
  "in_ranges [] c = False"
| "in_ranges ((lo, hi) # rs) c = (if c < lo then False else if c \<le> hi then True else in_ranges rs c)"

text \<open>The image of a character in a list of case-mapping entries sorted by their lower
  bounds, if an entry maps it.\<close>

fun lookup_range :: "(int \<times> int \<times> int \<times> int) list \<Rightarrow> int \<Rightarrow> int option" where
  "lookup_range [] c = None"
| "lookup_range ((lo, hi, step, u) # rs) c =
     (if c < lo then None
      else if c \<le> hi \<and> (c - lo) mod step = 0 then Some (u + (c - lo))
      else lookup_range rs c)"

text \<open>The characters from U+0080 that \<^verbatim>\<open>str.upper\<close> maps to one other character: \<open>(lo, hi, step, u)\<close>
  says that the code points \<open>lo, lo + step, ...\<close> up to \<open>hi\<close> map to \<open>u, u + step, ...\<close>. The
  entries are sorted by \<open>lo\<close>.\<close>

definition upper_ranges :: "(int \<times> int \<times> int \<times> int) list" where
  "upper_ranges =
     [(0xB5, 0xB5, 1, 0x39C), (0xE0, 0xF6, 1, 0xC0), (0xF8, 0xFE, 1, 0xD8),
      (0xFF, 0xFF, 1, 0x178), (0x101, 0x12F, 2, 0x100), (0x131, 0x131, 1, 0x49),
      (0x133, 0x137, 2, 0x132), (0x13A, 0x148, 2, 0x139), (0x14B, 0x177, 2, 0x14A),
      (0x17A, 0x17E, 2, 0x179), (0x17F, 0x17F, 1, 0x53), (0x180, 0x180, 1, 0x243),
      (0x183, 0x185, 2, 0x182), (0x188, 0x188, 1, 0x187), (0x18C, 0x18C, 1, 0x18B),
      (0x192, 0x192, 1, 0x191), (0x195, 0x195, 1, 0x1F6), (0x199, 0x199, 1, 0x198),
      (0x19A, 0x19A, 1, 0x23D), (0x19E, 0x19E, 1, 0x220), (0x1A1, 0x1A5, 2, 0x1A0),
      (0x1A8, 0x1A8, 1, 0x1A7), (0x1AD, 0x1AD, 1, 0x1AC), (0x1B0, 0x1B0, 1, 0x1AF),
      (0x1B4, 0x1B6, 2, 0x1B3), (0x1B9, 0x1B9, 1, 0x1B8), (0x1BD, 0x1BD, 1, 0x1BC),
      (0x1BF, 0x1BF, 1, 0x1F7), (0x1C5, 0x1C5, 1, 0x1C4), (0x1C6, 0x1C6, 1, 0x1C4),
      (0x1C8, 0x1C8, 1, 0x1C7), (0x1C9, 0x1C9, 1, 0x1C7), (0x1CB, 0x1CB, 1, 0x1CA),
      (0x1CC, 0x1CC, 1, 0x1CA), (0x1CE, 0x1DC, 2, 0x1CD), (0x1DD, 0x1DD, 1, 0x18E),
      (0x1DF, 0x1EF, 2, 0x1DE), (0x1F2, 0x1F2, 1, 0x1F1), (0x1F3, 0x1F3, 1, 0x1F1),
      (0x1F5, 0x1F5, 1, 0x1F4), (0x1F9, 0x21F, 2, 0x1F8), (0x223, 0x233, 2, 0x222),
      (0x23C, 0x23C, 1, 0x23B), (0x23F, 0x240, 1, 0x2C7E), (0x242, 0x242, 1, 0x241),
      (0x247, 0x24F, 2, 0x246), (0x250, 0x250, 1, 0x2C6F), (0x251, 0x251, 1, 0x2C6D),
      (0x252, 0x252, 1, 0x2C70), (0x253, 0x253, 1, 0x181), (0x254, 0x254, 1, 0x186),
      (0x256, 0x257, 1, 0x189), (0x259, 0x259, 1, 0x18F), (0x25B, 0x25B, 1, 0x190),
      (0x25C, 0x25C, 1, 0xA7AB), (0x260, 0x260, 1, 0x193), (0x261, 0x261, 1, 0xA7AC),
      (0x263, 0x263, 1, 0x194), (0x265, 0x265, 1, 0xA78D), (0x266, 0x266, 1, 0xA7AA),
      (0x268, 0x268, 1, 0x197), (0x269, 0x269, 1, 0x196), (0x26A, 0x26A, 1, 0xA7AE),
      (0x26B, 0x26B, 1, 0x2C62), (0x26C, 0x26C, 1, 0xA7AD), (0x26F, 0x26F, 1, 0x19C),
      (0x271, 0x271, 1, 0x2C6E), (0x272, 0x272, 1, 0x19D), (0x275, 0x275, 1, 0x19F),
      (0x27D, 0x27D, 1, 0x2C64), (0x280, 0x280, 1, 0x1A6), (0x282, 0x282, 1, 0xA7C5),
      (0x283, 0x283, 1, 0x1A9), (0x287, 0x287, 1, 0xA7B1), (0x288, 0x288, 1, 0x1AE),
      (0x289, 0x289, 1, 0x244), (0x28A, 0x28B, 1, 0x1B1), (0x28C, 0x28C, 1, 0x245),
      (0x292, 0x292, 1, 0x1B7), (0x29D, 0x29D, 1, 0xA7B2), (0x29E, 0x29E, 1, 0xA7B0),
      (0x345, 0x345, 1, 0x399), (0x371, 0x373, 2, 0x370), (0x377, 0x377, 1, 0x376),
      (0x37B, 0x37D, 1, 0x3FD), (0x3AC, 0x3AC, 1, 0x386), (0x3AD, 0x3AF, 1, 0x388),
      (0x3B1, 0x3C1, 1, 0x391), (0x3C2, 0x3C2, 1, 0x3A3), (0x3C3, 0x3CB, 1, 0x3A3),
      (0x3CC, 0x3CC, 1, 0x38C), (0x3CD, 0x3CE, 1, 0x38E), (0x3D0, 0x3D0, 1, 0x392),
      (0x3D1, 0x3D1, 1, 0x398), (0x3D5, 0x3D5, 1, 0x3A6), (0x3D6, 0x3D6, 1, 0x3A0),
      (0x3D7, 0x3D7, 1, 0x3CF), (0x3D9, 0x3EF, 2, 0x3D8), (0x3F0, 0x3F0, 1, 0x39A),
      (0x3F1, 0x3F1, 1, 0x3A1), (0x3F2, 0x3F2, 1, 0x3F9), (0x3F3, 0x3F3, 1, 0x37F),
      (0x3F5, 0x3F5, 1, 0x395), (0x3F8, 0x3F8, 1, 0x3F7), (0x3FB, 0x3FB, 1, 0x3FA),
      (0x430, 0x44F, 1, 0x410), (0x450, 0x45F, 1, 0x400), (0x461, 0x481, 2, 0x460),
      (0x48B, 0x4BF, 2, 0x48A), (0x4C2, 0x4CE, 2, 0x4C1), (0x4CF, 0x4CF, 1, 0x4C0),
      (0x4D1, 0x52F, 2, 0x4D0), (0x561, 0x586, 1, 0x531), (0x10D0, 0x10FA, 1, 0x1C90),
      (0x10FD, 0x10FF, 1, 0x1CBD), (0x13F8, 0x13FD, 1, 0x13F0), (0x1C80, 0x1C80, 1, 0x412),
      (0x1C81, 0x1C81, 1, 0x414), (0x1C82, 0x1C82, 1, 0x41E), (0x1C83, 0x1C84, 1, 0x421),
      (0x1C85, 0x1C85, 1, 0x422), (0x1C86, 0x1C86, 1, 0x42A), (0x1C87, 0x1C87, 1, 0x462),
      (0x1C88, 0x1C88, 1, 0xA64A), (0x1D79, 0x1D79, 1, 0xA77D), (0x1D7D, 0x1D7D, 1, 0x2C63),
      (0x1D8E, 0x1D8E, 1, 0xA7C6), (0x1E01, 0x1E95, 2, 0x1E00), (0x1E9B, 0x1E9B, 1, 0x1E60),
      (0x1EA1, 0x1EFF, 2, 0x1EA0), (0x1F00, 0x1F07, 1, 0x1F08), (0x1F10, 0x1F15, 1, 0x1F18),
      (0x1F20, 0x1F27, 1, 0x1F28), (0x1F30, 0x1F37, 1, 0x1F38), (0x1F40, 0x1F45, 1, 0x1F48),
      (0x1F51, 0x1F57, 2, 0x1F59), (0x1F60, 0x1F67, 1, 0x1F68), (0x1F70, 0x1F71, 1, 0x1FBA),
      (0x1F72, 0x1F75, 1, 0x1FC8), (0x1F76, 0x1F77, 1, 0x1FDA), (0x1F78, 0x1F79, 1, 0x1FF8),
      (0x1F7A, 0x1F7B, 1, 0x1FEA), (0x1F7C, 0x1F7D, 1, 0x1FFA), (0x1FB0, 0x1FB1, 1, 0x1FB8),
      (0x1FBE, 0x1FBE, 1, 0x399), (0x1FD0, 0x1FD1, 1, 0x1FD8), (0x1FE0, 0x1FE1, 1, 0x1FE8),
      (0x1FE5, 0x1FE5, 1, 0x1FEC), (0x214E, 0x214E, 1, 0x2132), (0x2170, 0x217F, 1, 0x2160),
      (0x2184, 0x2184, 1, 0x2183), (0x24D0, 0x24E9, 1, 0x24B6), (0x2C30, 0x2C5F, 1, 0x2C00),
      (0x2C61, 0x2C61, 1, 0x2C60), (0x2C65, 0x2C65, 1, 0x23A), (0x2C66, 0x2C66, 1, 0x23E),
      (0x2C68, 0x2C6C, 2, 0x2C67), (0x2C73, 0x2C73, 1, 0x2C72), (0x2C76, 0x2C76, 1, 0x2C75),
      (0x2C81, 0x2CE3, 2, 0x2C80), (0x2CEC, 0x2CEE, 2, 0x2CEB), (0x2CF3, 0x2CF3, 1, 0x2CF2),
      (0x2D00, 0x2D25, 1, 0x10A0), (0x2D27, 0x2D27, 1, 0x10C7), (0x2D2D, 0x2D2D, 1, 0x10CD),
      (0xA641, 0xA66D, 2, 0xA640), (0xA681, 0xA69B, 2, 0xA680), (0xA723, 0xA72F, 2, 0xA722),
      (0xA733, 0xA76F, 2, 0xA732), (0xA77A, 0xA77C, 2, 0xA779), (0xA77F, 0xA787, 2, 0xA77E),
      (0xA78C, 0xA78C, 1, 0xA78B), (0xA791, 0xA793, 2, 0xA790), (0xA794, 0xA794, 1, 0xA7C4),
      (0xA797, 0xA7A9, 2, 0xA796), (0xA7B5, 0xA7C3, 2, 0xA7B4), (0xA7C8, 0xA7CA, 2, 0xA7C7),
      (0xA7D1, 0xA7D1, 1, 0xA7D0), (0xA7D7, 0xA7D9, 2, 0xA7D6), (0xA7F6, 0xA7F6, 1, 0xA7F5),
      (0xAB53, 0xAB53, 1, 0xA7B3), (0xAB70, 0xABBF, 1, 0x13A0), (0xFF41, 0xFF5A, 1, 0xFF21),
      (0x10428, 0x1044F, 1, 0x10400), (0x104D8, 0x104FB, 1, 0x104B0),
      (0x10597, 0x105BB, 2, 0x10570), (0x10598, 0x105A0, 2, 0x10571),
      (0x105A4, 0x105B0, 2, 0x1057D), (0x105B4, 0x105B8, 2, 0x1058D),
      (0x105BC, 0x105BC, 1, 0x10595), (0x10CC0, 0x10CF2, 1, 0x10C80),
      (0x118C0, 0x118DF, 1, 0x118A0), (0x16E60, 0x16E7F, 1, 0x16E40),
      (0x1E922, 0x1E943, 1, 0x1E900)]"

text \<open>The characters that \<^verbatim>\<open>str.upper\<close> maps to several characters.\<close>

definition upper_special :: "(int \<times> int list) list" where
  "upper_special =
     [(0xDF, [0x53, 0x53]), (0x149, [0x2BC, 0x4E]), (0x1F0, [0x4A, 0x30C]),
      (0x390, [0x399, 0x308, 0x301]), (0x3B0, [0x3A5, 0x308, 0x301]), (0x587, [0x535, 0x552]),
      (0x1E96, [0x48, 0x331]), (0x1E97, [0x54, 0x308]), (0x1E98, [0x57, 0x30A]),
      (0x1E99, [0x59, 0x30A]), (0x1E9A, [0x41, 0x2BE]), (0x1F50, [0x3A5, 0x313]),
      (0x1F52, [0x3A5, 0x313, 0x300]), (0x1F54, [0x3A5, 0x313, 0x301]),
      (0x1F56, [0x3A5, 0x313, 0x342]), (0x1F80, [0x1F08, 0x399]), (0x1F81, [0x1F09, 0x399]),
      (0x1F82, [0x1F0A, 0x399]), (0x1F83, [0x1F0B, 0x399]), (0x1F84, [0x1F0C, 0x399]),
      (0x1F85, [0x1F0D, 0x399]), (0x1F86, [0x1F0E, 0x399]), (0x1F87, [0x1F0F, 0x399]),
      (0x1F88, [0x1F08, 0x399]), (0x1F89, [0x1F09, 0x399]), (0x1F8A, [0x1F0A, 0x399]),
      (0x1F8B, [0x1F0B, 0x399]), (0x1F8C, [0x1F0C, 0x399]), (0x1F8D, [0x1F0D, 0x399]),
      (0x1F8E, [0x1F0E, 0x399]), (0x1F8F, [0x1F0F, 0x399]), (0x1F90, [0x1F28, 0x399]),
      (0x1F91, [0x1F29, 0x399]), (0x1F92, [0x1F2A, 0x399]), (0x1F93, [0x1F2B, 0x399]),
      (0x1F94, [0x1F2C, 0x399]), (0x1F95, [0x1F2D, 0x399]), (0x1F96, [0x1F2E, 0x399]),
      (0x1F97, [0x1F2F, 0x399]), (0x1F98, [0x1F28, 0x399]), (0x1F99, [0x1F29, 0x399]),
      (0x1F9A, [0x1F2A, 0x399]), (0x1F9B, [0x1F2B, 0x399]), (0x1F9C, [0x1F2C, 0x399]),
      (0x1F9D, [0x1F2D, 0x399]), (0x1F9E, [0x1F2E, 0x399]), (0x1F9F, [0x1F2F, 0x399]),
      (0x1FA0, [0x1F68, 0x399]), (0x1FA1, [0x1F69, 0x399]), (0x1FA2, [0x1F6A, 0x399]),
      (0x1FA3, [0x1F6B, 0x399]), (0x1FA4, [0x1F6C, 0x399]), (0x1FA5, [0x1F6D, 0x399]),
      (0x1FA6, [0x1F6E, 0x399]), (0x1FA7, [0x1F6F, 0x399]), (0x1FA8, [0x1F68, 0x399]),
      (0x1FA9, [0x1F69, 0x399]), (0x1FAA, [0x1F6A, 0x399]), (0x1FAB, [0x1F6B, 0x399]),
      (0x1FAC, [0x1F6C, 0x399]), (0x1FAD, [0x1F6D, 0x399]), (0x1FAE, [0x1F6E, 0x399]),
      (0x1FAF, [0x1F6F, 0x399]), (0x1FB2, [0x1FBA, 0x399]), (0x1FB3, [0x391, 0x399]),
      (0x1FB4, [0x386, 0x399]), (0x1FB6, [0x391, 0x342]), (0x1FB7, [0x391, 0x342, 0x399]),
      (0x1FBC, [0x391, 0x399]), (0x1FC2, [0x1FCA, 0x399]), (0x1FC3, [0x397, 0x399]),
      (0x1FC4, [0x389, 0x399]), (0x1FC6, [0x397, 0x342]), (0x1FC7, [0x397, 0x342, 0x399]),
      (0x1FCC, [0x397, 0x399]), (0x1FD2, [0x399, 0x308, 0x300]),
      (0x1FD3, [0x399, 0x308, 0x301]), (0x1FD6, [0x399, 0x342]),
      (0x1FD7, [0x399, 0x308, 0x342]), (0x1FE2, [0x3A5, 0x308, 0x300]),
      (0x1FE3, [0x3A5, 0x308, 0x301]), (0x1FE4, [0x3A1, 0x313]), (0x1FE6, [0x3A5, 0x342]),
      (0x1FE7, [0x3A5, 0x308, 0x342]), (0x1FF2, [0x1FFA, 0x399]), (0x1FF3, [0x3A9, 0x399]),
      (0x1FF4, [0x38F, 0x399]), (0x1FF6, [0x3A9, 0x342]), (0x1FF7, [0x3A9, 0x342, 0x399]),
      (0x1FFC, [0x3A9, 0x399]), (0xFB00, [0x46, 0x46]), (0xFB01, [0x46, 0x49]),
      (0xFB02, [0x46, 0x4C]), (0xFB03, [0x46, 0x46, 0x49]), (0xFB04, [0x46, 0x46, 0x4C]),
      (0xFB05, [0x53, 0x54]), (0xFB06, [0x53, 0x54]), (0xFB13, [0x544, 0x546]),
      (0xFB14, [0x544, 0x535]), (0xFB15, [0x544, 0x53B]), (0xFB16, [0x54E, 0x546]),
      (0xFB17, [0x544, 0x53D])]"

text \<open>The characters from U+0080 that \<^verbatim>\<open>str.lower\<close> maps to one other character, in the
  same format; the capital sigma U+03A3 is treated apart.\<close>

definition lower_ranges :: "(int \<times> int \<times> int \<times> int) list" where
  "lower_ranges =
     [(0xC0, 0xD6, 1, 0xE0), (0xD8, 0xDE, 1, 0xF8), (0x100, 0x12E, 2, 0x101),
      (0x132, 0x136, 2, 0x133), (0x139, 0x147, 2, 0x13A), (0x14A, 0x176, 2, 0x14B),
      (0x178, 0x178, 1, 0xFF), (0x179, 0x17D, 2, 0x17A), (0x181, 0x181, 1, 0x253),
      (0x182, 0x184, 2, 0x183), (0x186, 0x186, 1, 0x254), (0x187, 0x187, 1, 0x188),
      (0x189, 0x18A, 1, 0x256), (0x18B, 0x18B, 1, 0x18C), (0x18E, 0x18E, 1, 0x1DD),
      (0x18F, 0x18F, 1, 0x259), (0x190, 0x190, 1, 0x25B), (0x191, 0x191, 1, 0x192),
      (0x193, 0x193, 1, 0x260), (0x194, 0x194, 1, 0x263), (0x196, 0x196, 1, 0x269),
      (0x197, 0x197, 1, 0x268), (0x198, 0x198, 1, 0x199), (0x19C, 0x19C, 1, 0x26F),
      (0x19D, 0x19D, 1, 0x272), (0x19F, 0x19F, 1, 0x275), (0x1A0, 0x1A4, 2, 0x1A1),
      (0x1A6, 0x1A6, 1, 0x280), (0x1A7, 0x1A7, 1, 0x1A8), (0x1A9, 0x1A9, 1, 0x283),
      (0x1AC, 0x1AC, 1, 0x1AD), (0x1AE, 0x1AE, 1, 0x288), (0x1AF, 0x1AF, 1, 0x1B0),
      (0x1B1, 0x1B2, 1, 0x28A), (0x1B3, 0x1B5, 2, 0x1B4), (0x1B7, 0x1B7, 1, 0x292),
      (0x1B8, 0x1B8, 1, 0x1B9), (0x1BC, 0x1BC, 1, 0x1BD), (0x1C4, 0x1C4, 1, 0x1C6),
      (0x1C5, 0x1C5, 1, 0x1C6), (0x1C7, 0x1C7, 1, 0x1C9), (0x1C8, 0x1C8, 1, 0x1C9),
      (0x1CA, 0x1CA, 1, 0x1CC), (0x1CB, 0x1DB, 2, 0x1CC), (0x1DE, 0x1EE, 2, 0x1DF),
      (0x1F1, 0x1F1, 1, 0x1F3), (0x1F2, 0x1F4, 2, 0x1F3), (0x1F6, 0x1F6, 1, 0x195),
      (0x1F7, 0x1F7, 1, 0x1BF), (0x1F8, 0x21E, 2, 0x1F9), (0x220, 0x220, 1, 0x19E),
      (0x222, 0x232, 2, 0x223), (0x23A, 0x23A, 1, 0x2C65), (0x23B, 0x23B, 1, 0x23C),
      (0x23D, 0x23D, 1, 0x19A), (0x23E, 0x23E, 1, 0x2C66), (0x241, 0x241, 1, 0x242),
      (0x243, 0x243, 1, 0x180), (0x244, 0x244, 1, 0x289), (0x245, 0x245, 1, 0x28C),
      (0x246, 0x24E, 2, 0x247), (0x370, 0x372, 2, 0x371), (0x376, 0x376, 1, 0x377),
      (0x37F, 0x37F, 1, 0x3F3), (0x386, 0x386, 1, 0x3AC), (0x388, 0x38A, 1, 0x3AD),
      (0x38C, 0x38C, 1, 0x3CC), (0x38E, 0x38F, 1, 0x3CD), (0x391, 0x3A1, 1, 0x3B1),
      (0x3A4, 0x3AB, 1, 0x3C4), (0x3CF, 0x3CF, 1, 0x3D7), (0x3D8, 0x3EE, 2, 0x3D9),
      (0x3F4, 0x3F4, 1, 0x3B8), (0x3F7, 0x3F7, 1, 0x3F8), (0x3F9, 0x3F9, 1, 0x3F2),
      (0x3FA, 0x3FA, 1, 0x3FB), (0x3FD, 0x3FF, 1, 0x37B), (0x400, 0x40F, 1, 0x450),
      (0x410, 0x42F, 1, 0x430), (0x460, 0x480, 2, 0x461), (0x48A, 0x4BE, 2, 0x48B),
      (0x4C0, 0x4C0, 1, 0x4CF), (0x4C1, 0x4CD, 2, 0x4C2), (0x4D0, 0x52E, 2, 0x4D1),
      (0x531, 0x556, 1, 0x561), (0x10A0, 0x10C5, 1, 0x2D00), (0x10C7, 0x10C7, 1, 0x2D27),
      (0x10CD, 0x10CD, 1, 0x2D2D), (0x13A0, 0x13EF, 1, 0xAB70), (0x13F0, 0x13F5, 1, 0x13F8),
      (0x1C90, 0x1CBA, 1, 0x10D0), (0x1CBD, 0x1CBF, 1, 0x10FD), (0x1E00, 0x1E94, 2, 0x1E01),
      (0x1E9E, 0x1E9E, 1, 0xDF), (0x1EA0, 0x1EFE, 2, 0x1EA1), (0x1F08, 0x1F0F, 1, 0x1F00),
      (0x1F18, 0x1F1D, 1, 0x1F10), (0x1F28, 0x1F2F, 1, 0x1F20), (0x1F38, 0x1F3F, 1, 0x1F30),
      (0x1F48, 0x1F4D, 1, 0x1F40), (0x1F59, 0x1F5F, 2, 0x1F51), (0x1F68, 0x1F6F, 1, 0x1F60),
      (0x1F88, 0x1F8F, 1, 0x1F80), (0x1F98, 0x1F9F, 1, 0x1F90), (0x1FA8, 0x1FAF, 1, 0x1FA0),
      (0x1FB8, 0x1FB9, 1, 0x1FB0), (0x1FBA, 0x1FBB, 1, 0x1F70), (0x1FBC, 0x1FBC, 1, 0x1FB3),
      (0x1FC8, 0x1FCB, 1, 0x1F72), (0x1FCC, 0x1FCC, 1, 0x1FC3), (0x1FD8, 0x1FD9, 1, 0x1FD0),
      (0x1FDA, 0x1FDB, 1, 0x1F76), (0x1FE8, 0x1FE9, 1, 0x1FE0), (0x1FEA, 0x1FEB, 1, 0x1F7A),
      (0x1FEC, 0x1FEC, 1, 0x1FE5), (0x1FF8, 0x1FF9, 1, 0x1F78), (0x1FFA, 0x1FFB, 1, 0x1F7C),
      (0x1FFC, 0x1FFC, 1, 0x1FF3), (0x2126, 0x2126, 1, 0x3C9), (0x212A, 0x212A, 1, 0x6B),
      (0x212B, 0x212B, 1, 0xE5), (0x2132, 0x2132, 1, 0x214E), (0x2160, 0x216F, 1, 0x2170),
      (0x2183, 0x2183, 1, 0x2184), (0x24B6, 0x24CF, 1, 0x24D0), (0x2C00, 0x2C2F, 1, 0x2C30),
      (0x2C60, 0x2C60, 1, 0x2C61), (0x2C62, 0x2C62, 1, 0x26B), (0x2C63, 0x2C63, 1, 0x1D7D),
      (0x2C64, 0x2C64, 1, 0x27D), (0x2C67, 0x2C6B, 2, 0x2C68), (0x2C6D, 0x2C6D, 1, 0x251),
      (0x2C6E, 0x2C6E, 1, 0x271), (0x2C6F, 0x2C6F, 1, 0x250), (0x2C70, 0x2C70, 1, 0x252),
      (0x2C72, 0x2C72, 1, 0x2C73), (0x2C75, 0x2C75, 1, 0x2C76), (0x2C7E, 0x2C7F, 1, 0x23F),
      (0x2C80, 0x2CE2, 2, 0x2C81), (0x2CEB, 0x2CED, 2, 0x2CEC), (0x2CF2, 0x2CF2, 1, 0x2CF3),
      (0xA640, 0xA66C, 2, 0xA641), (0xA680, 0xA69A, 2, 0xA681), (0xA722, 0xA72E, 2, 0xA723),
      (0xA732, 0xA76E, 2, 0xA733), (0xA779, 0xA77B, 2, 0xA77A), (0xA77D, 0xA77D, 1, 0x1D79),
      (0xA77E, 0xA786, 2, 0xA77F), (0xA78B, 0xA78B, 1, 0xA78C), (0xA78D, 0xA78D, 1, 0x265),
      (0xA790, 0xA792, 2, 0xA791), (0xA796, 0xA7A8, 2, 0xA797), (0xA7AA, 0xA7AA, 1, 0x266),
      (0xA7AB, 0xA7AB, 1, 0x25C), (0xA7AC, 0xA7AC, 1, 0x261), (0xA7AD, 0xA7AD, 1, 0x26C),
      (0xA7AE, 0xA7AE, 1, 0x26A), (0xA7B0, 0xA7B0, 1, 0x29E), (0xA7B1, 0xA7B1, 1, 0x287),
      (0xA7B2, 0xA7B2, 1, 0x29D), (0xA7B3, 0xA7B3, 1, 0xAB53), (0xA7B4, 0xA7C2, 2, 0xA7B5),
      (0xA7C4, 0xA7C4, 1, 0xA794), (0xA7C5, 0xA7C5, 1, 0x282), (0xA7C6, 0xA7C6, 1, 0x1D8E),
      (0xA7C7, 0xA7C9, 2, 0xA7C8), (0xA7D0, 0xA7D0, 1, 0xA7D1), (0xA7D6, 0xA7D8, 2, 0xA7D7),
      (0xA7F5, 0xA7F5, 1, 0xA7F6), (0xFF21, 0xFF3A, 1, 0xFF41), (0x10400, 0x10427, 1, 0x10428),
      (0x104B0, 0x104D3, 1, 0x104D8), (0x10570, 0x10594, 2, 0x10597),
      (0x10571, 0x10579, 2, 0x10598), (0x1057D, 0x10589, 2, 0x105A4),
      (0x1058D, 0x10591, 2, 0x105B4), (0x10595, 0x10595, 1, 0x105BC),
      (0x10C80, 0x10CB2, 1, 0x10CC0), (0x118A0, 0x118BF, 1, 0x118C0),
      (0x16E40, 0x16E5F, 1, 0x16E60), (0x1E900, 0x1E921, 1, 0x1E922)]"

text \<open>The character that \<^verbatim>\<open>str.lower\<close> maps to several characters.\<close>

definition lower_special :: "(int \<times> int list) list" where
  "lower_special =
     [(0x130, [0x69, 0x307])]"

text \<open>The characters from U+0080 of which \<^verbatim>\<open>str.isdigit\<close> is true (decimal digits and the
  other digit characters, the superscripts U+00B2, U+00B3, U+00B9 for instance), as ranges
  \<open>(lo, hi)\<close> sorted by \<open>lo\<close>.\<close>

definition digit_ranges :: "(int \<times> int) list" where
  "digit_ranges =
     [(0xB2, 0xB3), (0xB9, 0xB9), (0x660, 0x669), (0x6F0, 0x6F9), (0x7C0, 0x7C9),
      (0x966, 0x96F), (0x9E6, 0x9EF), (0xA66, 0xA6F), (0xAE6, 0xAEF), (0xB66, 0xB6F),
      (0xBE6, 0xBEF), (0xC66, 0xC6F), (0xCE6, 0xCEF), (0xD66, 0xD6F), (0xDE6, 0xDEF),
      (0xE50, 0xE59), (0xED0, 0xED9), (0xF20, 0xF29), (0x1040, 0x1049), (0x1090, 0x1099),
      (0x1369, 0x1371), (0x17E0, 0x17E9), (0x1810, 0x1819), (0x1946, 0x194F), (0x19D0, 0x19DA),
      (0x1A80, 0x1A89), (0x1A90, 0x1A99), (0x1B50, 0x1B59), (0x1BB0, 0x1BB9), (0x1C40, 0x1C49),
      (0x1C50, 0x1C59), (0x2070, 0x2070), (0x2074, 0x2079), (0x2080, 0x2089), (0x2460, 0x2468),
      (0x2474, 0x247C), (0x2488, 0x2490), (0x24EA, 0x24EA), (0x24F5, 0x24FD), (0x24FF, 0x24FF),
      (0x2776, 0x277E), (0x2780, 0x2788), (0x278A, 0x2792), (0xA620, 0xA629), (0xA8D0, 0xA8D9),
      (0xA900, 0xA909), (0xA9D0, 0xA9D9), (0xA9F0, 0xA9F9), (0xAA50, 0xAA59), (0xABF0, 0xABF9),
      (0xFF10, 0xFF19), (0x104A0, 0x104A9), (0x10A40, 0x10A43), (0x10D30, 0x10D39),
      (0x10E60, 0x10E68), (0x11052, 0x1105A), (0x11066, 0x1106F), (0x110F0, 0x110F9),
      (0x11136, 0x1113F), (0x111D0, 0x111D9), (0x112F0, 0x112F9), (0x11450, 0x11459),
      (0x114D0, 0x114D9), (0x11650, 0x11659), (0x116C0, 0x116C9), (0x11730, 0x11739),
      (0x118E0, 0x118E9), (0x11950, 0x11959), (0x11C50, 0x11C59), (0x11D50, 0x11D59),
      (0x11DA0, 0x11DA9), (0x16A60, 0x16A69), (0x16AC0, 0x16AC9), (0x16B50, 0x16B59),
      (0x1D7CE, 0x1D7FF), (0x1E140, 0x1E149), (0x1E2F0, 0x1E2F9), (0x1E950, 0x1E959),
      (0x1F100, 0x1F10A), (0x1FBF0, 0x1FBF9)]"

text \<open>The decimal digits from U+0080 (category Nd), which \<^verbatim>\<open>\d\<close> matches and \<^verbatim>\<open>int\<close> reads. Every
  range is a sequence of blocks \<open>0..9\<close>.\<close>

definition decimal_ranges :: "(int \<times> int) list" where
  "decimal_ranges =
     [(0x660, 0x669), (0x6F0, 0x6F9), (0x7C0, 0x7C9), (0x966, 0x96F), (0x9E6, 0x9EF),
      (0xA66, 0xA6F), (0xAE6, 0xAEF), (0xB66, 0xB6F), (0xBE6, 0xBEF), (0xC66, 0xC6F),
      (0xCE6, 0xCEF), (0xD66, 0xD6F), (0xDE6, 0xDEF), (0xE50, 0xE59), (0xED0, 0xED9),
      (0xF20, 0xF29), (0x1040, 0x1049), (0x1090, 0x1099), (0x17E0, 0x17E9), (0x1810, 0x1819),
      (0x1946, 0x194F), (0x19D0, 0x19D9), (0x1A80, 0x1A89), (0x1A90, 0x1A99), (0x1B50, 0x1B59),
      (0x1BB0, 0x1BB9), (0x1C40, 0x1C49), (0x1C50, 0x1C59), (0xA620, 0xA629), (0xA8D0, 0xA8D9),
      (0xA900, 0xA909), (0xA9D0, 0xA9D9), (0xA9F0, 0xA9F9), (0xAA50, 0xAA59), (0xABF0, 0xABF9),
      (0xFF10, 0xFF19), (0x104A0, 0x104A9), (0x10D30, 0x10D39), (0x11066, 0x1106F),
      (0x110F0, 0x110F9), (0x11136, 0x1113F), (0x111D0, 0x111D9), (0x112F0, 0x112F9),
      (0x11450, 0x11459), (0x114D0, 0x114D9), (0x11650, 0x11659), (0x116C0, 0x116C9),
      (0x11730, 0x11739), (0x118E0, 0x118E9), (0x11950, 0x11959), (0x11C50, 0x11C59),
      (0x11D50, 0x11D59), (0x11DA0, 0x11DA9), (0x16A60, 0x16A69), (0x16AC0, 0x16AC9),
      (0x16B50, 0x16B59), (0x1D7CE, 0x1D7FF), (0x1E140, 0x1E149), (0x1E2F0, 0x1E2F9),
      (0x1E950, 0x1E959), (0x1FBF0, 0x1FBF9)]"

text \<open>The characters from U+0080 of which \<^verbatim>\<open>str.isspace\<close> is true.\<close>

definition space_ranges :: "(int \<times> int) list" where
  "space_ranges =
     [(0x85, 0x85), (0xA0, 0xA0), (0x1680, 0x1680), (0x2000, 0x200A), (0x2028, 0x2029),
      (0x202F, 0x202F), (0x205F, 0x205F), (0x3000, 0x3000)]"

text \<open>The cased characters from U+0080 (lower case, upper case or title case).\<close>

definition cased_ranges :: "(int \<times> int) list" where
  "cased_ranges =
     [(0xAA, 0xAA), (0xB5, 0xB5), (0xBA, 0xBA), (0xC0, 0xD6), (0xD8, 0xF6), (0xF8, 0x1BA),
      (0x1BC, 0x1BF), (0x1C4, 0x293), (0x295, 0x2B8), (0x2C0, 0x2C1), (0x2E0, 0x2E4),
      (0x345, 0x345), (0x370, 0x373), (0x376, 0x377), (0x37A, 0x37D), (0x37F, 0x37F),
      (0x386, 0x386), (0x388, 0x38A), (0x38C, 0x38C), (0x38E, 0x3A1), (0x3A3, 0x3F5),
      (0x3F7, 0x481), (0x48A, 0x52F), (0x531, 0x556), (0x560, 0x588), (0x10A0, 0x10C5),
      (0x10C7, 0x10C7), (0x10CD, 0x10CD), (0x10D0, 0x10FA), (0x10FD, 0x10FF), (0x13A0, 0x13F5),
      (0x13F8, 0x13FD), (0x1C80, 0x1C88), (0x1C90, 0x1CBA), (0x1CBD, 0x1CBF), (0x1D00, 0x1DBF),
      (0x1E00, 0x1F15), (0x1F18, 0x1F1D), (0x1F20, 0x1F45), (0x1F48, 0x1F4D), (0x1F50, 0x1F57),
      (0x1F59, 0x1F59), (0x1F5B, 0x1F5B), (0x1F5D, 0x1F5D), (0x1F5F, 0x1F7D), (0x1F80, 0x1FB4),
      (0x1FB6, 0x1FBC), (0x1FBE, 0x1FBE), (0x1FC2, 0x1FC4), (0x1FC6, 0x1FCC), (0x1FD0, 0x1FD3),
      (0x1FD6, 0x1FDB), (0x1FE0, 0x1FEC), (0x1FF2, 0x1FF4), (0x1FF6, 0x1FFC), (0x2071, 0x2071),
      (0x207F, 0x207F), (0x2090, 0x209C), (0x2102, 0x2102), (0x2107, 0x2107), (0x210A, 0x2113),
      (0x2115, 0x2115), (0x2119, 0x211D), (0x2124, 0x2124), (0x2126, 0x2126), (0x2128, 0x2128),
      (0x212A, 0x212D), (0x212F, 0x2134), (0x2139, 0x2139), (0x213C, 0x213F), (0x2145, 0x2149),
      (0x214E, 0x214E), (0x2160, 0x217F), (0x2183, 0x2184), (0x24B6, 0x24E9), (0x2C00, 0x2CE4),
      (0x2CEB, 0x2CEE), (0x2CF2, 0x2CF3), (0x2D00, 0x2D25), (0x2D27, 0x2D27), (0x2D2D, 0x2D2D),
      (0xA640, 0xA66D), (0xA680, 0xA69D), (0xA722, 0xA787), (0xA78B, 0xA78E), (0xA790, 0xA7CA),
      (0xA7D0, 0xA7D1), (0xA7D3, 0xA7D3), (0xA7D5, 0xA7D9), (0xA7F5, 0xA7F6), (0xA7F8, 0xA7FA),
      (0xAB30, 0xAB5A), (0xAB5C, 0xAB68), (0xAB70, 0xABBF), (0xFB00, 0xFB06), (0xFB13, 0xFB17),
      (0xFF21, 0xFF3A), (0xFF41, 0xFF5A), (0x10400, 0x1044F), (0x104B0, 0x104D3),
      (0x104D8, 0x104FB), (0x10570, 0x1057A), (0x1057C, 0x1058A), (0x1058C, 0x10592),
      (0x10594, 0x10595), (0x10597, 0x105A1), (0x105A3, 0x105B1), (0x105B3, 0x105B9),
      (0x105BB, 0x105BC), (0x10780, 0x10780), (0x10783, 0x10785), (0x10787, 0x107B0),
      (0x107B2, 0x107BA), (0x10C80, 0x10CB2), (0x10CC0, 0x10CF2), (0x118A0, 0x118DF),
      (0x16E40, 0x16E7F), (0x1D400, 0x1D454), (0x1D456, 0x1D49C), (0x1D49E, 0x1D49F),
      (0x1D4A2, 0x1D4A2), (0x1D4A5, 0x1D4A6), (0x1D4A9, 0x1D4AC), (0x1D4AE, 0x1D4B9),
      (0x1D4BB, 0x1D4BB), (0x1D4BD, 0x1D4C3), (0x1D4C5, 0x1D505), (0x1D507, 0x1D50A),
      (0x1D50D, 0x1D514), (0x1D516, 0x1D51C), (0x1D51E, 0x1D539), (0x1D53B, 0x1D53E),
      (0x1D540, 0x1D544), (0x1D546, 0x1D546), (0x1D54A, 0x1D550), (0x1D552, 0x1D6A5),
      (0x1D6A8, 0x1D6C0), (0x1D6C2, 0x1D6DA), (0x1D6DC, 0x1D6FA), (0x1D6FC, 0x1D714),
      (0x1D716, 0x1D734), (0x1D736, 0x1D74E), (0x1D750, 0x1D76E), (0x1D770, 0x1D788),
      (0x1D78A, 0x1D7A8), (0x1D7AA, 0x1D7C2), (0x1D7C4, 0x1D7CB), (0x1DF00, 0x1DF09),
      (0x1DF0B, 0x1DF1E), (0x1E900, 0x1E943), (0x1F130, 0x1F149), (0x1F150, 0x1F169),
      (0x1F170, 0x1F189)]"

text \<open>The case-ignorable characters from U+0080.\<close>

definition case_ignorable_ranges :: "(int \<times> int) list" where
  "case_ignorable_ranges =
     [(0xA8, 0xA8), (0xAD, 0xAD), (0xAF, 0xAF), (0xB4, 0xB4), (0xB7, 0xB8), (0x2B0, 0x36F),
      (0x374, 0x375), (0x37A, 0x37A), (0x384, 0x385), (0x387, 0x387), (0x483, 0x489),
      (0x559, 0x559), (0x55F, 0x55F), (0x591, 0x5BD), (0x5BF, 0x5BF), (0x5C1, 0x5C2),
      (0x5C4, 0x5C5), (0x5C7, 0x5C7), (0x5F4, 0x5F4), (0x600, 0x605), (0x610, 0x61A),
      (0x61C, 0x61C), (0x640, 0x640), (0x64B, 0x65F), (0x670, 0x670), (0x6D6, 0x6DD),
      (0x6DF, 0x6E8), (0x6EA, 0x6ED), (0x70F, 0x70F), (0x711, 0x711), (0x730, 0x74A),
      (0x7A6, 0x7B0), (0x7EB, 0x7F5), (0x7FA, 0x7FA), (0x7FD, 0x7FD), (0x816, 0x82D),
      (0x859, 0x85B), (0x888, 0x888), (0x890, 0x891), (0x898, 0x89F), (0x8C9, 0x902),
      (0x93A, 0x93A), (0x93C, 0x93C), (0x941, 0x948), (0x94D, 0x94D), (0x951, 0x957),
      (0x962, 0x963), (0x971, 0x971), (0x981, 0x981), (0x9BC, 0x9BC), (0x9C1, 0x9C4),
      (0x9CD, 0x9CD), (0x9E2, 0x9E3), (0x9FE, 0x9FE), (0xA01, 0xA02), (0xA3C, 0xA3C),
      (0xA41, 0xA42), (0xA47, 0xA48), (0xA4B, 0xA4D), (0xA51, 0xA51), (0xA70, 0xA71),
      (0xA75, 0xA75), (0xA81, 0xA82), (0xABC, 0xABC), (0xAC1, 0xAC5), (0xAC7, 0xAC8),
      (0xACD, 0xACD), (0xAE2, 0xAE3), (0xAFA, 0xAFF), (0xB01, 0xB01), (0xB3C, 0xB3C),
      (0xB3F, 0xB3F), (0xB41, 0xB44), (0xB4D, 0xB4D), (0xB55, 0xB56), (0xB62, 0xB63),
      (0xB82, 0xB82), (0xBC0, 0xBC0), (0xBCD, 0xBCD), (0xC00, 0xC00), (0xC04, 0xC04),
      (0xC3C, 0xC3C), (0xC3E, 0xC40), (0xC46, 0xC48), (0xC4A, 0xC4D), (0xC55, 0xC56),
      (0xC62, 0xC63), (0xC81, 0xC81), (0xCBC, 0xCBC), (0xCBF, 0xCBF), (0xCC6, 0xCC6),
      (0xCCC, 0xCCD), (0xCE2, 0xCE3), (0xD00, 0xD01), (0xD3B, 0xD3C), (0xD41, 0xD44),
      (0xD4D, 0xD4D), (0xD62, 0xD63), (0xD81, 0xD81), (0xDCA, 0xDCA), (0xDD2, 0xDD4),
      (0xDD6, 0xDD6), (0xE31, 0xE31), (0xE34, 0xE3A), (0xE46, 0xE4E), (0xEB1, 0xEB1),
      (0xEB4, 0xEBC), (0xEC6, 0xEC6), (0xEC8, 0xECD), (0xF18, 0xF19), (0xF35, 0xF35),
      (0xF37, 0xF37), (0xF39, 0xF39), (0xF71, 0xF7E), (0xF80, 0xF84), (0xF86, 0xF87),
      (0xF8D, 0xF97), (0xF99, 0xFBC), (0xFC6, 0xFC6), (0x102D, 0x1030), (0x1032, 0x1037),
      (0x1039, 0x103A), (0x103D, 0x103E), (0x1058, 0x1059), (0x105E, 0x1060), (0x1071, 0x1074),
      (0x1082, 0x1082), (0x1085, 0x1086), (0x108D, 0x108D), (0x109D, 0x109D), (0x10FC, 0x10FC),
      (0x135D, 0x135F), (0x1712, 0x1714), (0x1732, 0x1733), (0x1752, 0x1753), (0x1772, 0x1773),
      (0x17B4, 0x17B5), (0x17B7, 0x17BD), (0x17C6, 0x17C6), (0x17C9, 0x17D3), (0x17D7, 0x17D7),
      (0x17DD, 0x17DD), (0x180B, 0x180F), (0x1843, 0x1843), (0x1885, 0x1886), (0x18A9, 0x18A9),
      (0x1920, 0x1922), (0x1927, 0x1928), (0x1932, 0x1932), (0x1939, 0x193B), (0x1A17, 0x1A18),
      (0x1A1B, 0x1A1B), (0x1A56, 0x1A56), (0x1A58, 0x1A5E), (0x1A60, 0x1A60), (0x1A62, 0x1A62),
      (0x1A65, 0x1A6C), (0x1A73, 0x1A7C), (0x1A7F, 0x1A7F), (0x1AA7, 0x1AA7), (0x1AB0, 0x1ACE),
      (0x1B00, 0x1B03), (0x1B34, 0x1B34), (0x1B36, 0x1B3A), (0x1B3C, 0x1B3C), (0x1B42, 0x1B42),
      (0x1B6B, 0x1B73), (0x1B80, 0x1B81), (0x1BA2, 0x1BA5), (0x1BA8, 0x1BA9), (0x1BAB, 0x1BAD),
      (0x1BE6, 0x1BE6), (0x1BE8, 0x1BE9), (0x1BED, 0x1BED), (0x1BEF, 0x1BF1), (0x1C2C, 0x1C33),
      (0x1C36, 0x1C37), (0x1C78, 0x1C7D), (0x1CD0, 0x1CD2), (0x1CD4, 0x1CE0), (0x1CE2, 0x1CE8),
      (0x1CED, 0x1CED), (0x1CF4, 0x1CF4), (0x1CF8, 0x1CF9), (0x1D2C, 0x1D6A), (0x1D78, 0x1D78),
      (0x1D9B, 0x1DFF), (0x1FBD, 0x1FBD), (0x1FBF, 0x1FC1), (0x1FCD, 0x1FCF), (0x1FDD, 0x1FDF),
      (0x1FED, 0x1FEF), (0x1FFD, 0x1FFE), (0x200B, 0x200F), (0x2018, 0x2019), (0x2024, 0x2024),
      (0x2027, 0x2027), (0x202A, 0x202E), (0x2060, 0x2064), (0x2066, 0x206F), (0x2071, 0x2071),
      (0x207F, 0x207F), (0x2090, 0x209C), (0x20D0, 0x20F0), (0x2C7C, 0x2C7D), (0x2CEF, 0x2CF1),
      (0x2D6F, 0x2D6F), (0x2D7F, 0x2D7F), (0x2DE0, 0x2DFF), (0x2E2F, 0x2E2F), (0x3005, 0x3005),
      (0x302A, 0x302D), (0x3031, 0x3035), (0x303B, 0x303B), (0x3099, 0x309E), (0x30FC, 0x30FE),
      (0xA015, 0xA015), (0xA4F8, 0xA4FD), (0xA60C, 0xA60C), (0xA66F, 0xA672), (0xA674, 0xA67D),
      (0xA67F, 0xA67F), (0xA69C, 0xA69F), (0xA6F0, 0xA6F1), (0xA700, 0xA721), (0xA770, 0xA770),
      (0xA788, 0xA78A), (0xA7F2, 0xA7F4), (0xA7F8, 0xA7F9), (0xA802, 0xA802), (0xA806, 0xA806),
      (0xA80B, 0xA80B), (0xA825, 0xA826), (0xA82C, 0xA82C), (0xA8C4, 0xA8C5), (0xA8E0, 0xA8F1),
      (0xA8FF, 0xA8FF), (0xA926, 0xA92D), (0xA947, 0xA951), (0xA980, 0xA982), (0xA9B3, 0xA9B3),
      (0xA9B6, 0xA9B9), (0xA9BC, 0xA9BD), (0xA9CF, 0xA9CF), (0xA9E5, 0xA9E6), (0xAA29, 0xAA2E),
      (0xAA31, 0xAA32), (0xAA35, 0xAA36), (0xAA43, 0xAA43), (0xAA4C, 0xAA4C), (0xAA70, 0xAA70),
      (0xAA7C, 0xAA7C), (0xAAB0, 0xAAB0), (0xAAB2, 0xAAB4), (0xAAB7, 0xAAB8), (0xAABE, 0xAABF),
      (0xAAC1, 0xAAC1), (0xAADD, 0xAADD), (0xAAEC, 0xAAED), (0xAAF3, 0xAAF4), (0xAAF6, 0xAAF6),
      (0xAB5B, 0xAB5F), (0xAB69, 0xAB6B), (0xABE5, 0xABE5), (0xABE8, 0xABE8), (0xABED, 0xABED),
      (0xFB1E, 0xFB1E), (0xFBB2, 0xFBC2), (0xFE00, 0xFE0F), (0xFE13, 0xFE13), (0xFE20, 0xFE2F),
      (0xFE52, 0xFE52), (0xFE55, 0xFE55), (0xFEFF, 0xFEFF), (0xFF07, 0xFF07), (0xFF0E, 0xFF0E),
      (0xFF1A, 0xFF1A), (0xFF3E, 0xFF3E), (0xFF40, 0xFF40), (0xFF70, 0xFF70), (0xFF9E, 0xFF9F),
      (0xFFE3, 0xFFE3), (0xFFF9, 0xFFFB), (0x101FD, 0x101FD), (0x102E0, 0x102E0),
      (0x10376, 0x1037A), (0x10780, 0x10785), (0x10787, 0x107B0), (0x107B2, 0x107BA),
      (0x10A01, 0x10A03), (0x10A05, 0x10A06), (0x10A0C, 0x10A0F), (0x10A38, 0x10A3A),
      (0x10A3F, 0x10A3F), (0x10AE5, 0x10AE6), (0x10D24, 0x10D27), (0x10EAB, 0x10EAC),
      (0x10F46, 0x10F50), (0x10F82, 0x10F85), (0x11001, 0x11001), (0x11038, 0x11046),
      (0x11070, 0x11070), (0x11073, 0x11074), (0x1107F, 0x11081), (0x110B3, 0x110B6),
      (0x110B9, 0x110BA), (0x110BD, 0x110BD), (0x110C2, 0x110C2), (0x110CD, 0x110CD),
      (0x11100, 0x11102), (0x11127, 0x1112B), (0x1112D, 0x11134), (0x11173, 0x11173),
      (0x11180, 0x11181), (0x111B6, 0x111BE), (0x111C9, 0x111CC), (0x111CF, 0x111CF),
      (0x1122F, 0x11231), (0x11234, 0x11234), (0x11236, 0x11237), (0x1123E, 0x1123E),
      (0x112DF, 0x112DF), (0x112E3, 0x112EA), (0x11300, 0x11301), (0x1133B, 0x1133C),
      (0x11340, 0x11340), (0x11366, 0x1136C), (0x11370, 0x11374), (0x11438, 0x1143F),
      (0x11442, 0x11444), (0x11446, 0x11446), (0x1145E, 0x1145E), (0x114B3, 0x114B8),
      (0x114BA, 0x114BA), (0x114BF, 0x114C0), (0x114C2, 0x114C3), (0x115B2, 0x115B5),
      (0x115BC, 0x115BD), (0x115BF, 0x115C0), (0x115DC, 0x115DD), (0x11633, 0x1163A),
      (0x1163D, 0x1163D), (0x1163F, 0x11640), (0x116AB, 0x116AB), (0x116AD, 0x116AD),
      (0x116B0, 0x116B5), (0x116B7, 0x116B7), (0x1171D, 0x1171F), (0x11722, 0x11725),
      (0x11727, 0x1172B), (0x1182F, 0x11837), (0x11839, 0x1183A), (0x1193B, 0x1193C),
      (0x1193E, 0x1193E), (0x11943, 0x11943), (0x119D4, 0x119D7), (0x119DA, 0x119DB),
      (0x119E0, 0x119E0), (0x11A01, 0x11A0A), (0x11A33, 0x11A38), (0x11A3B, 0x11A3E),
      (0x11A47, 0x11A47), (0x11A51, 0x11A56), (0x11A59, 0x11A5B), (0x11A8A, 0x11A96),
      (0x11A98, 0x11A99), (0x11C30, 0x11C36), (0x11C38, 0x11C3D), (0x11C3F, 0x11C3F),
      (0x11C92, 0x11CA7), (0x11CAA, 0x11CB0), (0x11CB2, 0x11CB3), (0x11CB5, 0x11CB6),
      (0x11D31, 0x11D36), (0x11D3A, 0x11D3A), (0x11D3C, 0x11D3D), (0x11D3F, 0x11D45),
      (0x11D47, 0x11D47), (0x11D90, 0x11D91), (0x11D95, 0x11D95), (0x11D97, 0x11D97),
      (0x11EF3, 0x11EF4), (0x13430, 0x13438), (0x16AF0, 0x16AF4), (0x16B30, 0x16B36),
      (0x16B40, 0x16B43), (0x16F4F, 0x16F4F), (0x16F8F, 0x16F9F), (0x16FE0, 0x16FE1),
      (0x16FE3, 0x16FE4), (0x1AFF0, 0x1AFF3), (0x1AFF5, 0x1AFFB), (0x1AFFD, 0x1AFFE),
      (0x1BC9D, 0x1BC9E), (0x1BCA0, 0x1BCA3), (0x1CF00, 0x1CF2D), (0x1CF30, 0x1CF46),
      (0x1D167, 0x1D169), (0x1D173, 0x1D182), (0x1D185, 0x1D18B), (0x1D1AA, 0x1D1AD),
      (0x1D242, 0x1D244), (0x1DA00, 0x1DA36), (0x1DA3B, 0x1DA6C), (0x1DA75, 0x1DA75),
      (0x1DA84, 0x1DA84), (0x1DA9B, 0x1DA9F), (0x1DAA1, 0x1DAAF), (0x1E000, 0x1E006),
      (0x1E008, 0x1E018), (0x1E01B, 0x1E021), (0x1E023, 0x1E024), (0x1E026, 0x1E02A),
      (0x1E130, 0x1E13D), (0x1E2AE, 0x1E2AE), (0x1E2EC, 0x1E2EF), (0x1E8D0, 0x1E8D6),
      (0x1E944, 0x1E94B), (0x1F3FB, 0x1F3FF), (0xE0001, 0xE0001), (0xE0020, 0xE007F),
      (0xE0100, 0xE01EF)]"

subsection \<open>String methods\<close>

text \<open>\<^verbatim>\<open>str.upper\<close>: every character is replaced by its upper-case mapping, which may be
  several characters.\<close>

definition upper_char :: "int \<Rightarrow> str" where
  "upper_char c =
     (if c < 0x80 then (if 0x61 \<le> c \<and> c \<le> 0x7A then [c - 0x20] else [c])
      else
        (case map_of upper_special c of
           Some cs \<Rightarrow> cs
         | None \<Rightarrow> (case lookup_range upper_ranges c of Some u \<Rightarrow> [u] | None \<Rightarrow> [c])))"

definition upper :: "str \<Rightarrow> str" where
  "upper s = concat (map upper_char s)"

text \<open>\<^verbatim>\<open>str.lower\<close>: every character but the capital sigma is replaced by its lower-case
  mapping. A capital sigma becomes the final sigma U+03C2 when it ends a word: when,
  skipping case-ignorable characters, a cased character precedes it and no cased character
  follows it; otherwise it becomes U+03C3. \<open>seen\<close> is the text already read, last
  character first.\<close>

definition lower_char :: "int \<Rightarrow> str" where
  "lower_char c =
     (if c < 0x80 then (if 0x41 \<le> c \<and> c \<le> 0x5A then [c + 0x20] else [c])
      else
        (case map_of lower_special c of
           Some cs \<Rightarrow> cs
         | None \<Rightarrow> (case lookup_range lower_ranges c of Some l \<Rightarrow> [l] | None \<Rightarrow> [c])))"

definition is_cased :: "int \<Rightarrow> bool" where
  "is_cased c =
     (if c < 0x80 then (0x41 \<le> c \<and> c \<le> 0x5A) \<or> (0x61 \<le> c \<and> c \<le> 0x7A)
      else in_ranges cased_ranges c)"

definition is_case_ignorable :: "int \<Rightarrow> bool" where
  "is_case_ignorable c =
     (if c < 0x80 then c \<in> set [0x27, 0x2E, 0x3A, 0x5E, 0x60]
      else in_ranges case_ignorable_ranges c)"

definition final_sigma :: "str \<Rightarrow> str \<Rightarrow> bool" where
  "final_sigma seen rest =
     (case dropWhile is_case_ignorable seen of
        [] \<Rightarrow> False
      | p # _ \<Rightarrow>
          is_cased p
          \<and> (case dropWhile is_case_ignorable rest of
                [] \<Rightarrow> True
              | n # _ \<Rightarrow> \<not> is_cased n))"

fun lower_from :: "str \<Rightarrow> str \<Rightarrow> str" where
  "lower_from seen [] = []"
| "lower_from seen (c # cs) =
     (if c = 0x3A3 then [if final_sigma seen cs then 0x3C2 else 0x3C3] else lower_char c)
     @ lower_from (c # seen) cs"

definition lower :: "str \<Rightarrow> str" where
  "lower s = lower_from [] s"

text \<open>\<^verbatim>\<open>str.isdigit\<close>: a non-empty string of digit characters.\<close>

definition is_digit :: "int \<Rightarrow> bool" where
  "is_digit c = (if c < 0x80 then 0x30 \<le> c \<and> c \<le> 0x39 else in_ranges digit_ranges c)"

definition isdigit :: "str \<Rightarrow> bool" where
  "isdigit s = (s \<noteq> [] \<and> list_all is_digit s)"

text \<open>The characters of which \<^verbatim>\<open>str.isspace\<close> is true.\<close>

definition is_space :: "int \<Rightarrow> bool" where
  "is_space c =
     (if c < 0x80 then (0x09 \<le> c \<and> c \<le> 0x0D) \<or> (0x1C \<le> c \<and> c \<le> 0x20)
      else in_ranges space_ranges c)"

text \<open>The value that \<^verbatim>\<open>int\<close> gives a decimal digit, and \<open>None\<close> for any other character.\<close>

fun decimal_in :: "(int \<times> int) list \<Rightarrow> int \<Rightarrow> int option" where
  "decimal_in [] c = None"
| "decimal_in ((lo, hi) # rs) c =
     (if c < lo then None
      else if c \<le> hi then Some ((c - lo) mod 10)
      else decimal_in rs c)"

definition decimal_value :: "int \<Rightarrow> int option" where
  "decimal_value c =
     (if c < 0x80 then (if 0x30 \<le> c \<and> c \<le> 0x39 then Some (c - 0x30) else None)
      else decimal_in decimal_ranges c)"

text \<open>Whether a character is one of the characters of an ASCII string; the characters that
  \<^verbatim>\<open>[A-Za-z0-9]\<close> matches.\<close>

definition one_of :: "int \<Rightarrow> string \<Rightarrow> bool" where
  "one_of c s = (c \<in> set (ustr s))"

definition is_alnum :: "int \<Rightarrow> bool" where
  "is_alnum c = ((0x30 \<le> c \<and> c \<le> 0x39) \<or> (0x41 \<le> c \<and> c \<le> 0x5A) \<or> (0x61 \<le> c \<and> c \<le> 0x7A))"

subsection \<open>Records\<close>

text \<open>
  A transaction is the dictionary \<^verbatim>\<open>{id, amount, date, reference, contact}\<close>, an
  attachment the dictionary \<^verbatim>\<open>{id, data: {...}}\<close>. Every field that the code reads with
  \<^verbatim>\<open>.get\<close> is optional; \<^verbatim>\<open>id\<close> is read with \<^verbatim>\<open>x["id"]\<close> and is always there.
\<close>

record transaction =
  tx_id :: int
  tx_amount :: "rat option"
  tx_date :: "str option"
  tx_reference :: "str option"
  tx_contact :: "str option"

record attachment_data =
  supplier :: "str option"
  issuer :: "str option"
  recipient :: "str option"
  total_amount :: "rat option"
  reference :: "str option"
  due_date :: "str option"
  invoicing_date :: "str option"
  receiving_date :: "str option"

record attachment =
  att_id :: int
  att_data :: "attachment_data option"

text \<open>\<^verbatim>\<open>att.get("data", {})\<close>: a missing \<^verbatim>\<open>data\<close> is the empty dictionary.\<close>

definition empty_data :: attachment_data where
  "empty_data =
     \<lparr>supplier = None, issuer = None, recipient = None, total_amount = None,
      reference = None, due_date = None, invoicing_date = None, receiving_date = None\<rparr>"

definition get_data :: "attachment \<Rightarrow> attachment_data" where
  "get_data att = (case att_data att of None \<Rightarrow> empty_data | Some d \<Rightarrow> d)"

subsection \<open>Helper functions\<close>

text \<open>\<^verbatim>\<open>_normalize_reference\<close>: \<^verbatim>\<open>replace(" ", "")\<close> removes the character U+0020 and
  \<^verbatim>\<open>lstrip("0")\<close> the leading characters U+0030.\<close>

definition normalize_reference :: "str option \<Rightarrow> str option" where
  "normalize_reference ref =
     (case ref of
        None \<Rightarrow> None
      | Some r \<Rightarrow>
          if r = [] then None
          else
            let cleaned = upper (filter (\<lambda>c. c \<noteq> 0x20) r)
            in if isdigit cleaned
               then (let stripped = dropWhile (\<lambda>c. c = 0x30) cleaned
                     in Some (if stripped = [] then ustr ''0'' else stripped))
               else Some cleaned)"

text \<open>\<^verbatim>\<open>_parse_date\<close> calls \<^verbatim>\<open>datetime.strptime(value, "%Y-%m-%d")\<close>. CPython turns the
  format into the regular expression
  \<^verbatim>\<open>(?P<Y>\d\d\d\d)-(?P<m>1[0-2]|0[1-9]|[1-9])-(?P<d>3[0-1]|[1-2]\d|0[1-9]|[1-9]| [1-9])\<close>,
  matches it at the start of the string, raises \<^verbatim>\<open>ValueError\<close> when the string does not
  match or when text remains after the match, reads the groups with \<^verbatim>\<open>int\<close>, and raises
  \<^verbatim>\<open>ValueError\<close> again when year, month and day are not a date of the calendar (year 0,
  30 February). \<^verbatim>\<open>\d\<close> matches every decimal digit of Unicode, the bracketed classes
  only ASCII digits. Each directive below returns the number it read and the rest of the
  string.\<close>

definition ascii_digit_val :: "int \<Rightarrow> int" where
  "ascii_digit_val c = c - 48"

fun match_Y :: "str \<Rightarrow> (int \<times> str) option" where
  "match_Y (a # b # c # d # rest) =
     (case (decimal_value a, decimal_value b, decimal_value c, decimal_value d) of
        (Some va, Some vb, Some vc, Some vd) \<Rightarrow> Some (1000 * va + 100 * vb + 10 * vc + vd, rest)
      | _ \<Rightarrow> None)"
| "match_Y _ = None"

fun match_m :: "str \<Rightarrow> (int \<times> str) option" where
  "match_m (a # b # rest) =
     (if a = 0x31 \<and> one_of b ''012'' then Some (10 + ascii_digit_val b, rest)
      else if a = 0x30 \<and> one_of b ''123456789'' then Some (ascii_digit_val b, rest)
      else if one_of a ''123456789'' then Some (ascii_digit_val a, b # rest)
      else None)"
| "match_m [a] = (if one_of a ''123456789'' then Some (ascii_digit_val a, []) else None)"
| "match_m [] = None"

fun match_d :: "str \<Rightarrow> (int \<times> str) option" where
  "match_d (a # b # rest) =
     (if a = 0x33 \<and> one_of b ''01'' then Some (30 + ascii_digit_val b, rest)
      else
        (case (if one_of a ''12'' then decimal_value b else None) of
           Some vb \<Rightarrow> Some (10 * ascii_digit_val a + vb, rest)
         | None \<Rightarrow>
             if a = 0x30 \<and> one_of b ''123456789'' then Some (ascii_digit_val b, rest)
             else if one_of a ''123456789'' then Some (ascii_digit_val a, b # rest)
             else if a = 0x20 \<and> one_of b ''123456789'' then Some (ascii_digit_val b, rest)
             else None))"
| "match_d [a] = (if one_of a ''123456789'' then Some (ascii_digit_val a, []) else None)"
| "match_d [] = None"

fun match_hyphen :: "str \<Rightarrow> str option" where
  "match_hyphen (c # rest) = (if c = 0x2D then Some rest else None)"
| "match_hyphen [] = None"

text \<open>The calendar of \<^verbatim>\<open>datetime\<close>: leap years, days in a month, and the ordinal of a
  date (1 January of year 1 is day 1).\<close>

definition is_leap :: "int \<Rightarrow> bool" where
  "is_leap y = (y mod 4 = 0 \<and> (y mod 100 \<noteq> 0 \<or> y mod 400 = 0))"

definition days_in_month :: "int \<Rightarrow> int \<Rightarrow> int" where
  "days_in_month y m =
     (if m = 2 then (if is_leap y then 29 else 28)
      else if m \<in> set [4, 6, 9, 11] then 30 else 31)"

definition days_before_year :: "int \<Rightarrow> int" where
  "days_before_year y = (y - 1) * 365 + (y - 1) div 4 - (y - 1) div 100 + (y - 1) div 400"

definition days_before_month :: "int \<Rightarrow> int \<Rightarrow> int" where
  "days_before_month y m = sum_list (map (days_in_month y) [1 .. m - 1])"

definition ymd2ord :: "int \<Rightarrow> int \<Rightarrow> int \<Rightarrow> int" where
  "ymd2ord y m d = days_before_year y + days_before_month y m + d"

definition strptime_ymd :: "str \<Rightarrow> int option" where
  "strptime_ymd s =
     (case match_Y s of
        None \<Rightarrow> None
      | Some (y, s1) \<Rightarrow>
     (case match_hyphen s1 of
        None \<Rightarrow> None
      | Some s2 \<Rightarrow>
     (case match_m s2 of
        None \<Rightarrow> None
      | Some (m, s3) \<Rightarrow>
     (case match_hyphen s3 of
        None \<Rightarrow> None
      | Some s4 \<Rightarrow>
     (case match_d s4 of
        None \<Rightarrow> None
      | Some (d, s5) \<Rightarrow>
          if s5 \<noteq> [] then None
          else if y < 1 \<or> days_in_month y m < d then None
          else Some (ymd2ord y m d))))))"

text \<open>\<^verbatim>\<open>_parse_date\<close>: every exception of \<^verbatim>\<open>strptime\<close> is caught and becomes \<^verbatim>\<open>None\<close>.\<close>

definition parse_date :: "str option \<Rightarrow> int option" where
  "parse_date v =
     (case v of None \<Rightarrow> None | Some s \<Rightarrow> if s = [] then None else strptime_ymd s)"

text \<open>\<^verbatim>\<open>_TOKEN_RE.findall(name)\<close> for \<^verbatim>\<open>[A-Za-z0-9]+\<close>: the maximal runs of ASCII letters
  and digits, from left to right; \<open>run\<close> is the run being read.\<close>

fun findall_token :: "str \<Rightarrow> str \<Rightarrow> str list" where
  "findall_token run [] = (if run = [] then [] else [run])"
| "findall_token run (c # cs) =
     (if is_alnum c then findall_token (run @ [c]) cs
      else if run = [] then findall_token [] cs
      else run # findall_token [] cs)"

definition STOP_WORDS :: "str set" where
  "STOP_WORDS = set (map ustr [''oy'', ''oyj'', ''ltd'', ''tmi'', ''inc'', ''oy.'', ''oy,''])"

text \<open>\<^verbatim>\<open>_tokenize\<close>.\<close>

definition tokenize :: "str option \<Rightarrow> str set" where
  "tokenize name =
     (case name of
        None \<Rightarrow> {}
      | Some n \<Rightarrow>
          if n = [] then {}
          else
            let tokens = set (map lower (findall_token [] n))
            in Set.filter (\<lambda>t. t \<notin> STOP_WORDS) tokens)"

text \<open>\<^verbatim>\<open>_name_similarity\<close>: the Jaccard index of the two token sets, as a float.\<close>

definition name_similarity :: "str option \<Rightarrow> str option \<Rightarrow> py_error + rat" where
  "name_similarity a b =
     (let ta = tokenize a; tb = tokenize b
      in if ta = {} \<or> tb = {} then Inr 0
         else
           let inter = card (ta \<inter> tb)
           in if inter = 0 then Inr 0
              else
                let union = card (ta \<union> tb)
                in truediv (int inter) (int union))"

text \<open>\<^verbatim>\<open>_attachment_names\<close>: supplier, issuer, recipient, in this order, without the
  company itself.\<close>

definition attachment_names :: "attachment \<Rightarrow> str list" where
  "attachment_names att =
     (let data = get_data att
      in List.map_filter
           (\<lambda>val. case val of
                    None \<Rightarrow> None
                  | Some v \<Rightarrow>
                      if v \<noteq> [] \<and> lower v \<noteq> ustr ''example company oy'' then Some v else None)
           [supplier data, issuer data, recipient data])"

text \<open>\<^verbatim>\<open>_best_name_similarity\<close>; \<open>best_loop\<close> is its \<^verbatim>\<open>for\<close> loop, \<open>best\<close> the running
  maximum.\<close>

fun best_loop :: "str option \<Rightarrow> rat \<Rightarrow> str list \<Rightarrow> py_error + rat" where
  "best_loop c best [] = Inr best"
| "best_loop c best (name # names) =
     (case name_similarity c (Some name) of
        Inl e \<Rightarrow> Inl e
      | Inr s \<Rightarrow> best_loop c (max best s) names)"

definition best_name_similarity :: "str option \<Rightarrow> attachment \<Rightarrow> py_error + rat" where
  "best_name_similarity transaction_contact att =
     (if \<not> truthy transaction_contact then Inr 0
      else best_loop transaction_contact 0 (attachment_names att))"

text \<open>\<^verbatim>\<open>_date_distance_days\<close>: \<^verbatim>\<open>min(distances) if distances else 10_000\<close>.\<close>

definition date_distance_days :: "int \<Rightarrow> attachment \<Rightarrow> int" where
  "date_distance_days txd att =
     (let data = get_data att;
          candidates = [parse_date (due_date data), parse_date (invoicing_date data),
                        parse_date (receiving_date data)];
          distances = map (\<lambda>d. \<bar>d - txd\<bar>) (List.map_filter (\<lambda>d. d) candidates)
      in case distances of [] \<Rightarrow> 10000 | x # xs \<Rightarrow> fold min xs x)"

text \<open>\<^verbatim>\<open>_is_amount_match\<close>.\<close>

definition is_amount_match :: "transaction \<Rightarrow> attachment \<Rightarrow> bool" where
  "is_amount_match tx att =
     (case (tx_amount tx, total_amount (get_data att)) of
        (Some a, Some b) \<Rightarrow> \<bar>fsub a b\<bar> < lit_1e_6 \<or> \<bar>fsub \<bar>a\<bar> b\<bar> < lit_1e_6
      | _ \<Rightarrow> False)"

text \<open>\<^verbatim>\<open>_reference_match\<close>.\<close>

definition reference_match :: "transaction \<Rightarrow> attachment \<Rightarrow> bool" where
  "reference_match tx att =
     (let tx_ref = normalize_reference (tx_reference tx);
          att_ref = normalize_reference (reference (get_data att))
      in tx_ref \<noteq> None \<and> att_ref \<noteq> None \<and> tx_ref = att_ref)"

text \<open>A candidate is the triple \<^verbatim>\<open>(record, composite_score, date_distance)\<close>.\<close>

type_synonym 'r candidate = "'r \<times> rat \<times> int"

definition cand_score :: "'r candidate \<Rightarrow> rat" where
  "cand_score c = fst (snd c)"

definition cand_dist :: "'r candidate \<Rightarrow> int" where
  "cand_dist c = snd (snd c)"

text \<open>The sort key \<^verbatim>\<open>lambda x: (-x[1], x[2], x[0]["id"])\<close>; Python compares the tuples
  lexicographically, and \<^verbatim>\<open>list.sort\<close> is stable, as \<open>sort_key\<close> is.\<close>

definition att_key :: "attachment candidate \<Rightarrow> rat \<times> int \<times> int" where
  "att_key x = (- cand_score x, cand_dist x, att_id (fst x))"

definition tx_key :: "transaction candidate \<Rightarrow> rat \<times> int \<times> int" where
  "tx_key x = (- cand_score x, cand_dist x, tx_id (fst x))"

text \<open>\<^verbatim>\<open>_select_best\<close>: \<^verbatim>\<open>candidates[0][0] if candidates else None\<close> after the sort.
  The sort is in place; the callers read the sorted list again only to count the
  elements of a filter of it, and a count does not depend on the order.\<close>

definition select_best :: "attachment candidate list \<Rightarrow> py_error + attachment option" where
  "select_best candidates =
     (let sorted_cands = sort_key att_key candidates
      in if sorted_cands \<noteq> []
         then (case getitem sorted_cands 0 of Inl e \<Rightarrow> Inl e | Inr c \<Rightarrow> Inr (Some (fst c)))
         else Inr None)"

text \<open>The date bonus of both directions:
  \<^verbatim>\<open>date_bonus = 0.0; if dist <= 30: date_bonus = 1 - (dist / 30)\<close>. The divisor is the
  literal 30, so the division cannot raise.\<close>

definition date_bonus :: "int \<Rightarrow> rat" where
  "date_bonus dist_days = (if dist_days \<le> 30 then fsub 1 (int_quotient dist_days 30) else 0)"

text \<open>The composite score of both directions:
  \<^verbatim>\<open>composite = 1 + name_sim + date_bonus\<close>, added from left to right.\<close>

definition composite :: "rat \<Rightarrow> rat \<Rightarrow> rat" where
  "composite name_sim bonus = fadd (fadd 1 name_sim) bonus"

subsection \<open>find_attachment\<close>

text \<open>The loop that builds \<^verbatim>\<open>amt_candidates\<close>, in the order of the input.\<close>

fun amt_candidates ::
  "transaction \<Rightarrow> int \<Rightarrow> attachment list \<Rightarrow> py_error + attachment candidate list" where
  "amt_candidates transaction txd [] = Inr []"
| "amt_candidates transaction txd (att # atts) =
     (if \<not> is_amount_match transaction att then amt_candidates transaction txd atts
      else
        (let dist_days = date_distance_days txd att
         in (case best_name_similarity (tx_contact transaction) att of
               Inl e \<Rightarrow> Inl e
             | Inr name_sim \<Rightarrow>
                 (let score = composite name_sim (date_bonus dist_days)
                  in (case amt_candidates transaction txd atts of
                        Inl e \<Rightarrow> Inl e
                      | Inr rest \<Rightarrow> Inr ((att, score, dist_days) # rest))))))"

text \<open>The comprehension
  \<^verbatim>\<open>[c for c in amt_candidates if _best_name_similarity(contact, c[0]) >= 0.5]\<close>.\<close>

fun filter_similar ::
  "str option \<Rightarrow> attachment candidate list \<Rightarrow> py_error + attachment candidate list" where
  "filter_similar contact [] = Inr []"
| "filter_similar contact (c # cs) =
     (case best_name_similarity contact (fst c) of
        Inl e \<Rightarrow> Inl e
      | Inr s \<Rightarrow>
          (case filter_similar contact cs of
             Inl e \<Rightarrow> Inl e
           | Inr rest \<Rightarrow> Inr (if s \<ge> 1 / 2 then c # rest else rest)))"

text \<open>The test \<^verbatim>\<open>abs(c[1] - (1 + 0 + 1)) < 1e-6\<close> of the no-contact branch.\<close>

definition is_pure_score :: "rat \<Rightarrow> bool" where
  "is_pure_score score = (\<bar>fsub score (1 + 0 + 1)\<bar> < lit_1e_6)"

definition find_attachment ::
  "transaction \<Rightarrow> attachment list \<Rightarrow> py_error + attachment option" where
  "find_attachment transaction attachments =
     (let ref_norm = normalize_reference (tx_reference transaction);
          by_ref = (if truthy ref_norm then List.find (reference_match transaction) attachments
                    else None)
      in case by_ref of
           Some att \<Rightarrow> Inr (Some att)
         | None \<Rightarrow>
        (case parse_date (tx_date transaction) of
           None \<Rightarrow> Inr None
         | Some txd \<Rightarrow>
        (case amt_candidates transaction txd attachments of
           Inl e \<Rightarrow> Inl e
         | Inr cands \<Rightarrow>
             if cands = [] then Inr None
             else if truthy (tx_contact transaction) then
               (case filter_similar (tx_contact transaction) cands of
                  Inl e \<Rightarrow> Inl e
                | Inr filtered \<Rightarrow> if filtered \<noteq> [] then select_best filtered else Inr None)
             else
               let exact_date = filter (\<lambda>c. cand_dist c = 0) cands
               in if length exact_date = 1 then
                    (case getitem exact_date 0 of
                       Inl e \<Rightarrow> Inl e
                     | Inr c \<Rightarrow> Inr (Some (fst c)))
                  else if exact_date \<noteq> [] then
                    (case select_best exact_date of
                       Inl e \<Rightarrow> Inl e
                     | Inr best \<Rightarrow>
                         let top_score = filter (\<lambda>c. is_pure_score (cand_score c)) exact_date
                         in if length top_score = 1 then Inr best else Inr None)
                  else Inr None)))"

subsection \<open>find_transaction\<close>

text \<open>The inner loop \<^verbatim>\<open>for name in _attachment_names(attachment): name_sim = max(...)\<close>
  is \<open>best_loop\<close> from 0, under the guard \<^verbatim>\<open>if tx.get("contact")\<close>.\<close>

fun tx_candidates ::
  "attachment \<Rightarrow> transaction list \<Rightarrow> py_error + transaction candidate list" where
  "tx_candidates attachment [] = Inr []"
| "tx_candidates attachment (tx # txs) =
     (if \<not> is_amount_match tx attachment then tx_candidates attachment txs
      else
        (case parse_date (tx_date tx) of
           None \<Rightarrow> tx_candidates attachment txs
         | Some txd \<Rightarrow>
             (let dist_days = date_distance_days txd attachment
              in (case (if truthy (tx_contact tx)
                        then best_loop (tx_contact tx) 0 (attachment_names attachment)
                        else Inr 0) of
                    Inl e \<Rightarrow> Inl e
                  | Inr name_sim \<Rightarrow>
                      (let score = composite name_sim (date_bonus dist_days)
                       in (case tx_candidates attachment txs of
                             Inl e \<Rightarrow> Inl e
                           | Inr rest \<Rightarrow> Inr ((tx, score, dist_days) # rest)))))))"

text \<open>Lines 225 to 228, reached when the name-based branch is not taken or selects
  nothing: the only candidate of the same day, if there is exactly one.\<close>

definition same_day_fallback ::
  "transaction candidate list \<Rightarrow> py_error + transaction option" where
  "same_day_fallback candidates =
     (let exact_date = filter (\<lambda>c. cand_dist c = 0) candidates
      in if length exact_date = 1 then
           (case getitem exact_date 0 of
              Inl e \<Rightarrow> Inl e
            | Inr c \<Rightarrow> Inr (Some (fst c)))
         else Inr None)"

definition find_transaction ::
  "attachment \<Rightarrow> transaction list \<Rightarrow> py_error + transaction option" where
  "find_transaction attachment transactions =
     (let att_ref = normalize_reference (reference (get_data attachment));
          by_ref = (if truthy att_ref
                    then List.find (\<lambda>tx. reference_match tx attachment) transactions
                    else None)
      in case by_ref of
           Some tx \<Rightarrow> Inr (Some tx)
         | None \<Rightarrow>
        (case tx_candidates attachment transactions of
           Inl e \<Rightarrow> Inl e
         | Inr candidates \<Rightarrow>
             if candidates = [] then Inr None
             else
               let has_names = (attachment_names attachment \<noteq> []);
                   with_contact = filter (\<lambda>c. truthy (tx_contact (fst c))) candidates
               in if has_names \<and> with_contact \<noteq> [] then
                    (let filtered = filter (\<lambda>c. cand_score c \<ge> 3 / 2) with_contact
                     in if filtered \<noteq> [] then
                          (case getitem (sort_key tx_key filtered) 0 of
                             Inl e \<Rightarrow> Inl e
                           | Inr c \<Rightarrow> Inr (Some (fst c)))
                        else same_day_fallback candidates)
                  else same_day_fallback candidates))"

subsection \<open>Quantities named by the specification\<close>

text \<open>The value of \<^verbatim>\<open>_best_name_similarity\<close> (it never raises, see
  \<open>best_name_similarity_eq\<close> below) and the composite score that the loop of
  \<^verbatim>\<open>find_attachment\<close> gives an attachment, as functions of the attachment.\<close>

definition name_sim_of :: "str option \<Rightarrow> attachment \<Rightarrow> rat" where
  "name_sim_of contact att =
     (case best_name_similarity contact att of Inl e \<Rightarrow> 0 | Inr s \<Rightarrow> s)"

definition composite_of :: "transaction \<Rightarrow> int \<Rightarrow> attachment \<Rightarrow> rat" where
  "composite_of tx txd att =
     composite (name_sim_of (tx_contact tx) att) (date_bonus (date_distance_days txd att))"

text \<open>The candidate that the loop of \<^verbatim>\<open>find_transaction\<close> builds from one transaction,
  if it builds one.\<close>

definition tx_candidate_of :: "attachment \<Rightarrow> transaction \<Rightarrow> transaction candidate option" where
  "tx_candidate_of att tx =
     (if \<not> is_amount_match tx att then None
      else case parse_date (tx_date tx) of
             None \<Rightarrow> None
           | Some txd \<Rightarrow>
               Some (tx,
                     composite (name_sim_of (tx_contact tx) att)
                       (date_bonus (date_distance_days txd att)),
                     date_distance_days txd att))"

text \<open>Phase 1 of both directions: the record found by the reference scan, if any.\<close>

definition att_by_reference :: "transaction \<Rightarrow> attachment list \<Rightarrow> attachment option" where
  "att_by_reference tx atts =
     (if truthy (normalize_reference (tx_reference tx))
      then List.find (reference_match tx) atts else None)"

definition tx_by_reference :: "attachment \<Rightarrow> transaction list \<Rightarrow> transaction option" where
  "tx_by_reference att txs =
     (if truthy (normalize_reference (reference (get_data att)))
      then List.find (\<lambda>tx. reference_match tx att) txs else None)"

text \<open>The list that \<^verbatim>\<open>find_attachment\<close> hands to \<^verbatim>\<open>_select_best\<close> for a transaction
  with a contact (\<^verbatim>\<open>filtered\<close>, line 154), and the list that \<^verbatim>\<open>find_transaction\<close> sorts
  (\<^verbatim>\<open>filtered\<close>, line 218).\<close>

definition att_ranked :: "transaction \<Rightarrow> int \<Rightarrow> attachment list \<Rightarrow> attachment candidate list" where
  "att_ranked tx txd atts =
     (case amt_candidates tx txd atts of
        Inl e \<Rightarrow> []
      | Inr cands \<Rightarrow>
          (case filter_similar (tx_contact tx) cands of Inl e \<Rightarrow> [] | Inr filtered \<Rightarrow> filtered))"

definition tx_ranked :: "attachment \<Rightarrow> transaction list \<Rightarrow> transaction candidate list" where
  "tx_ranked att txs =
     (case tx_candidates att txs of
        Inl e \<Rightarrow> []
      | Inr candidates \<Rightarrow>
          filter (\<lambda>c. cand_score c \<ge> 3 / 2)
            (filter (\<lambda>c. truthy (tx_contact (fst c))) candidates))"

text \<open>The exact value of the score formula, without rounding.\<close>

definition exact_score :: "rat \<Rightarrow> int \<Rightarrow> rat" where
  "exact_score name_sim dist_days =
     1 + name_sim + (if dist_days \<le> 30 then 1 - of_int dist_days / 30 else 0)"

text \<open>\<open>normalizeReference\<close> as the specification words it: all whitespace is stripped,
  the result is upper-cased, and leading zeros are stripped from a result that consists
  solely of the decimal digits 0 to 9.\<close>

definition decimal_digit :: "int \<Rightarrow> bool" where
  "decimal_digit c = (0x30 \<le> c \<and> c \<le> 0x39)"

definition normalizeReference_spec :: "str option \<Rightarrow> str option" where
  "normalizeReference_spec ref =
     (case ref of
        None \<Rightarrow> None
      | Some r \<Rightarrow>
          if r = [] then None
          else
            let s = upper (filter (\<lambda>c. \<not> is_space c) r)
            in if s \<noteq> [] \<and> list_all decimal_digit s
               then (if list_all (\<lambda>c. c = 0x30) s then Some (ustr ''0'')
                     else Some (dropWhile (\<lambda>c. c = 0x30) s))
               else Some s)"

subsection \<open>Example records\<close>

definition ex_tx_ref :: transaction where
  "ex_tx_ref = \<lparr>tx_id = 1, tx_amount = Some 500, tx_date = None,
     tx_reference = Some (ustr ''123''), tx_contact = Some (ustr ''Acme'')\<rparr>"

definition ex_att_ref :: "int \<Rightarrow> string \<Rightarrow> attachment" where
  "ex_att_ref i ref = \<lparr>att_id = i, att_data = Some (empty_data\<lparr>supplier := Some (ustr ''Other Oy''),
     total_amount := Some 7, reference := Some (ustr ref), due_date := Some (ustr ''2020-02-02'')\<rparr>)\<rparr>"

definition ex_tx :: "string option \<Rightarrow> transaction" where
  "ex_tx contact = \<lparr>tx_id = 1, tx_amount = Some (- 500), tx_date = Some (ustr ''2024-01-10''),
     tx_reference = None, tx_contact = map_option ustr contact\<rparr>"

definition ex_att :: "int \<Rightarrow> rat \<Rightarrow> string \<Rightarrow> string option \<Rightarrow> attachment" where
  "ex_att i amt due name = \<lparr>att_id = i, att_data = Some (empty_data\<lparr>supplier := map_option ustr name,
     total_amount := Some amt, due_date := Some (ustr due)\<rparr>)\<rparr>"

definition ex_cands :: "attachment candidate list" where
  "ex_cands =
     [(ex_att 1 500 ''2024-01-10'' None, 2, 0), (ex_att 4 500 ''2024-01-11'' None, 5 / 2, 1),
      (ex_att 2 500 ''2024-01-13'' None, 5 / 2, 3), (ex_att 3 500 ''2024-01-11'' None, 5 / 2, 1)]"

definition ex_tx_cands :: "transaction candidate list" where
  "ex_tx_cands =
     [((ex_tx None)\<lparr>tx_id := 7\<rparr>, 3 / 2, 0), ((ex_tx None)\<lparr>tx_id := 5\<rparr>, 2, 15),
      ((ex_tx None)\<lparr>tx_id := 6\<rparr>, 2, 4)]"

definition ex_tx_at :: "int \<Rightarrow> string \<Rightarrow> string option \<Rightarrow> transaction" where
  "ex_tx_at i day contact = (ex_tx contact)\<lparr>tx_id := i, tx_date := Some (ustr day)\<rparr>"

definition ex_tx_blank :: transaction where
  "ex_tx_blank = \<lparr>tx_id = 9, tx_amount = None, tx_date = Some (ustr ''tomorrow''),
     tx_reference = Some (ustr '' ''), tx_contact = Some []\<rparr>"

definition ex_att_nodata :: attachment where
  "ex_att_nodata = \<lparr>att_id = 8, att_data = None\<rparr>"

section \<open>Rounding to a double\<close>

lemma rhe_near: "\<bar>x - of_int (round_half_even x)\<bar> \<le> 1 / 2"
  unfolding round_half_even_def Let_def
  by (auto simp: abs_if) linarith+

lemma rhe_mono:
  assumes "x \<le> y" shows "round_half_even x \<le> round_half_even y"
proof (rule ccontr)
  assume "\<not> ?thesis"
  then have gt: "round_half_even y + 1 \<le> round_half_even x" by simp
  then have "(of_int (round_half_even y) :: rat) + 1 \<le> of_int (round_half_even x)"
    by (metis of_int_1 of_int_add of_int_le_iff)
  with rhe_near[of x] rhe_near[of y] assms have "x = y" by (simp add: abs_if split: if_splits)
  with gt show False by simp
qed

lemma rhe_int [simp]: "round_half_even (of_int n) = n"
  by (simp add: round_half_even_def)

lemma binade_bounds:
  assumes "0 < x"
  shows "2 powi binade x \<le> x \<and> x < 2 powi (binade x + 1)"
proof (cases "1 \<le> x")
  case True
  let ?n = "\<lfloor>x\<rfloor>"
  from True have n: "0 < ?n" by simp
  from bitlen_bounds[OF n]
  have b: "2 ^ nat (bitlen ?n - 1) \<le> ?n" "?n < 2 ^ nat (bitlen ?n)" by auto
  from n have pos: "1 \<le> bitlen ?n" by (auto simp: bitlen_alt_def)
  have e: "binade x = bitlen ?n - 1" using True by (simp add: binade_def)
  have "(2::rat) powi binade x = 2 ^ nat (bitlen ?n - 1)"
    using pos by (simp add: e power_int_def)
  also have "\<dots> = of_int (2 ^ nat (bitlen ?n - 1))" by simp
  also have "\<dots> \<le> of_int ?n" using b(1) by (simp only: of_int_le_iff)
  also have "\<dots> \<le> x" by simp
  finally have lo: "2 powi binade x \<le> x" .
  have "?n + 1 \<le> 2 ^ nat (bitlen ?n)" using b(2) by simp
  then have "(of_int (?n + 1) :: rat) \<le> of_int (2 ^ nat (bitlen ?n))" by (simp only: of_int_le_iff)
  moreover have "x < of_int (?n + 1)" by linarith
  moreover have "(2::rat) powi (binade x + 1) = 2 ^ nat (bitlen ?n)"
    using pos by (simp add: e power_int_def)
  ultimately have "x < 2 powi (binade x + 1)" by simp
  with lo show ?thesis ..
next
  case False
  with assms have x1: "x < 1" by simp
  define y where "y = 1 / x"
  define m where "m = \<lceil>y\<rceil> - 1"
  define k where "k = nat (bitlen m)"
  from assms x1 have y1: "1 < y" by (simp add: y_def)
  then have m: "0 < m" unfolding m_def by linarith
  from bitlen_bounds[OF m]
  have b: "2 ^ nat (bitlen m - 1) \<le> m" "m < 2 ^ k" by (auto simp: k_def)
  from m have pos: "1 \<le> bitlen m" by (auto simp: bitlen_alt_def)
  then have k: "bitlen m = int k" "nat (bitlen m - 1) = k - 1" "1 \<le> k"
    by (auto simp: k_def)
  have "binade x = - bitlen m" using False by (simp add: binade_def y_def m_def)
  then have e: "binade x = - int k" by (simp add: k)
  have my: "of_int m < y" "y \<le> of_int m + 1" unfolding m_def by linarith+
  have "m + 1 \<le> 2 ^ k" using b(2) by simp
  then have "(of_int (m + 1) :: rat) \<le> of_int (2 ^ k)" by (simp only: of_int_le_iff)
  then have "of_int m + 1 \<le> (2::rat) ^ k" by simp
  with my(2) have yk: "y \<le> 2 ^ k" by linarith
  have "(of_int (2 ^ (k - 1)) :: rat) \<le> of_int m" using b(1) k(2) by (simp only: of_int_le_iff)
  then have "(2::rat) ^ (k - 1) \<le> of_int m" by simp
  with my(1) have yk1: "2 ^ (k - 1) < y" by linarith
  have p1: "(2::rat) powi binade x = 1 / 2 ^ k"
    by (simp add: e power_int_minus field_simps)
  have "binade x + 1 = - int (k - 1)" using k(3) by (simp add: e)
  then have p2: "(2::rat) powi (binade x + 1) = 1 / 2 ^ (k - 1)"
    by (simp add: power_int_minus field_simps)
  have xy: "x = 1 / y" using assms by (simp add: y_def)
  have ypos: "0 < y" using y1 by simp
  have lo: "1 / 2 ^ k \<le> x" unfolding xy using yk ypos by (simp add: field_simps)
  have hi: "x < 1 / 2 ^ (k - 1)" unfolding xy using yk1 ypos by (simp add: field_simps)
  from lo hi show ?thesis by (simp add: p1 p2)
qed

lemma round_double_pos:
  "0 < x \<Longrightarrow> round_double x
     = of_int (round_half_even (x / 2 powi (binade x - 52))) * 2 powi (binade x - 52)"
  by (simp add: round_double_def Let_def)

lemma grid_mono:
  fixes q :: rat
  assumes "0 < q" "x \<le> y"
  shows "of_int (round_half_even (x / q)) * q \<le> of_int (round_half_even (y / q)) * q"
proof -
  from assms have "x / q \<le> y / q" by (simp add: divide_right_mono)
  then have "round_half_even (x / q) \<le> round_half_even (y / q)" by (rule rhe_mono)
  then have "(of_int (round_half_even (x / q)) :: rat) \<le> of_int (round_half_even (y / q))"
    by (simp only: of_int_le_iff)
  with assms(1) show ?thesis by (simp add: mult_right_mono)
qed

lemma grid_exact:
  fixes q :: rat
  assumes "0 < q" "x = of_int n * q"
  shows "of_int (round_half_even (x / q)) * q = x"
  using assms by simp

lemma pow_on_grid: "(2::rat) powi e = of_int (2 ^ 52) * 2 powi (e - 52)"
proof -
  have "(2::rat) powi e = 2 powi (52 + (e - 52))" by simp
  also have "\<dots> = 2 powi 52 * 2 powi (e - 52)" by (rule power_int_add) simp
  finally show ?thesis by simp
qed

lemma pow_succ_on_grid: "(2::rat) powi (e + 1) = of_int (2 ^ 53) * 2 powi (e - 52)"
proof -
  have "e + 1 = 53 + (e - 52)" by simp
  then have "(2::rat) powi (e + 1) = 2 powi (53 + (e - 52))" by (rule arg_cong)
  also have "\<dots> = 2 powi 53 * 2 powi (e - 52)" by (rule power_int_add) simp
  finally show ?thesis by simp
qed

lemma round_double_binade:
  assumes "0 < x"
  shows "2 powi binade x \<le> round_double x \<and> round_double x \<le> 2 powi (binade x + 1)"
proof -
  define e where "e = binade x"
  define q :: rat where "q = 2 powi (e - 52)"
  have q: "0 < q" by (simp add: q_def)
  from binade_bounds[OF assms] have b: "2 powi e \<le> x" "x \<le> 2 powi (e + 1)"
    by (simp_all add: e_def)
  have r: "round_double x = of_int (round_half_even (x / q)) * q"
    using round_double_pos[OF assms] by (simp add: e_def q_def)
  have "of_int (round_half_even (2 powi e / q)) * q = 2 powi e"
    by (rule grid_exact[OF q]) (simp add: q_def pow_on_grid[of e])
  with grid_mono[OF q b(1)] have lo: "2 powi e \<le> round_double x" by (simp add: r)
  have "of_int (round_half_even (2 powi (e + 1) / q)) * q = 2 powi (e + 1)"
    by (rule grid_exact[OF q]) (simp add: q_def pow_succ_on_grid[of e])
  with grid_mono[OF q b(2)] have hi: "round_double x \<le> 2 powi (e + 1)" by (simp add: r)
  from lo hi show ?thesis by (simp add: e_def)
qed

lemma binade_mono:
  assumes "0 < x" "x \<le> y"
  shows "binade x \<le> binade y"
proof (rule ccontr)
  assume "\<not> ?thesis"
  then have "binade y + 1 \<le> binade x" by simp
  then have "(2::rat) powi (binade y + 1) \<le> 2 powi binade x"
    by (intro power_int_increasing) simp_all
  with binade_bounds[OF assms(1)] binade_bounds[of y] assms show False by simp
qed

lemma round_double_mono_pos:
  assumes "0 < x" "x \<le> y"
  shows "round_double x \<le> round_double y"
proof (cases "binade x = binade y")
  case True
  from assms have y: "0 < y" by simp
  have "0 < (2::rat) powi (binade y - 52)" by simp
  from grid_mono[OF this assms(2)] show ?thesis
    by (simp add: round_double_pos[OF assms(1)] round_double_pos[OF y] True)
next
  case False
  from assms have y: "0 < y" by simp
  from False binade_mono[OF assms] have "binade x + 1 \<le> binade y" by simp
  then have "(2::rat) powi (binade x + 1) \<le> 2 powi binade y"
    by (intro power_int_increasing) simp_all
  with round_double_binade[OF assms(1)] round_double_binade[OF y] show ?thesis by simp
qed

lemma round_double_zero [simp]: "round_double 0 = 0"
  by (simp add: round_double_def)

lemma round_double_minus: "round_double (- x) = - round_double x"
  by (simp add: round_double_def Let_def sgn_minus)

lemma round_double_pos_pos:
  assumes "0 < x" shows "0 < round_double x"
proof -
  have "(0::rat) < 2 powi binade x" by simp
  also have "\<dots> \<le> round_double x" using round_double_binade[OF assms] ..
  finally show ?thesis .
qed

lemma round_double_mono:
  assumes "x \<le> y"
  shows "round_double x \<le> round_double y"
proof -
  consider "0 < x" | "x = 0" | "x < 0" "0 \<le> y" | "x < 0" "y < 0" by linarith
  then show ?thesis
  proof cases
    case 1
    then show ?thesis using assms by (rule round_double_mono_pos)
  next
    case 2
    with assms have "y = 0 \<or> 0 < y" by auto
    with 2 round_double_pos_pos[of y] show ?thesis by auto
  next
    case 3
    from 3(1) have "0 < round_double (- x)" by (intro round_double_pos_pos) simp
    then have "round_double x < 0" by (simp add: round_double_minus)
    moreover from 3(2) have "0 \<le> round_double y"
      using round_double_pos_pos[of y] by (cases "y = 0") auto
    ultimately show ?thesis by simp
  next
    case 4
    then have "0 < - y" "- y \<le> - x" using assms by simp_all
    from round_double_mono_pos[OF this] show ?thesis by (simp add: round_double_minus)
  qed
qed

text \<open>The relative error of a rounding is at most \<open>1 / 2 ^ 53\<close>.\<close>

lemma round_double_error_pos:
  assumes "0 < x"
  shows "\<bar>round_double x - x\<bar> \<le> x / 2 ^ 53"
proof -
  define q :: rat where "q = 2 powi (binade x - 52)"
  have q: "0 < q" by (simp add: q_def)
  have r: "round_double x = of_int (round_half_even (x / q)) * q"
    using round_double_pos[OF assms] by (simp add: q_def)
  have "round_double x - x = (of_int (round_half_even (x / q)) - x / q) * q"
    using q by (simp add: r field_simps)
  then have "\<bar>round_double x - x\<bar> = \<bar>x / q - of_int (round_half_even (x / q))\<bar> * q"
    using q by (simp add: abs_mult abs_minus_commute)
  also have "\<dots> \<le> 1 / 2 * q" using rhe_near[of "x / q"] q by (intro mult_right_mono) simp_all
  also have "\<dots> = 2 powi binade x / 2 ^ 53"
    by (simp add: q_def pow_on_grid[of "binade x"])
  also have "\<dots> \<le> x / 2 ^ 53"
    using binade_bounds[OF assms] by (simp add: divide_right_mono)
  finally show ?thesis .
qed

lemma round_double_error: "\<bar>round_double x - x\<bar> \<le> \<bar>x\<bar> / 2 ^ 53"
proof -
  consider "0 < x" | "x = 0" | "x < 0" by linarith
  then show ?thesis
  proof cases
    case 1
    with round_double_error_pos[OF 1] show ?thesis by simp
  next
    case 2
    then show ?thesis by simp
  next
    case 3
    then have "0 < - x" by simp
    from round_double_error_pos[OF this] 3 show ?thesis
      by (simp add: round_double_minus abs_if split: if_splits)
  qed
qed

lemma round_double_consts:
  "round_double 1 = 1" "round_double 2 = 2" "round_double 3 = 3"
  by code_simp+

lemma lit_1e_6_pos: "0 < lit_1e_6"
  unfolding lit_1e_6_def by (rule round_double_pos_pos) simp

section \<open>Auxiliary lemmas\<close>

lemma round_double_unit: "0 \<le> x \<Longrightarrow> x \<le> 1 \<Longrightarrow> 0 \<le> round_double x \<and> round_double x \<le> 1"
  using round_double_mono[of 0 x] round_double_mono[of x 1] by (simp add: round_double_consts)

lemma finite_tokenize: "finite (tokenize n)"
  by (simp add: tokenize_def Let_def split: option.splits)

lemma name_similarity_total:
  "\<exists>s. name_similarity a b = Inr s \<and> 0 \<le> s \<and> s \<le> 1"
proof -
  let ?ta = "tokenize a" and ?tb = "tokenize b"
  have fin: "finite (?ta \<union> ?tb)" by (simp add: finite_tokenize)
  show ?thesis
  proof (cases "?ta = {} \<or> ?tb = {} \<or> card (?ta \<inter> ?tb) = 0")
    case True
    then show ?thesis by (auto simp: name_similarity_def Let_def)
  next
    case False
    then have ne: "?ta \<union> ?tb \<noteq> {}" by auto
    with fin have pos: "0 < card (?ta \<union> ?tb)" by (simp add: card_gt_0_iff)
    have le: "card (?ta \<inter> ?tb) \<le> card (?ta \<union> ?tb)"
      by (rule card_mono[OF fin]) auto
    have "0 \<le> (of_int (int (card (?ta \<inter> ?tb))) :: rat) / of_int (int (card (?ta \<union> ?tb)))"
      by simp
    moreover have "(of_int (int (card (?ta \<inter> ?tb))) :: rat) / of_int (int (card (?ta \<union> ?tb))) \<le> 1"
      using pos le by simp
    ultimately have "0 \<le> int_quotient (int (card (?ta \<inter> ?tb))) (int (card (?ta \<union> ?tb)))
        \<and> int_quotient (int (card (?ta \<inter> ?tb))) (int (card (?ta \<union> ?tb))) \<le> 1"
      unfolding int_quotient_def by (rule round_double_unit)
    with False pos show ?thesis
      by (simp add: name_similarity_def Let_def truediv_def)
  qed
qed

lemma best_loop_total:
  "0 \<le> best \<Longrightarrow> best \<le> 1 \<Longrightarrow> \<exists>s. best_loop c best names = Inr s \<and> 0 \<le> s \<and> s \<le> 1"
proof (induction names arbitrary: best)
  case Nil
  then show ?case by simp
next
  case (Cons name names)
  obtain s where s: "name_similarity c (Some name) = Inr s" "0 \<le> s" "s \<le> 1"
    using name_similarity_total by blast
  have "0 \<le> max best s" "max best s \<le> 1" using Cons.prems s by auto
  from Cons.IH[OF this] s(1) show ?case by simp
qed

lemma best_name_similarity_total:
  "\<exists>s. best_name_similarity c att = Inr s \<and> 0 \<le> s \<and> s \<le> 1"
  using best_loop_total[of 0 c "attachment_names att"]
  by (auto simp: best_name_similarity_def)

lemma best_name_similarity_eq: "best_name_similarity c att = Inr (name_sim_of c att)"
  using best_name_similarity_total[of c att] by (auto simp: name_sim_of_def)

lemma name_sim_of_bounds: "0 \<le> name_sim_of c att" "name_sim_of c att \<le> 1"
  using best_name_similarity_total[of c att] by (auto simp: name_sim_of_def)

lemma name_sim_of_no_contact: "\<not> truthy c \<Longrightarrow> name_sim_of c att = 0"
  by (simp add: name_sim_of_def best_name_similarity_def)

lemma fold_min_nonneg: "(0::int) \<le> x \<Longrightarrow> \<forall>y\<in>set xs. 0 \<le> y \<Longrightarrow> 0 \<le> fold min xs x"
  by (induction xs arbitrary: x) auto

lemma date_distance_days_nonneg: "0 \<le> date_distance_days txd att"
  by (auto simp: date_distance_days_def Let_def split: list.splits intro!: fold_min_nonneg)

text \<open>The quotient \<^verbatim>\<open>dist / 30\<close> and the date bonus stay in the unit interval after
  rounding.\<close>

lemma int_quotient_30_bounds:
  assumes "0 \<le> dd" "dd \<le> 30"
  shows "0 \<le> int_quotient dd 30 \<and> int_quotient dd 30 \<le> 1"
  unfolding int_quotient_def using assms by (intro round_double_unit) simp_all

lemma date_bonus_bounds: "0 \<le> dd \<Longrightarrow> 0 \<le> date_bonus dd \<and> date_bonus dd \<le> 1"
proof (cases "dd \<le> 30")
  case False
  then show ?thesis by (simp add: date_bonus_def)
next
  case True
  assume "0 \<le> dd"
  from int_quotient_30_bounds[OF this True]
  have "0 \<le> 1 - int_quotient dd 30" "1 - int_quotient dd 30 \<le> 1" by simp_all
  then have "0 \<le> round_double (1 - int_quotient dd 30) \<and> round_double (1 - int_quotient dd 30) \<le> 1"
    by (rule round_double_unit)
  with True show ?thesis by (simp add: date_bonus_def fsub_def)
qed

lemma composite_bounds:
  assumes "0 \<le> ns" "ns \<le> 1" "0 \<le> b" "b \<le> 1"
  shows "1 \<le> composite ns b \<and> composite ns b \<le> 3"
proof -
  have s: "1 \<le> fadd 1 ns \<and> fadd 1 ns \<le> 2"
    unfolding fadd_def
    using round_double_mono[of 1 "1 + ns"] round_double_mono[of "1 + ns" 2] assms
    by (simp add: round_double_consts)
  then have "1 \<le> fadd 1 ns + b" "fadd 1 ns + b \<le> 3" using assms by simp_all
  then show ?thesis
    unfolding composite_def fadd_def[of "fadd 1 ns" b]
    using round_double_mono[of 1 "fadd 1 ns + b"] round_double_mono[of "fadd 1 ns + b" 3]
    by (simp add: round_double_consts)
qed

text \<open>The score is the exact value of the formula up to the rounding of the four
  operations.\<close>

lemma date_bonus_error:
  assumes "0 \<le> dd" "dd \<le> 30"
  shows "\<bar>date_bonus dd - (1 - of_int dd / 30)\<bar> \<le> 2 / 2 ^ 53"
proof -
  define q where "q = int_quotient dd 30"
  have x: "0 \<le> (of_int dd :: rat) / 30" "(of_int dd :: rat) / 30 \<le> 1" using assms by simp_all
  have "\<bar>q - of_int dd / 30\<bar> \<le> \<bar>of_int dd / 30\<bar> / 2 ^ 53"
    unfolding q_def int_quotient_def using round_double_error[of "of_int dd / of_int 30"] by simp
  also have "\<dots> \<le> 1 / 2 ^ 53" using x by (simp add: divide_right_mono)
  finally have e1: "\<bar>q - of_int dd / 30\<bar> \<le> 1 / 2 ^ 53" .
  from int_quotient_30_bounds[OF assms] have qb: "0 \<le> q" "q \<le> 1" by (simp_all add: q_def)
  have "\<bar>round_double (1 - q) - (1 - q)\<bar> \<le> \<bar>1 - q\<bar> / 2 ^ 53" by (rule round_double_error)
  also have "\<dots> \<le> 1 / 2 ^ 53" using qb by (simp add: divide_right_mono)
  finally have e2: "\<bar>round_double (1 - q) - (1 - q)\<bar> \<le> 1 / 2 ^ 53" .
  have "date_bonus dd = round_double (1 - q)" using assms by (simp add: date_bonus_def fsub_def q_def)
  with e1 e2 show ?thesis by (simp add: abs_if split: if_splits)
qed

lemma composite_error:
  assumes "0 \<le> ns" "ns \<le> 1" "0 \<le> b" "b \<le> 1"
  shows "\<bar>composite ns b - (1 + ns + b)\<bar> \<le> 5 / 2 ^ 53"
proof -
  define s where "s = fadd 1 ns"
  have "\<bar>s - (1 + ns)\<bar> \<le> \<bar>1 + ns\<bar> / 2 ^ 53"
    unfolding s_def fadd_def by (rule round_double_error)
  also have "\<dots> \<le> 2 / 2 ^ 53" using assms by (simp add: divide_right_mono)
  finally have e1: "\<bar>s - (1 + ns)\<bar> \<le> 2 / 2 ^ 53" .
  have sb: "1 \<le> s" "s \<le> 2"
    unfolding s_def fadd_def
    using round_double_mono[of 1 "1 + ns"] round_double_mono[of "1 + ns" 2] assms
    by (simp_all add: round_double_consts)
  have "\<bar>round_double (s + b) - (s + b)\<bar> \<le> \<bar>s + b\<bar> / 2 ^ 53" by (rule round_double_error)
  also have "\<dots> \<le> 3 / 2 ^ 53" using sb assms by (simp add: divide_right_mono)
  finally have e2: "\<bar>round_double (s + b) - (s + b)\<bar> \<le> 3 / 2 ^ 53" .
  have "composite ns b = round_double (s + b)" by (simp add: composite_def fadd_def s_def)
  with e1 e2 show ?thesis by (simp add: abs_if split: if_splits)
qed

lemma composite_exact_score:
  assumes "0 \<le> ns" "ns \<le> 1" "0 \<le> dd"
  shows "\<bar>composite ns (date_bonus dd) - exact_score ns dd\<bar> \<le> 7 / 2 ^ 53"
proof (cases "dd \<le> 30")
  case True
  from date_bonus_bounds[OF assms(3)] have b: "0 \<le> date_bonus dd" "date_bonus dd \<le> 1" by simp_all
  from composite_error[OF assms(1,2) b] date_bonus_error[OF assms(3) True] True
  show ?thesis by (simp add: exact_score_def abs_if split: if_splits)
next
  case False
  then have z: "date_bonus dd = 0" by (simp add: date_bonus_def)
  from composite_error[OF assms(1,2), of 0] False
  show ?thesis by (simp add: exact_score_def z abs_if split: if_splits)
qed

lemma amt_candidates_eq:
  "amt_candidates tx txd atts =
     Inr (map (\<lambda>a. (a, composite_of tx txd a, date_distance_days txd a))
            (filter (is_amount_match tx) atts))"
  by (induction atts) (simp_all add: best_name_similarity_eq composite_of_def Let_def)

lemma filter_similar_eq:
  "filter_similar c cs = Inr (filter (\<lambda>x. 1 / 2 \<le> name_sim_of c (fst x)) cs)"
  by (induction cs) (simp_all add: best_name_similarity_eq)

lemma getitem_0: "xs \<noteq> [] \<Longrightarrow> getitem xs 0 = Inr (hd xs)"
  by (cases xs) (simp_all add: getitem_def)

lemma select_best_eq:
  "select_best cs = Inr (if cs = [] then None else Some (fst (hd (sort_key att_key cs))))"
proof (cases "cs = []")
  case True then show ?thesis by (simp add: select_best_def)
next
  case False
  then have "sort_key att_key cs \<noteq> []" by (metis length_sort length_0_conv)
  with False show ?thesis by (simp add: select_best_def getitem_0)
qed

section \<open>The normalizer\<close>

lemma lookup_range_Some:
  "lookup_range rs c = Some v \<Longrightarrow> \<exists>(lo, hi, step, u) \<in> set rs. lo \<le> c \<and> v = u + (c - lo)"
  by (induction rs) (auto split: if_splits)

lemma upper_ranges_above_blank: "list_all (\<lambda>(lo, hi, step, u). 0x20 < u) upper_ranges"
  by code_simp

lemma upper_special_no_blank: "list_all (\<lambda>(k, cs). 0x20 \<notin> set cs) upper_special"
  by code_simp

lemma upper_char_no_blank:
  assumes "c \<noteq> 0x20"
  shows "0x20 \<notin> set (upper_char c)"
proof (cases "c < 0x80")
  case True
  with assms show ?thesis by (auto simp: upper_char_def)
next
  case False
  show ?thesis
  proof (cases "map_of upper_special c")
    case (Some cs)
    then have "(c, cs) \<in> set upper_special" by (rule map_of_SomeD)
    with upper_special_no_blank have "0x20 \<notin> set cs" by (auto simp: list_all_iff)
    with False Some show ?thesis by (simp add: upper_char_def)
  next
    case None
    show ?thesis
    proof (cases "lookup_range upper_ranges c")
      case (Some v)
      from lookup_range_Some[OF this] upper_ranges_above_blank
      have "0x20 < v" by (auto simp: list_all_iff)
      with False None Some show ?thesis by (simp add: upper_char_def)
    next
      case n: None
      with False None show ?thesis by (simp add: upper_char_def)
    qed
  qed
qed

lemma dropWhile_zero_Nil:
  "dropWhile (\<lambda>c. c = (0x30::int)) s = [] \<longleftrightarrow> (\<forall>c\<in>set s. c = 0x30)"
  by (induction s) auto

lemma normalize_reference_eq:
  "r \<noteq> [] \<Longrightarrow>
   normalize_reference (Some r) =
     (let cleaned = upper (filter (\<lambda>c. c \<noteq> 0x20) r)
      in Some (if cleaned \<noteq> [] \<and> list_all is_digit cleaned
               then (if list_all (\<lambda>c. c = 0x30) cleaned then ustr ''0''
                     else dropWhile (\<lambda>c. c = 0x30) cleaned)
               else cleaned))"
  by (simp add: normalize_reference_def Let_def isdigit_def dropWhile_zero_Nil list_all_iff)

lemma normalize_reference_out:
  assumes "normalize_reference (Some r) = Some out"
  shows "0x20 \<notin> set out"
proof -
  let ?cl = "upper (filter (\<lambda>c. c \<noteq> 0x20) r)"
  have cl: "0x20 \<notin> set ?cl"
    by (auto simp: upper_def dest: upper_char_no_blank)
  have sub: "set (dropWhile (\<lambda>c. c = 0x30) ?cl) \<subseteq> set ?cl"
    by (rule set_dropWhileD[THEN subsetI])
  have zero: "0x20 \<notin> set (ustr ''0'')" by (simp add: ustr_def)
  from assms have "out = ?cl \<or> out = dropWhile (\<lambda>c. c = 0x30) ?cl \<or> out = ustr ''0''"
    by (auto simp: normalize_reference_def Let_def split: if_splits)
  with cl sub zero show ?thesis by blast
qed

lemma decimal_digit_is_digit: "decimal_digit c \<Longrightarrow> is_digit c"
  by (simp add: decimal_digit_def is_digit_def)

lemma is_space_blank: "is_space 0x20"
  by (simp add: is_space_def)

lemma normalize_reference_agrees:
  assumes "\<forall>c\<in>set r. is_space c \<longrightarrow> c = 0x20"
    and "\<forall>c\<in>set (upper (filter (\<lambda>c. c \<noteq> 0x20) r)). is_digit c \<longrightarrow> decimal_digit c"
  shows "normalize_reference (Some r) = normalizeReference_spec (Some r)"
proof (cases "r = []")
  case True
  then show ?thesis by (simp add: normalize_reference_def normalizeReference_spec_def)
next
  case False
  have f: "filter (\<lambda>c. \<not> is_space c) r = filter (\<lambda>c. c \<noteq> 0x20) r"
    by (rule filter_cong) (use assms(1) is_space_blank in auto)
  have d: "list_all decimal_digit (upper (filter (\<lambda>c. c \<noteq> 0x20) r))
           = list_all is_digit (upper (filter (\<lambda>c. c \<noteq> 0x20) r))"
    using assms(2) decimal_digit_is_digit by (auto simp: list_all_iff)
  from False show ?thesis
    by (simp add: normalize_reference_eq normalizeReference_spec_def f d Let_def)
qed

text \<open>
  Claim C5, as amended. \<open>normalize_reference\<close> returns \<open>None\<close> for a missing or empty
  reference. Otherwise it removes every space character (U+0020) and upper-cases the rest
  with \<^verbatim>\<open>str.upper\<close>; other whitespace, a tab for instance, is kept. The result has no
  space character. When the cleaned string is not empty and consists solely of characters
  of which \<^verbatim>\<open>str.isdigit\<close> is true (the decimal digits, but also digit characters such as
  the superscript two), its leading characters \<open>0\<close> are stripped, a string of zeros
  collapsing to \<open>0\<close>. On every reference whose only whitespace is the space character and
  whose cleaned form has no digit character other than the decimal digits 0 to 9, the
  function agrees with the specification's \<open>normalizeReference\<close>. The reference \<open>00123\<close>
  normalizes to \<open>123\<close>, and \<open>123\<close> and \<open>123\<close> followed by a space normalize to equal
  strings. The upper-casing is that of Unicode: the reference \<open>strasse 1\<close> written with a
  sharp s (U+00DF) normalizes to \<open>STRASSE1\<close>.
\<close>

theorem normalize_reference_spaces:
  "normalize_reference None = None \<and> normalize_reference (Some []) = None
   \<and> (r \<noteq> [] \<longrightarrow> (\<exists>out. normalize_reference (Some r) = Some out \<and> 0x20 \<notin> set out))
   \<and> (r \<noteq> [] \<longrightarrow>
        normalize_reference (Some r) =
          (let cleaned = upper (filter (\<lambda>c. c \<noteq> 0x20) r)
           in Some (if cleaned \<noteq> [] \<and> list_all is_digit cleaned
                    then (if list_all (\<lambda>c. c = 0x30) cleaned then ustr ''0''
                          else dropWhile (\<lambda>c. c = 0x30) cleaned)
                    else cleaned)))
   \<and> ((\<forall>c\<in>set r. is_space c \<longrightarrow> c = 0x20)
        \<and> (\<forall>c\<in>set (upper (filter (\<lambda>c. c \<noteq> 0x20) r)). is_digit c \<longrightarrow> decimal_digit c) \<longrightarrow>
         normalize_reference (Some r) = normalizeReference_spec (Some r))
   \<and> normalize_reference (Some (ustr ''00123'')) = Some (ustr ''123'')
   \<and> normalize_reference (Some (ustr ''123'')) = normalize_reference (Some (ustr ''123 ''))
   \<and> normalize_reference (Some [0x73, 0x74, 0x72, 0x61, 0xDF, 0x65, 0x20, 0x31])
       = Some (ustr ''STRASSE1'')"
proof -
  have a: "normalize_reference None = None \<and> normalize_reference (Some []) = None"
    by (simp add: normalize_reference_def)
  have b: "r \<noteq> [] \<longrightarrow> (\<exists>out. normalize_reference (Some r) = Some out \<and> 0x20 \<notin> set out)"
  proof
    assume "r \<noteq> []"
    then have "\<exists>out. normalize_reference (Some r) = Some out"
      by (simp add: normalize_reference_def Let_def)
    then obtain out where "normalize_reference (Some r) = Some out" ..
    with normalize_reference_out[OF this]
    show "\<exists>out. normalize_reference (Some r) = Some out \<and> 0x20 \<notin> set out" by blast
  qed
  have c: "r \<noteq> [] \<longrightarrow>
        normalize_reference (Some r) =
          (let cleaned = upper (filter (\<lambda>c. c \<noteq> 0x20) r)
           in Some (if cleaned \<noteq> [] \<and> list_all is_digit cleaned
                    then (if list_all (\<lambda>c. c = 0x30) cleaned then ustr ''0''
                          else dropWhile (\<lambda>c. c = 0x30) cleaned)
                    else cleaned))"
    using normalize_reference_eq by blast
  have d: "(\<forall>c\<in>set r. is_space c \<longrightarrow> c = 0x20)
        \<and> (\<forall>c\<in>set (upper (filter (\<lambda>c. c \<noteq> 0x20) r)). is_digit c \<longrightarrow> decimal_digit c) \<longrightarrow>
         normalize_reference (Some r) = normalizeReference_spec (Some r)"
    using normalize_reference_agrees by blast
  have e: "normalize_reference (Some (ustr ''00123'')) = Some (ustr ''123'')" by code_simp
  have f: "normalize_reference (Some (ustr ''123'')) = normalize_reference (Some (ustr ''123 ''))"
    by code_simp
  have g: "normalize_reference (Some [0x73, 0x74, 0x72, 0x61, 0xDF, 0x65, 0x20, 0x31])
       = Some (ustr ''STRASSE1'')" by code_simp
  from a b c d e f g show ?thesis by blast
qed

text \<open>The theorem at the reference \<open>rf 0a\<close>.\<close>

theorem normalize_reference_spaces_witness:
  "normalize_reference (Some (ustr ''rf 0a'')) = normalizeReference_spec (Some (ustr ''rf 0a''))
   \<and> normalize_reference (Some (ustr ''rf 0a'')) = Some (ustr ''RF0A'')"
proof -
  have h1: "\<forall>c\<in>set (ustr ''rf 0a''). is_space c \<longrightarrow> c = 0x20"
    by code_simp
  have h2: "\<forall>c\<in>set (upper (filter (\<lambda>c. c \<noteq> 0x20) (ustr ''rf 0a''))).
              is_digit c \<longrightarrow> decimal_digit c"
    by code_simp
  have "(\<forall>c\<in>set (ustr ''rf 0a''). is_space c \<longrightarrow> c = 0x20)
        \<and> (\<forall>c\<in>set (upper (filter (\<lambda>c. c \<noteq> 0x20) (ustr ''rf 0a''))).
              is_digit c \<longrightarrow> decimal_digit c) \<longrightarrow>
          normalize_reference (Some (ustr ''rf 0a'')) = normalizeReference_spec (Some (ustr ''rf 0a''))"
    using normalize_reference_spaces[of "ustr ''rf 0a''"] by (elim conjE)
  with h1 h2
  have eq: "normalize_reference (Some (ustr ''rf 0a'')) = normalizeReference_spec (Some (ustr ''rf 0a''))"
    by blast
  have v: "normalize_reference (Some (ustr ''rf 0a'')) = Some (ustr ''RF0A'')" by code_simp
  from eq v show ?thesis by (rule conjI)
qed

text \<open>Claim C5 as stated fails in two ways. "Strips all whitespace": a tab is whitespace, it
  survives the normalization, and \<open>123\<close> followed by a tab does not normalize to the same
  string as \<open>123\<close>. "If the result consists solely of decimal digits": the superscript two
  (U+00B2) is not a decimal digit, yet \<^verbatim>\<open>str.isdigit\<close> is true of it, and the zero of
  \<open>0\<close> followed by a superscript two is stripped.\<close>

theorem normalize_reference_tab_counterexample:
  "is_space 0x09
   \<and> normalize_reference (Some (ustr ''123'' @ [0x09])) = Some (ustr ''123'' @ [0x09])
   \<and> normalizeReference_spec (Some (ustr ''123'' @ [0x09])) = Some (ustr ''123'')
   \<and> normalize_reference (Some (ustr ''123'')) \<noteq> normalize_reference (Some (ustr ''123'' @ [0x09]))
   \<and> \<not> decimal_digit 0xB2
   \<and> normalize_reference (Some [0x30, 0xB2]) = Some [0xB2]
   \<and> normalizeReference_spec (Some [0x30, 0xB2]) = Some [0x30, 0xB2]"
  by code_simp

section \<open>Reference primacy\<close>

lemma find_attachment_by_reference:
  "att_by_reference tx atts = Some a \<Longrightarrow> find_attachment tx atts = Inr (Some a)"
  by (simp add: find_attachment_def att_by_reference_def Let_def)

lemma find_transaction_by_reference:
  "tx_by_reference att txs = Some t \<Longrightarrow> find_transaction att txs = Inr (Some t)"
  by (simp add: find_transaction_def tx_by_reference_def Let_def)

lemma find_first:
  "\<forall>x\<in>set pre. \<not> P x \<Longrightarrow> P y \<Longrightarrow> List.find P (pre @ y # post) = Some y"
  by (induction pre) auto

lemma find_member:
  "y \<in> set xs \<Longrightarrow> P y \<Longrightarrow> \<exists>z. List.find P xs = Some z \<and> P z"
  by (induction xs) auto

text \<open>
  Claim C1. When the references of a transaction and of an attachment normalize to the
  same non-empty string \<open>r\<close>, \<open>find_attachment\<close> returns the attachment and
  \<open>find_transaction\<close> returns the transaction, whatever their amounts, dates and names
  are (nothing is assumed about them). The scan follows the input order: the record
  returned is the first one of the list whose normalized reference is \<open>r\<close>, so it is
  the given record as soon as no record before it has that reference.
\<close>

theorem reference_primacy:
  assumes tx_ref: "normalize_reference (tx_reference tx) = Some r"
    and nonempty: "r \<noteq> []"
    and att_ref: "normalize_reference (reference (get_data att)) = Some r"
  shows "((\<forall>a\<in>set pre. normalize_reference (reference (get_data a)) \<noteq> Some r) \<longrightarrow>
            find_attachment tx (pre @ att # post) = Inr (Some att))
       \<and> ((\<forall>t\<in>set pre'. normalize_reference (tx_reference t) \<noteq> Some r) \<longrightarrow>
            find_transaction att (pre' @ tx # post') = Inr (Some tx))
       \<and> (att \<in> set atts \<longrightarrow>
            (\<exists>a. find_attachment tx atts = Inr (Some a)
               \<and> List.find (\<lambda>a. normalize_reference (reference (get_data a)) = Some r) atts
                   = Some a))
       \<and> (tx \<in> set txs \<longrightarrow>
            (\<exists>t. find_transaction att txs = Inr (Some t)
               \<and> List.find (\<lambda>t. normalize_reference (tx_reference t) = Some r) txs = Some t))"
proof -
  have tr: "truthy (Some r)" using nonempty by (simp add: truthy_def)
  have rm_att: "reference_match tx =
      (\<lambda>a. normalize_reference (reference (get_data a)) = Some r)"
    using tx_ref by (auto simp: reference_match_def Let_def fun_eq_iff)
  have rm_tx: "(\<lambda>t. reference_match t att) =
      (\<lambda>t. normalize_reference (tx_reference t) = Some r)"
    using att_ref by (auto simp: reference_match_def Let_def fun_eq_iff)
  have by_att: "att_by_reference tx xs =
      List.find (\<lambda>a. normalize_reference (reference (get_data a)) = Some r) xs" for xs
    using tr tx_ref by (simp add: att_by_reference_def rm_att)
  have by_tx: "tx_by_reference att xs =
      List.find (\<lambda>t. normalize_reference (tx_reference t) = Some r) xs" for xs
    using tr att_ref by (simp add: tx_by_reference_def rm_tx)
  have c1: "(\<forall>a\<in>set pre. normalize_reference (reference (get_data a)) \<noteq> Some r) \<longrightarrow>
            find_attachment tx (pre @ att # post) = Inr (Some att)"
  proof
    assume "\<forall>a\<in>set pre. normalize_reference (reference (get_data a)) \<noteq> Some r"
    then have "att_by_reference tx (pre @ att # post) = Some att"
      unfolding by_att using att_ref by (intro find_first) auto
    then show "find_attachment tx (pre @ att # post) = Inr (Some att)"
      by (rule find_attachment_by_reference)
  qed
  have c2: "(\<forall>t\<in>set pre'. normalize_reference (tx_reference t) \<noteq> Some r) \<longrightarrow>
            find_transaction att (pre' @ tx # post') = Inr (Some tx)"
  proof
    assume "\<forall>t\<in>set pre'. normalize_reference (tx_reference t) \<noteq> Some r"
    then have "tx_by_reference att (pre' @ tx # post') = Some tx"
      unfolding by_tx using tx_ref by (intro find_first) auto
    then show "find_transaction att (pre' @ tx # post') = Inr (Some tx)"
      by (rule find_transaction_by_reference)
  qed
  have c3: "att \<in> set atts \<longrightarrow>
            (\<exists>a. find_attachment tx atts = Inr (Some a)
               \<and> List.find (\<lambda>a. normalize_reference (reference (get_data a)) = Some r) atts
                   = Some a)"
  proof
    assume "att \<in> set atts"
    from find_member[OF this, of "\<lambda>a. normalize_reference (reference (get_data a)) = Some r"]
      att_ref
    obtain z where z: "List.find (\<lambda>a. normalize_reference (reference (get_data a)) = Some r) atts
        = Some z" by blast
    then have "att_by_reference tx atts = Some z" by (simp add: by_att)
    from find_attachment_by_reference[OF this] z
    show "\<exists>a. find_attachment tx atts = Inr (Some a)
               \<and> List.find (\<lambda>a. normalize_reference (reference (get_data a)) = Some r) atts
                   = Some a" by blast
  qed
  have c4: "tx \<in> set txs \<longrightarrow>
            (\<exists>t. find_transaction att txs = Inr (Some t)
               \<and> List.find (\<lambda>t. normalize_reference (tx_reference t) = Some r) txs = Some t)"
  proof
    assume "tx \<in> set txs"
    from find_member[OF this, of "\<lambda>t. normalize_reference (tx_reference t) = Some r"] tx_ref
    obtain z where z: "List.find (\<lambda>t. normalize_reference (tx_reference t) = Some r) txs
        = Some z" by blast
    then have "tx_by_reference att txs = Some z" by (simp add: by_tx)
    from find_transaction_by_reference[OF this] z
    show "\<exists>t. find_transaction att txs = Inr (Some t)
               \<and> List.find (\<lambda>t. normalize_reference (tx_reference t) = Some r) txs = Some t"
      by blast
  qed
  from c1 c2 c3 c4 show ?thesis by (intro conjI)
qed

text \<open>The theorem on a transaction with reference \<open>123\<close> and an attachment with
  reference \<open>00123\<close> followed by a space, with different amounts, no transaction date and unrelated
  names; a later record with the same reference is not the one returned.\<close>

theorem reference_primacy_witness:
  "find_attachment ex_tx_ref [ex_att_ref 1 ''999'', ex_att_ref 2 ''00123 '', ex_att_ref 3 ''123'']
     = Inr (Some (ex_att_ref 2 ''00123 ''))
   \<and> find_transaction (ex_att_ref 2 ''00123 '')
        [ex_tx_ref\<lparr>tx_id := 5, tx_reference := None\<rparr>, ex_tx_ref, ex_tx_ref\<lparr>tx_id := 6\<rparr>]
     = Inr (Some ex_tx_ref)"
proof -
  have h1: "normalize_reference (tx_reference ex_tx_ref) = Some (ustr ''123'')" by code_simp
  have h2: "ustr ''123'' \<noteq> []" by (simp add: ustr_def)
  have h3: "normalize_reference (reference (get_data (ex_att_ref 2 ''00123 ''))) = Some (ustr ''123'')"
    by code_simp
  have h4: "\<forall>a\<in>set [ex_att_ref 1 ''999''].
      normalize_reference (reference (get_data a)) \<noteq> Some (ustr ''123'')" by code_simp
  have h5: "\<forall>t\<in>set [ex_tx_ref\<lparr>tx_id := 5, tx_reference := None\<rparr>].
      normalize_reference (tx_reference t) \<noteq> Some (ustr ''123'')" by code_simp
  note t = reference_primacy[OF h1 h2 h3, of "[ex_att_ref 1 ''999'']" "[ex_att_ref 3 ''123'']"
      "[ex_tx_ref\<lparr>tx_id := 5, tx_reference := None\<rparr>]" "[ex_tx_ref\<lparr>tx_id := 6\<rparr>]"]
  from t h4 have a: "find_attachment ex_tx_ref
      ([ex_att_ref 1 ''999''] @ ex_att_ref 2 ''00123 '' # [ex_att_ref 3 ''123''])
     = Inr (Some (ex_att_ref 2 ''00123 ''))" by blast
  from t h5 have b: "find_transaction (ex_att_ref 2 ''00123 '')
      ([ex_tx_ref\<lparr>tx_id := 5, tx_reference := None\<rparr>] @ ex_tx_ref # [ex_tx_ref\<lparr>tx_id := 6\<rparr>])
     = Inr (Some ex_tx_ref)" by blast
  from a b show ?thesis by simp
qed

section \<open>find_attachment for a transaction without a contact\<close>

lemma exact_date_candidates:
  "filter (\<lambda>c. cand_dist c = 0)
     (map (\<lambda>a. (a, composite_of tx txd a, date_distance_days txd a))
        (filter (is_amount_match tx) atts))
   = map (\<lambda>a. (a, composite_of tx txd a, date_distance_days txd a))
       (filter (\<lambda>a. is_amount_match tx a \<and> date_distance_days txd a = 0) atts)"
  by (simp add: filter_map o_def cand_dist_def)

lemma composite_same_day: "composite 0 (date_bonus 0) = 2"
  by (simp add: composite_def date_bonus_def fadd_def fsub_def int_quotient_def
      round_double_consts)

lemma is_pure_score_two: "is_pure_score 2"
  by (simp add: is_pure_score_def fsub_def lit_1e_6_pos)

lemma composite_of_no_contact_same_day:
  "\<not> truthy (tx_contact tx) \<Longrightarrow> date_distance_days txd a = 0 \<Longrightarrow> composite_of tx txd a = 2"
  by (simp add: composite_of_def name_sim_of_no_contact composite_same_day)

lemma top_score_all:
  assumes "\<not> truthy (tx_contact tx)"
  shows "filter (\<lambda>c. is_pure_score (cand_score c))
           (map (\<lambda>a. (a, composite_of tx txd a, date_distance_days txd a))
              (filter (\<lambda>a. is_amount_match tx a \<and> date_distance_days txd a = 0) atts))
         = map (\<lambda>a. (a, composite_of tx txd a, date_distance_days txd a))
              (filter (\<lambda>a. is_amount_match tx a \<and> date_distance_days txd a = 0) atts)"
  by (rule filter_True)
     (auto simp: cand_score_def composite_of_no_contact_same_day[OF assms] is_pure_score_two)

lemma find_attachment_no_contact:
  assumes ref: "att_by_reference tx atts = None"
    and dt: "parse_date (tx_date tx) = Some txd"
    and nc: "\<not> truthy (tx_contact tx)"
  shows "find_attachment tx atts =
           Inr (case filter (\<lambda>a. is_amount_match tx a \<and> date_distance_days txd a = 0) atts of
                  [a] \<Rightarrow> Some a | _ \<Rightarrow> None)"
proof -
  let ?mk = "\<lambda>a. (a, composite_of tx txd a, date_distance_days txd a)"
  let ?E = "filter (\<lambda>a. is_amount_match tx a \<and> date_distance_days txd a = 0) atts"
  have ref': "(if truthy (normalize_reference (tx_reference tx))
               then List.find (reference_match tx) atts else None) = None"
    using ref by (simp add: att_by_reference_def)
  have sub: "filter (is_amount_match tx) atts = [] \<Longrightarrow> ?E = []"
    by (auto simp: filter_empty_conv)
  have sb: "\<exists>b. select_best (map ?mk ?E) = Inr b" by (simp add: select_best_eq)
  show ?thesis
  proof (cases ?E)
    case Nil
    then show ?thesis using dt nc
      by (simp add: find_attachment_def ref' Let_def amt_candidates_eq exact_date_candidates)
  next
    case (Cons a rest)
    note E = this
    then have ne: "filter (is_amount_match tx) atts \<noteq> []" using sub by auto
    show ?thesis
    proof (cases rest)
      case Nil
      with E ne dt nc show ?thesis
        by (simp add: find_attachment_def ref' Let_def amt_candidates_eq exact_date_candidates
            getitem_0)
    next
      case (Cons b rest')
      from sb obtain best where "select_best (map ?mk ?E) = Inr best" ..
      with Cons E ne dt nc top_score_all[OF nc, of txd atts] show ?thesis
        by (simp add: find_attachment_def ref' Let_def amt_candidates_eq exact_date_candidates)
    qed
  qed
qed

text \<open>
  Claim C2. Let the transaction have no contact, let the reference scan find nothing and
  let the transaction's date parse to \<open>txd\<close>. If exactly one amount-matching attachment
  is at date distance 0, \<open>find_attachment\<close> returns it. If two or more amount-matching
  attachments are at date distance 0 and the number of them whose composite score is
  within \<open>1e-6\<close> of 2 (the test \<^verbatim>\<open>abs(c[1] - (1 + 0 + 1)) < 1e-6\<close> on floats, \<open>is_pure_score\<close>)
  is not exactly one, the result is \<open>None\<close>.
\<close>

theorem no_contact_ambiguity:
  assumes "\<not> truthy (tx_contact tx)"
    and "att_by_reference tx atts = None"
    and "parse_date (tx_date tx) = Some txd"
  shows "(filter (\<lambda>a. is_amount_match tx a \<and> date_distance_days txd a = 0) atts = [a] \<longrightarrow>
            find_attachment tx atts = Inr (Some a))
       \<and> (2 \<le> length (filter (\<lambda>a. is_amount_match tx a \<and> date_distance_days txd a = 0) atts)
          \<and> length (filter (\<lambda>a. is_pure_score (composite_of tx txd a))
                (filter (\<lambda>a. is_amount_match tx a \<and> date_distance_days txd a = 0) atts)) \<noteq> 1
          \<longrightarrow> find_attachment tx atts = Inr None)"
proof -
  let ?E = "filter (\<lambda>a. is_amount_match tx a \<and> date_distance_days txd a = 0) atts"
  note eq = find_attachment_no_contact[OF assms(2) assms(3) assms(1)]
  have one: "?E = [a] \<longrightarrow> find_attachment tx atts = Inr (Some a)"
    by (simp add: eq)
  have many: "2 \<le> length ?E \<longrightarrow> find_attachment tx atts = Inr None"
    by (cases ?E rule: list.exhaust; cases "tl ?E") (auto simp: eq)
  from one many show ?thesis by blast
qed

text \<open>
  The theorem on a transaction of 2024-01-10 without a contact: one attachment of the
  same day among three is returned, two attachments of the same day give \<open>None\<close>.
\<close>

theorem no_contact_ambiguity_witness:
  "find_attachment (ex_tx None)
     [ex_att 3 500 ''2024-01-11'' None, ex_att 1 500 ''2024-01-10'' None,
      ex_att 4 7 ''2024-01-10'' None]
     = Inr (Some (ex_att 1 500 ''2024-01-10'' None))
   \<and> find_attachment (ex_tx None)
     [ex_att 1 500 ''2024-01-10'' None, ex_att 3 500 ''2024-01-11'' None,
      ex_att 2 500 ''2024-01-10'' (Some ''Acme'')]
     = Inr None"
proof -
  let ?l1 = "[ex_att 3 500 ''2024-01-11'' None, ex_att 1 500 ''2024-01-10'' None,
      ex_att 4 7 ''2024-01-10'' None]"
  let ?l2 = "[ex_att 1 500 ''2024-01-10'' None, ex_att 3 500 ''2024-01-11'' None,
      ex_att 2 500 ''2024-01-10'' (Some ''Acme'')]"
  let ?E = "\<lambda>l. filter (\<lambda>a. is_amount_match (ex_tx None) a \<and> date_distance_days 738895 a = 0) l"
  have nc: "\<not> truthy (tx_contact (ex_tx None))" by code_simp
  have r1: "att_by_reference (ex_tx None) ?l1 = None" by code_simp
  have r2: "att_by_reference (ex_tx None) ?l2 = None" by code_simp
  have dt: "parse_date (tx_date (ex_tx None)) = Some 738895" by code_simp
  have e1: "?E ?l1 = [ex_att 1 500 ''2024-01-10'' None]" by code_simp
  have e2: "2 \<le> length (?E ?l2)" by code_simp
  have e3: "length (filter (\<lambda>a. is_pure_score (composite_of (ex_tx None) 738895 a)) (?E ?l2))
      \<noteq> 1" by code_simp
  from no_contact_ambiguity[OF nc r1 dt, of "ex_att 1 500 ''2024-01-10'' None"] e1
  have a: "find_attachment (ex_tx None) ?l1 = Inr (Some (ex_att 1 500 ''2024-01-10'' None))"
    by blast
  from no_contact_ambiguity[OF nc r2 dt] e2 e3
  have b: "find_attachment (ex_tx None) ?l2 = Inr None" by blast
  from a b show ?thesis by (rule conjI)
qed

text \<open>
  Claim C10. For a transaction without a contact the best name similarity of every
  attachment is 0, so every amount-matched candidate at date distance 0 has composite
  score exactly 2, and the candidates within \<open>1e-6\<close> of score 2 are all the exact-date
  candidates. Hence, past the reference scan, two or more exact-date candidates always
  give \<open>None\<close>: the "exactly one attains score 2" test never selects among several.
\<close>

theorem no_contact_score_is_two:
  assumes "\<not> truthy (tx_contact tx)"
    and "att_by_reference tx atts = None"
    and "parse_date (tx_date tx) = Some txd"
  shows "best_name_similarity (tx_contact tx) b = Inr 0
       \<and> (\<forall>a\<in>set (filter (\<lambda>a. is_amount_match tx a \<and> date_distance_days txd a = 0) atts).
             composite_of tx txd a = 2)
       \<and> (\<exists>cands. amt_candidates tx txd atts = Inr cands
             \<and> (\<forall>c\<in>set cands. cand_dist c = 0 \<longrightarrow> cand_score c = 2)
             \<and> filter (\<lambda>c. is_pure_score (cand_score c))
                   (filter (\<lambda>c. cand_dist c = 0) cands)
                 = filter (\<lambda>c. cand_dist c = 0) cands)
       \<and> (2 \<le> length (filter (\<lambda>a. is_amount_match tx a \<and> date_distance_days txd a = 0) atts)
            \<longrightarrow> find_attachment tx atts = Inr None)"
proof -
  let ?E = "filter (\<lambda>a. is_amount_match tx a \<and> date_distance_days txd a = 0) atts"
  let ?mk = "\<lambda>a. (a, composite_of tx txd a, date_distance_days txd a)"
  note eq = find_attachment_no_contact[OF assms(2) assms(3) assms(1)]
  have sim: "best_name_similarity (tx_contact tx) b = Inr 0"
    using assms(1) by (simp add: best_name_similarity_def)
  have two: "\<forall>a\<in>set ?E. composite_of tx txd a = 2"
    by (simp add: composite_of_no_contact_same_day[OF assms(1)])
  have cands: "\<exists>cands. amt_candidates tx txd atts = Inr cands
             \<and> (\<forall>c\<in>set cands. cand_dist c = 0 \<longrightarrow> cand_score c = 2)
             \<and> filter (\<lambda>c. is_pure_score (cand_score c))
                   (filter (\<lambda>c. cand_dist c = 0) cands)
                 = filter (\<lambda>c. cand_dist c = 0) cands"
  proof (intro exI conjI)
    show "amt_candidates tx txd atts = Inr (map ?mk (filter (is_amount_match tx) atts))"
      by (rule amt_candidates_eq)
    show "\<forall>c\<in>set (map ?mk (filter (is_amount_match tx) atts)).
            cand_dist c = 0 \<longrightarrow> cand_score c = 2"
      by (auto simp: cand_dist_def cand_score_def composite_of_no_contact_same_day[OF assms(1)])
    show "filter (\<lambda>c. is_pure_score (cand_score c))
            (filter (\<lambda>c. cand_dist c = 0) (map ?mk (filter (is_amount_match tx) atts)))
          = filter (\<lambda>c. cand_dist c = 0) (map ?mk (filter (is_amount_match tx) atts))"
      unfolding exact_date_candidates by (rule top_score_all[OF assms(1)])
  qed
  have many: "2 \<le> length ?E \<longrightarrow> find_attachment tx atts = Inr None"
    by (cases ?E rule: list.exhaust; cases "tl ?E") (auto simp: eq)
  from sim two cands many show ?thesis by blast
qed

text \<open>
  The theorem on a transaction whose contact is the empty string and two attachments of
  the same day, one of them with a supplier name.
\<close>

theorem no_contact_score_is_two_witness:
  "find_attachment (ex_tx (Some []))
     [ex_att 1 500 ''2024-01-10'' (Some ''Acme''), ex_att 2 500 ''2024-01-10'' None]
     = Inr None
   \<and> best_name_similarity (tx_contact (ex_tx (Some []))) (ex_att 1 500 ''2024-01-10'' (Some ''Acme''))
     = Inr 0"
proof -
  let ?l = "[ex_att 1 500 ''2024-01-10'' (Some ''Acme''), ex_att 2 500 ''2024-01-10'' None]"
  have nc: "\<not> truthy (tx_contact (ex_tx (Some [])))" by code_simp
  have r: "att_by_reference (ex_tx (Some [])) ?l = None" by code_simp
  have dt: "parse_date (tx_date (ex_tx (Some []))) = Some 738895" by code_simp
  have e: "2 \<le> length (filter (\<lambda>a. is_amount_match (ex_tx (Some [])) a
      \<and> date_distance_days 738895 a = 0) ?l)" by code_simp
  note t = no_contact_score_is_two[OF nc r dt, of "ex_att 1 500 ''2024-01-10'' (Some ''Acme'')"]
  from t e have a: "find_attachment (ex_tx (Some [])) ?l = Inr None" by blast
  from t have b: "best_name_similarity (tx_contact (ex_tx (Some [])))
      (ex_att 1 500 ''2024-01-10'' (Some ''Acme'')) = Inr 0" by blast
  from a b show ?thesis by (rule conjI)
qed

section \<open>The candidate lists and the two branches\<close>

lemma hd_sort_key_min:
  assumes "xs \<noteq> []"
  shows "hd (sort_key f xs) \<in> set xs \<and> (\<forall>y\<in>set xs. f (hd (sort_key f xs)) \<le> f y)"
proof -
  from assms have "sort_key f xs \<noteq> []" by (metis length_sort length_0_conv)
  then obtain z zs where ys: "sort_key f xs = z # zs" by (cases "sort_key f xs") auto
  have "sorted (map f (sort_key f xs))" by simp
  with ys have le: "\<forall>y\<in>set zs. f z \<le> f y" by simp
  have "set (z # zs) = set xs" using ys set_sort[of f xs] by simp
  with le ys show ?thesis by auto
qed

lemma att_key_le:
  "att_key c \<le> att_key c' \<longleftrightarrow>
     cand_score c' < cand_score c
     \<or> (cand_score c = cand_score c'
        \<and> (cand_dist c < cand_dist c'
           \<or> (cand_dist c = cand_dist c' \<and> att_id (fst c) \<le> att_id (fst c'))))"
  by (auto simp: att_key_def)

lemma tx_key_le:
  "tx_key c \<le> tx_key c' \<longleftrightarrow>
     cand_score c' < cand_score c
     \<or> (cand_score c = cand_score c'
        \<and> (cand_dist c < cand_dist c'
           \<or> (cand_dist c = cand_dist c' \<and> tx_id (fst c) \<le> tx_id (fst c'))))"
  by (auto simp: tx_key_def)

lemma unique_minimum:
  fixes f :: "'a \<Rightarrow> 'k::linorder"
  assumes "inj_on f (set xs)" and "c \<in> set xs" and "\<forall>y\<in>set xs. f c \<le> f y"
    and "xs \<noteq> []"
  shows "hd (sort_key f xs) = c"
proof -
  from hd_sort_key_min[OF assms(4), of f]
  have h: "hd (sort_key f xs) \<in> set xs" "\<forall>y\<in>set xs. f (hd (sort_key f xs)) \<le> f y" by auto
  from h assms(2,3) have "f (hd (sort_key f xs)) = f c" by (meson antisym)
  with assms(1) h(1) assms(2) show ?thesis by (auto dest: inj_onD)
qed

lemma minimum_order_independent:
  fixes f :: "'a \<Rightarrow> 'k::linorder"
  assumes "inj_on f (set xs)" and "set ys = set xs" and "xs \<noteq> []"
  shows "hd (sort_key f ys) = hd (sort_key f xs)"
proof -
  from assms have ne: "ys \<noteq> []" by auto
  from hd_sort_key_min[OF ne, of f] assms(2)
  have "hd (sort_key f ys) \<in> set xs" "\<forall>y\<in>set xs. f (hd (sort_key f ys)) \<le> f y" by auto
  from unique_minimum[OF assms(1) this assms(3)] show ?thesis by simp
qed

lemma strict_minimum:
  fixes f :: "'a \<Rightarrow> 'k::linorder"
  assumes "inj_on f (set xs)" and "b \<in> set xs" and "\<forall>y\<in>set xs. f b \<le> f y"
  shows "\<forall>y\<in>set xs. y \<noteq> b \<longrightarrow> f b < f y"
proof (intro ballI impI)
  fix y assume y: "y \<in> set xs" "y \<noteq> b"
  with assms(1,2) have "f y \<noteq> f b" by (auto dest: inj_onD)
  with assms(3) y(1) show "f b < f y" by (metis order_le_imp_less_or_eq)
qed

lemma att_key_inj:
  assumes "distinct (map (\<lambda>c. att_id (fst c)) cands)"
  shows "inj_on att_key (set cands)"
proof (rule inj_onI)
  fix x y assume xy: "x \<in> set cands" "y \<in> set cands" "att_key x = att_key y"
  from assms have "inj_on (\<lambda>c. att_id (fst c)) (set cands)" by (simp add: distinct_map)
  moreover from xy(3) have "att_id (fst x) = att_id (fst y)" by (simp add: att_key_def)
  ultimately show "x = y" using xy(1,2) by (auto dest: inj_onD)
qed

lemma tx_key_inj:
  assumes "distinct (map (\<lambda>c. tx_id (fst c)) cands)"
  shows "inj_on tx_key (set cands)"
proof (rule inj_onI)
  fix x y assume xy: "x \<in> set cands" "y \<in> set cands" "tx_key x = tx_key y"
  from assms have "inj_on (\<lambda>c. tx_id (fst c)) (set cands)" by (simp add: distinct_map)
  moreover from xy(3) have "tx_id (fst x) = tx_id (fst y)" by (simp add: tx_key_def)
  ultimately show "x = y" using xy(1,2) by (auto dest: inj_onD)
qed

lemma sorted_head_getitem: "xs \<noteq> [] \<Longrightarrow> getitem (sort_key f xs) 0 = Inr (hd (sort_key f xs))"
  by (rule getitem_0) (metis length_sort length_0_conv)

lemma accepted_candidates:
  "filter (\<lambda>x. 1 / 2 \<le> name_sim_of c (fst x))
     (map (\<lambda>a. (a, composite_of tx txd a, date_distance_days txd a))
        (filter (is_amount_match tx) atts))
   = map (\<lambda>a. (a, composite_of tx txd a, date_distance_days txd a))
       (filter (\<lambda>a. is_amount_match tx a \<and> 1 / 2 \<le> name_sim_of c a) atts)"
  by (simp add: filter_map o_def)

lemma att_ranked_eq:
  "att_ranked tx txd atts
   = map (\<lambda>a. (a, composite_of tx txd a, date_distance_days txd a))
       (filter (\<lambda>a. is_amount_match tx a \<and> 1 / 2 \<le> name_sim_of (tx_contact tx) a) atts)"
  unfolding att_ranked_def amt_candidates_eq filter_similar_eq
  by (simp only: sum.case accepted_candidates)

lemma find_attachment_contact:
  assumes ref: "att_by_reference tx atts = None"
    and dt: "parse_date (tx_date tx) = Some txd"
    and ct: "truthy (tx_contact tx)"
  shows "find_attachment tx atts =
           select_best (map (\<lambda>a. (a, composite_of tx txd a, date_distance_days txd a))
             (filter (\<lambda>a. is_amount_match tx a \<and> 1 / 2 \<le> name_sim_of (tx_contact tx) a) atts))"
proof -
  define acc where "acc = (\<lambda>a. 1 / 2 \<le> name_sim_of (tx_contact tx) a)"
  let ?mk = "\<lambda>a. (a, composite_of tx txd a, date_distance_days txd a)"
  have ref': "(if truthy (normalize_reference (tx_reference tx))
               then List.find (reference_match tx) atts else None) = None"
    using ref by (simp add: att_by_reference_def)
  have fs: "filter_similar (tx_contact tx) cs = Inr (filter (\<lambda>x. acc (fst x)) cs)" for cs
    unfolding acc_def by (rule filter_similar_eq)
  have ac: "filter (\<lambda>x. acc (fst x)) (map ?mk (filter (is_amount_match tx) atts))
      = map ?mk (filter (\<lambda>a. is_amount_match tx a \<and> acc a) atts)"
    by (simp add: filter_map o_def)
  have sub: "filter (is_amount_match tx) atts = [] \<Longrightarrow>
      filter (\<lambda>a. is_amount_match tx a \<and> acc a) atts = []"
    by (auto simp: filter_empty_conv)
  have "find_attachment tx atts =
      select_best (map ?mk (filter (\<lambda>a. is_amount_match tx a \<and> acc a) atts))"
    using dt ct sub
    by (auto simp: find_attachment_def ref' Let_def amt_candidates_eq fs ac select_best_eq)
  then show ?thesis unfolding acc_def .
qed

lemma find_attachment_ranked:
  assumes "att_by_reference tx atts = None"
    and "parse_date (tx_date tx) = Some txd"
    and "truthy (tx_contact tx)"
  shows "find_attachment tx atts = select_best (att_ranked tx txd atts)"
  unfolding att_ranked_eq by (rule find_attachment_contact[OF assms])

lemma inline_name_sim:
  "(if truthy c then best_loop c 0 (attachment_names att) else Inr 0) = Inr (name_sim_of c att)"
  using best_name_similarity_eq[of c att]
  by (cases "truthy c") (simp_all add: best_name_similarity_def)

lemma tx_candidates_eq:
  "tx_candidates att txs = Inr (List.map_filter (tx_candidate_of att) txs)"
proof (induction txs)
  case Nil
  show ?case by simp
next
  case (Cons t txs)
  have c: "tx_candidate_of att t =
      (if \<not> is_amount_match t att then None
       else case parse_date (tx_date t) of
              None \<Rightarrow> None
            | Some txd \<Rightarrow>
                Some (t,
                      composite (name_sim_of (tx_contact t) att)
                        (date_bonus (date_distance_days txd att)),
                      date_distance_days txd att))"
    by (simp add: tx_candidate_of_def)
  show ?case
    unfolding tx_candidates.simps inline_name_sim Cons.IH
    by (simp add: c Let_def split: option.splits)
qed

lemma tx_candidate_of_fst: "tx_candidate_of att t = Some c \<Longrightarrow> fst c = t"
  by (auto simp: tx_candidate_of_def split: if_splits option.splits)

lemma tx_candidate_of_Some_iff:
  "(\<exists>c. tx_candidate_of att t = Some c) \<longleftrightarrow>
     is_amount_match t att \<and> parse_date (tx_date t) \<noteq> None"
  by (auto simp: tx_candidate_of_def split: option.splits)

lemma map_fst_tx_candidates:
  "map fst (List.map_filter (tx_candidate_of att) txs)
     = filter (\<lambda>t. is_amount_match t att \<and> parse_date (tx_date t) \<noteq> None) txs"
proof (induction txs)
  case Nil
  show ?case by simp
next
  case (Cons t txs)
  show ?case
  proof (cases "tx_candidate_of att t")
    case None
    then have "\<not> (is_amount_match t att \<and> parse_date (tx_date t) \<noteq> None)"
      using tx_candidate_of_Some_iff[of att t] by simp
    with None Cons show ?thesis by simp
  next
    case (Some c)
    then have "is_amount_match t att \<and> parse_date (tx_date t) \<noteq> None"
      using tx_candidate_of_Some_iff[of att t] by blast
    moreover have "fst c = t" by (rule tx_candidate_of_fst[OF Some])
    ultimately show ?thesis using Some Cons by simp
  qed
qed

lemma set_map_filter: "set (List.map_filter f xs) = {y. \<exists>x\<in>set xs. f x = Some y}"
  by (induction xs) (auto split: option.splits)

lemma tx_ranked_eq:
  "tx_ranked att txs =
     filter (\<lambda>c. 3 / 2 \<le> cand_score c)
       (filter (\<lambda>c. truthy (tx_contact (fst c))) (List.map_filter (tx_candidate_of att) txs))"
  unfolding tx_ranked_def tx_candidates_eq by (simp only: sum.case)

lemma find_attachment_no_date:
  "att_by_reference tx atts = None \<Longrightarrow> parse_date (tx_date tx) = None \<Longrightarrow>
   find_attachment tx atts = Inr None"
  by (simp add: find_attachment_def att_by_reference_def Let_def)

lemma same_day_fallback_eq:
  "same_day_fallback cands =
     Inr (case filter (\<lambda>c. cand_dist c = 0) cands of [c] \<Rightarrow> Some (fst c) | _ \<Rightarrow> None)"
proof (cases "filter (\<lambda>c. cand_dist c = 0) cands")
  case Nil
  then show ?thesis by (simp add: same_day_fallback_def)
next
  case (Cons c rest)
  then show ?thesis
    by (cases rest) (simp_all add: same_day_fallback_def getitem_0)
qed

lemma find_transaction_policy:
  assumes ref: "tx_by_reference att txs = None"
    and cs: "tx_candidates att txs = Inr cands"
  shows "find_transaction att txs =
     (if attachment_names att \<noteq> []
         \<and> filter (\<lambda>c. 3 / 2 \<le> cand_score c) (filter (\<lambda>c. truthy (tx_contact (fst c))) cands)
            \<noteq> []
      then Inr (Some (fst (hd (sort_key tx_key
             (filter (\<lambda>c. 3 / 2 \<le> cand_score c)
                (filter (\<lambda>c. truthy (tx_contact (fst c))) cands))))))
      else same_day_fallback cands)"
proof -
  define ok where "ok = (\<lambda>c :: transaction candidate. 3 / 2 \<le> cand_score c)"
  let ?W = "filter (\<lambda>c. truthy (tx_contact (fst c))) cands"
  have ref': "(if truthy (normalize_reference (reference (get_data att)))
               then List.find (\<lambda>tx. reference_match tx att) txs else None) = None"
    using ref by (simp add: tx_by_reference_def)
  have unfolded: "find_transaction att txs =
      (if cands = [] then Inr None
       else if attachment_names att \<noteq> [] \<and> ?W \<noteq> [] then
              (if filter ok ?W \<noteq> [] then
                 (case getitem (sort_key tx_key (filter ok ?W)) 0 of
                    Inl e \<Rightarrow> Inl e | Inr c \<Rightarrow> Inr (Some (fst c)))
               else same_day_fallback cands)
            else same_day_fallback cands)"
    unfolding ok_def find_transaction_def ref' cs Let_def by simp
  have empty: "cands = [] \<Longrightarrow> same_day_fallback cands = Inr None"
    by (simp add: same_day_fallback_eq)
  have w: "filter ok ?W \<noteq> [] \<Longrightarrow> ?W \<noteq> [] \<and> cands \<noteq> []"
    by (auto simp: filter_empty_conv)
  have "find_transaction att txs =
     (if attachment_names att \<noteq> [] \<and> filter ok ?W \<noteq> []
      then Inr (Some (fst (hd (sort_key tx_key (filter ok ?W)))))
      else same_day_fallback cands)"
    unfolding unfolded using empty w by (auto simp: sorted_head_getitem)
  then show ?thesis unfolding ok_def .
qed

lemma find_transaction_ranked:
  assumes "tx_by_reference att txs = None"
    and "attachment_names att \<noteq> []"
    and "tx_ranked att txs \<noteq> []"
  shows "find_transaction att txs = Inr (Some (fst (hd (sort_key tx_key (tx_ranked att txs)))))"
  using assms(2,3) unfolding find_transaction_policy[OF assms(1) tx_candidates_eq] tx_ranked_eq
  by (simp only: if_True simp_thms)

text \<open>Candidates of records with pairwise different ids have pairwise different keys.\<close>

lemma att_ranked_ids:
  assumes "distinct (map att_id atts)"
  shows "distinct (map (\<lambda>c. att_id (fst c)) (att_ranked tx txd atts))"
proof -
  have "map (\<lambda>c. att_id (fst c)) (att_ranked tx txd atts)
      = map att_id (filter (\<lambda>a. is_amount_match tx a
            \<and> 1 / 2 \<le> name_sim_of (tx_contact tx) a) atts)"
    unfolding att_ranked_eq by (simp add: o_def)
  with assms show ?thesis by (simp add: distinct_map_filter)
qed

lemma tx_ranked_ids:
  assumes "distinct (map tx_id txs)"
  shows "distinct (map (\<lambda>c. tx_id (fst c)) (tx_ranked att txs))"
proof -
  let ?C = "List.map_filter (tx_candidate_of att) txs"
  have "map (\<lambda>c. tx_id (fst c)) ?C = map tx_id (map fst ?C)" by (simp add: o_def)
  also have "\<dots> = map tx_id (filter (\<lambda>t. is_amount_match t att
      \<and> parse_date (tx_date t) \<noteq> None) txs)"
    by (simp only: map_fst_tx_candidates)
  finally have "distinct (map (\<lambda>c. tx_id (fst c)) ?C)"
    using assms by (simp add: distinct_map_filter)
  then show ?thesis unfolding tx_ranked_eq by (simp add: distinct_map_filter)
qed

lemma att_ranked_set: "set atts' = set atts \<Longrightarrow> set (att_ranked tx txd atts') = set (att_ranked tx txd atts)"
  unfolding att_ranked_eq by simp

lemma tx_ranked_set: "set txs' = set txs \<Longrightarrow> set (tx_ranked att txs') = set (tx_ranked att txs)"
  unfolding tx_ranked_eq by (simp add: set_map_filter)

lemma att_by_reference_set:
  "set atts' = set atts \<Longrightarrow> att_by_reference tx atts = None \<Longrightarrow> att_by_reference tx atts' = None"
  by (auto simp: att_by_reference_def find_None_iff split: if_splits)

lemma tx_by_reference_set:
  "set txs' = set txs \<Longrightarrow> tx_by_reference att txs = None \<Longrightarrow> tx_by_reference att txs' = None"
  by (auto simp: tx_by_reference_def find_None_iff split: if_splits)

section \<open>Deterministic ranking\<close>

text \<open>
  Claim C7. The sort keys of both directions order candidates by descending composite
  score, then ascending date distance, then ascending record id. \<open>select_best\<close> returns
  the first element of the sorted list, a candidate whose key is least; when the ids of
  the candidates are pairwise different that candidate is the only one with a least key
  and the selection does not depend on the order of the list. Both functions return the
  first element of that ordering whenever they rank. \<open>find_attachment\<close>, for a transaction
  with a contact, past the reference scan and with a parseable date, returns the record
  of the first element of the sorted list \<open>att_ranked\<close> (the list it hands to
  \<open>select_best\<close>) when that list is not empty. \<open>find_transaction\<close>, past the reference scan,
  for an attachment with a counterparty name, returns the record of the first element
  of the sorted list \<open>tx_ranked\<close> (the list that its inline sort orders) when that list
  is not empty. In both cases the candidate returned has a least key, every other
  candidate has a strictly greater key when the ids of the input records are pairwise
  different, and then the result is the same for every list with the same records.
\<close>

theorem deterministic_ranking:
  "(att_key c \<le> att_key c' \<longleftrightarrow>
      cand_score c' < cand_score c
      \<or> (cand_score c = cand_score c'
         \<and> (cand_dist c < cand_dist c'
            \<or> (cand_dist c = cand_dist c' \<and> att_id (fst c) \<le> att_id (fst c')))))
   \<and> (tx_key t \<le> tx_key t' \<longleftrightarrow>
      cand_score t' < cand_score t
      \<or> (cand_score t = cand_score t'
         \<and> (cand_dist t < cand_dist t'
            \<or> (cand_dist t = cand_dist t' \<and> tx_id (fst t) \<le> tx_id (fst t')))))
   \<and> (cands \<noteq> [] \<longrightarrow>
        (\<exists>b\<in>set cands. select_best cands = Inr (Some (fst b))
            \<and> b = hd (sort_key att_key cands)
            \<and> (\<forall>y\<in>set cands. att_key b \<le> att_key y)))
   \<and> (distinct (map (\<lambda>x. att_id (fst x)) cands) \<longrightarrow>
        (\<forall>b\<in>set cands. (\<forall>y\<in>set cands. att_key b \<le> att_key y) \<longrightarrow>
            select_best cands = Inr (Some (fst b))
            \<and> (\<forall>y\<in>set cands. y \<noteq> b \<longrightarrow> att_key b < att_key y)))
   \<and> (distinct (map (\<lambda>x. att_id (fst x)) cands) \<and> set cands' = set cands \<longrightarrow>
        select_best cands' = select_best cands)
   \<and> (att_by_reference tx atts = None \<and> parse_date (tx_date tx) = Some txd
        \<and> truthy (tx_contact tx) \<and> att_ranked tx txd atts \<noteq> [] \<longrightarrow>
        (\<exists>b\<in>set (att_ranked tx txd atts).
            find_attachment tx atts = Inr (Some (fst b))
          \<and> b = hd (sort_key att_key (att_ranked tx txd atts))
          \<and> (\<forall>y\<in>set (att_ranked tx txd atts). att_key b \<le> att_key y)
          \<and> (distinct (map att_id atts) \<longrightarrow>
               (\<forall>y\<in>set (att_ranked tx txd atts). y \<noteq> b \<longrightarrow> att_key b < att_key y)
               \<and> (set atts' = set atts \<longrightarrow> find_attachment tx atts' = Inr (Some (fst b))))))
   \<and> (tx_by_reference att txs = None \<and> attachment_names att \<noteq> []
        \<and> tx_ranked att txs \<noteq> [] \<longrightarrow>
        (\<exists>b\<in>set (tx_ranked att txs).
            find_transaction att txs = Inr (Some (fst b))
          \<and> b = hd (sort_key tx_key (tx_ranked att txs))
          \<and> (\<forall>y\<in>set (tx_ranked att txs). tx_key b \<le> tx_key y)
          \<and> (distinct (map tx_id txs) \<longrightarrow>
               (\<forall>y\<in>set (tx_ranked att txs). y \<noteq> b \<longrightarrow> tx_key b < tx_key y)
               \<and> (set txs' = set txs \<longrightarrow> find_transaction att txs' = Inr (Some (fst b))))))"
proof -
  have p3: "cands \<noteq> [] \<longrightarrow>
        (\<exists>b\<in>set cands. select_best cands = Inr (Some (fst b))
            \<and> b = hd (sort_key att_key cands)
            \<and> (\<forall>y\<in>set cands. att_key b \<le> att_key y))"
    using hd_sort_key_min[of cands att_key] by (auto simp: select_best_eq)
  have p5: "distinct (map (\<lambda>x. att_id (fst x)) cands) \<longrightarrow>
        (\<forall>b\<in>set cands. (\<forall>y\<in>set cands. att_key b \<le> att_key y) \<longrightarrow>
            select_best cands = Inr (Some (fst b))
            \<and> (\<forall>y\<in>set cands. y \<noteq> b \<longrightarrow> att_key b < att_key y))"
  proof (intro impI ballI conjI)
    fix b assume d: "distinct (map (\<lambda>x. att_id (fst x)) cands)" and b: "b \<in> set cands"
      and m: "\<forall>y\<in>set cands. att_key b \<le> att_key y"
    from b have ne: "cands \<noteq> []" by auto
    from unique_minimum[OF att_key_inj[OF d] b m ne] ne
    show "select_best cands = Inr (Some (fst b))" by (simp add: select_best_eq)
    fix y assume y: "y \<in> set cands" "y \<noteq> b"
    with strict_minimum[OF att_key_inj[OF d] b m] show "att_key b < att_key y" by blast
  qed
  have p7: "distinct (map (\<lambda>x. att_id (fst x)) cands) \<and> set cands' = set cands \<longrightarrow>
        select_best cands' = select_best cands"
  proof
    assume a: "distinct (map (\<lambda>x. att_id (fst x)) cands) \<and> set cands' = set cands"
    show "select_best cands' = select_best cands"
    proof (cases "cands = []")
      case True
      with a show ?thesis by simp
    next
      case False
      with a have ne': "cands' \<noteq> []" by auto
      from a have "inj_on att_key (set cands)" "set cands' = set cands"
        by (simp_all add: att_key_inj)
      from minimum_order_independent[OF this False] False ne'
      show ?thesis by (simp add: select_best_eq)
    qed
  qed
  have pa: "att_by_reference tx atts = None \<and> parse_date (tx_date tx) = Some txd
        \<and> truthy (tx_contact tx) \<and> att_ranked tx txd atts \<noteq> [] \<longrightarrow>
        (\<exists>b\<in>set (att_ranked tx txd atts).
            find_attachment tx atts = Inr (Some (fst b))
          \<and> b = hd (sort_key att_key (att_ranked tx txd atts))
          \<and> (\<forall>y\<in>set (att_ranked tx txd atts). att_key b \<le> att_key y)
          \<and> (distinct (map att_id atts) \<longrightarrow>
               (\<forall>y\<in>set (att_ranked tx txd atts). y \<noteq> b \<longrightarrow> att_key b < att_key y)
               \<and> (set atts' = set atts \<longrightarrow> find_attachment tx atts' = Inr (Some (fst b)))))"
  proof
    let ?R = "att_ranked tx txd atts"
    let ?b = "hd (sort_key att_key ?R)"
    assume h: "att_by_reference tx atts = None \<and> parse_date (tx_date tx) = Some txd
        \<and> truthy (tx_contact tx) \<and> ?R \<noteq> []"
    then have ref: "att_by_reference tx atts = None" and dt: "parse_date (tx_date tx) = Some txd"
      and ct: "truthy (tx_contact tx)" and ne: "?R \<noteq> []" by simp_all
    from hd_sort_key_min[OF ne, of att_key]
    have mem: "?b \<in> set ?R" and least: "\<forall>y\<in>set ?R. att_key ?b \<le> att_key y" by simp_all
    have r: "find_attachment tx atts = Inr (Some (fst ?b))"
      unfolding find_attachment_ranked[OF ref dt ct] select_best_eq using ne by simp
    have u: "distinct (map att_id atts) \<longrightarrow>
               (\<forall>y\<in>set ?R. y \<noteq> ?b \<longrightarrow> att_key ?b < att_key y)
               \<and> (set atts' = set atts \<longrightarrow> find_attachment tx atts' = Inr (Some (fst ?b)))"
    proof (intro impI conjI)
      assume d: "distinct (map att_id atts)"
      note inj = att_key_inj[OF att_ranked_ids[OF d, of tx txd]]
      from strict_minimum[OF inj mem least]
      show "\<forall>y\<in>set ?R. y \<noteq> ?b \<longrightarrow> att_key ?b < att_key y" .
      assume s: "set atts' = set atts"
      let ?R' = "att_ranked tx txd atts'"
      from att_ranked_set[OF s] have s': "set ?R' = set ?R" .
      with ne have ne': "?R' \<noteq> []" by auto
      have "find_attachment tx atts' = Inr (Some (fst (hd (sort_key att_key ?R'))))"
        unfolding find_attachment_ranked[OF att_by_reference_set[OF s ref] dt ct] select_best_eq
        using ne' by simp
      with minimum_order_independent[OF inj s' ne]
      show "find_attachment tx atts' = Inr (Some (fst ?b))" by simp
    qed
    from mem r least u
    show "\<exists>b\<in>set ?R.
            find_attachment tx atts = Inr (Some (fst b))
          \<and> b = hd (sort_key att_key ?R)
          \<and> (\<forall>y\<in>set ?R. att_key b \<le> att_key y)
          \<and> (distinct (map att_id atts) \<longrightarrow>
               (\<forall>y\<in>set ?R. y \<noteq> b \<longrightarrow> att_key b < att_key y)
               \<and> (set atts' = set atts \<longrightarrow> find_attachment tx atts' = Inr (Some (fst b))))"
      by (intro bexI[of _ ?b] conjI refl) assumption+
  qed
  have pt: "tx_by_reference att txs = None \<and> attachment_names att \<noteq> []
        \<and> tx_ranked att txs \<noteq> [] \<longrightarrow>
        (\<exists>b\<in>set (tx_ranked att txs).
            find_transaction att txs = Inr (Some (fst b))
          \<and> b = hd (sort_key tx_key (tx_ranked att txs))
          \<and> (\<forall>y\<in>set (tx_ranked att txs). tx_key b \<le> tx_key y)
          \<and> (distinct (map tx_id txs) \<longrightarrow>
               (\<forall>y\<in>set (tx_ranked att txs). y \<noteq> b \<longrightarrow> tx_key b < tx_key y)
               \<and> (set txs' = set txs \<longrightarrow> find_transaction att txs' = Inr (Some (fst b)))))"
  proof
    let ?R = "tx_ranked att txs"
    let ?b = "hd (sort_key tx_key ?R)"
    assume h: "tx_by_reference att txs = None \<and> attachment_names att \<noteq> [] \<and> ?R \<noteq> []"
    then have ref: "tx_by_reference att txs = None" and nm: "attachment_names att \<noteq> []"
      and ne: "?R \<noteq> []" by simp_all
    from hd_sort_key_min[OF ne, of tx_key]
    have mem: "?b \<in> set ?R" and least: "\<forall>y\<in>set ?R. tx_key ?b \<le> tx_key y" by simp_all
    have r: "find_transaction att txs = Inr (Some (fst ?b))"
      by (rule find_transaction_ranked[OF ref nm ne])
    have u: "distinct (map tx_id txs) \<longrightarrow>
               (\<forall>y\<in>set ?R. y \<noteq> ?b \<longrightarrow> tx_key ?b < tx_key y)
               \<and> (set txs' = set txs \<longrightarrow> find_transaction att txs' = Inr (Some (fst ?b)))"
    proof (intro impI conjI)
      assume d: "distinct (map tx_id txs)"
      note inj = tx_key_inj[OF tx_ranked_ids[OF d, of att]]
      from strict_minimum[OF inj mem least]
      show "\<forall>y\<in>set ?R. y \<noteq> ?b \<longrightarrow> tx_key ?b < tx_key y" .
      assume s: "set txs' = set txs"
      let ?R' = "tx_ranked att txs'"
      from tx_ranked_set[OF s] have s': "set ?R' = set ?R" .
      with ne have ne': "?R' \<noteq> []" by auto
      have "find_transaction att txs' = Inr (Some (fst (hd (sort_key tx_key ?R'))))"
        by (rule find_transaction_ranked[OF tx_by_reference_set[OF s ref] nm ne'])
      with minimum_order_independent[OF inj s' ne]
      show "find_transaction att txs' = Inr (Some (fst ?b))" by simp
    qed
    from mem r least u
    show "\<exists>b\<in>set ?R.
            find_transaction att txs = Inr (Some (fst b))
          \<and> b = hd (sort_key tx_key ?R)
          \<and> (\<forall>y\<in>set ?R. tx_key b \<le> tx_key y)
          \<and> (distinct (map tx_id txs) \<longrightarrow>
               (\<forall>y\<in>set ?R. y \<noteq> b \<longrightarrow> tx_key b < tx_key y)
               \<and> (set txs' = set txs \<longrightarrow> find_transaction att txs' = Inr (Some (fst b))))"
      by (intro bexI[of _ ?b] conjI refl) assumption+
  qed
  from att_key_le[of c c'] tx_key_le[of t t'] p3 p5 p7 pa pt show ?thesis by (intro conjI)
qed

text \<open>
  The theorem on four attachment candidates with different ids, in the given and in the
  reversed order (ties on the score are broken by the date distance and then by the id),
  and on the contact \<open>Acme Beta\<close> in both directions: the record named \<open>Acme Beta\<close> ten
  days away scores \<open>1 + 1 + (1 - 10/30)\<close>, which rounds to 2.666666666666667, the record
  named \<open>Acme Beta Gamma\<close> of the same day scores \<open>1 + 2/3 + 1\<close>, which rounds to
  2.6666666666666665, and the first one is returned whatever the order of the input.
\<close>

theorem deterministic_ranking_witness:
  "select_best ex_cands = Inr (Some (ex_att 3 500 ''2024-01-11'' None))
   \<and> select_best (rev ex_cands) = Inr (Some (ex_att 3 500 ''2024-01-11'' None))
   \<and> find_attachment (ex_tx (Some ''Acme Beta''))
        [ex_att 1 500 ''2024-01-20'' (Some ''Acme Beta''),
         ex_att 2 500 ''2024-01-10'' (Some ''Acme Beta Gamma'')]
       = Inr (Some (ex_att 1 500 ''2024-01-20'' (Some ''Acme Beta'')))
   \<and> find_attachment (ex_tx (Some ''Acme Beta''))
        [ex_att 2 500 ''2024-01-10'' (Some ''Acme Beta Gamma''),
         ex_att 1 500 ''2024-01-20'' (Some ''Acme Beta'')]
       = Inr (Some (ex_att 1 500 ''2024-01-20'' (Some ''Acme Beta'')))
   \<and> find_transaction (ex_att 1 500 ''2024-01-10'' (Some ''Acme Beta''))
        [ex_tx_at 1 ''2024-01-20'' (Some ''Acme Beta''),
         ex_tx_at 2 ''2024-01-10'' (Some ''Acme Beta Gamma'')]
       = Inr (Some (ex_tx_at 1 ''2024-01-20'' (Some ''Acme Beta'')))
   \<and> find_transaction (ex_att 1 500 ''2024-01-10'' (Some ''Acme Beta''))
        [ex_tx_at 2 ''2024-01-10'' (Some ''Acme Beta Gamma''),
         ex_tx_at 1 ''2024-01-20'' (Some ''Acme Beta'')]
       = Inr (Some (ex_tx_at 1 ''2024-01-20'' (Some ''Acme Beta'')))"
proof -
  let ?b = "(ex_att 3 500 ''2024-01-11'' None, 5 / 2, 1) :: attachment candidate"
  let ?tx = "ex_tx (Some ''Acme Beta'')"
  let ?a1 = "ex_att 1 500 ''2024-01-20'' (Some ''Acme Beta'')"
  let ?a2 = "ex_att 2 500 ''2024-01-10'' (Some ''Acme Beta Gamma'')"
  let ?att = "ex_att 1 500 ''2024-01-10'' (Some ''Acme Beta'')"
  let ?t1 = "ex_tx_at 1 ''2024-01-20'' (Some ''Acme Beta'')"
  let ?t2 = "ex_tx_at 2 ''2024-01-10'' (Some ''Acme Beta Gamma'')"
  let ?s1 = "3002399751580331 / 1125899906842624 :: rat"
  let ?s2 = "6004799503160661 / 2251799813685248 :: rat"
  note dr = deterministic_ranking[where c = ?b and c' = ?b and cands = ex_cands
      and cands' = "rev ex_cands" and tx = ?tx and txd = 738895 and atts = "[?a1, ?a2]"
      and atts' = "[?a2, ?a1]" and att = ?att and txs = "[?t1, ?t2]" and txs' = "[?t2, ?t1]"]
  have d1: "distinct (map (\<lambda>x. att_id (fst x)) ex_cands)" by code_simp
  have b1: "?b \<in> set ex_cands" by code_simp
  have m1: "\<forall>y\<in>set ex_cands. att_key ?b \<le> att_key y"
    by (simp add: ex_cands_def att_key_le cand_score_def cand_dist_def ex_att_def)
  have s1: "set (rev ex_cands) = set ex_cands" by simp
  from dr d1 b1 m1 have a: "select_best ex_cands = Inr (Some (fst ?b))" by blast
  from dr d1 s1 have a': "select_best (rev ex_cands) = select_best ex_cands" by blast
  have ra: "att_by_reference ?tx [?a1, ?a2] = None" by code_simp
  have dt: "parse_date (tx_date ?tx) = Some 738895" by code_simp
  have ct: "truthy (tx_contact ?tx)" by code_simp
  have Ra: "att_ranked ?tx 738895 [?a1, ?a2] = [(?a1, ?s1, 10), (?a2, ?s2, 0)]" by code_simp
  have ha: "hd (sort_key att_key [(?a1, ?s1, 10), (?a2, ?s2, 0)]) = (?a1, ?s1, 10)" by code_simp
  have da: "distinct (map att_id [?a1, ?a2])" by code_simp
  have sa: "set [?a2, ?a1] = set [?a1, ?a2]" by (simp add: insert_commute)
  note pa = dr[THEN conjunct2, THEN conjunct2, THEN conjunct2, THEN conjunct2, THEN conjunct2,
      THEN conjunct1]
  have nea: "att_ranked ?tx 738895 [?a1, ?a2] \<noteq> []" by (simp only: Ra) simp
  from pa ra dt ct nea obtain b
    where b: "find_attachment ?tx [?a1, ?a2] = Inr (Some (fst b))"
      "b = hd (sort_key att_key (att_ranked ?tx 738895 [?a1, ?a2]))"
      "distinct (map att_id [?a1, ?a2]) \<longrightarrow>
         (\<forall>y\<in>set (att_ranked ?tx 738895 [?a1, ?a2]). y \<noteq> b \<longrightarrow> att_key b < att_key y)
         \<and> (set [?a2, ?a1] = set [?a1, ?a2] \<longrightarrow>
              find_attachment ?tx [?a2, ?a1] = Inr (Some (fst b)))"
    by blast
  from b(2) have bv: "fst b = ?a1" by (simp only: Ra ha fst_conv)
  from b(3) da sa have "find_attachment ?tx [?a2, ?a1] = Inr (Some (fst b))" by blast
  with b(1) have fa: "find_attachment ?tx [?a1, ?a2] = Inr (Some ?a1)
      \<and> find_attachment ?tx [?a2, ?a1] = Inr (Some ?a1)" by (simp only: bv simp_thms)
  have rt: "tx_by_reference ?att [?t1, ?t2] = None" by code_simp
  have nm: "attachment_names ?att \<noteq> []" by code_simp
  have Rt: "tx_ranked ?att [?t1, ?t2] = [(?t1, ?s1, 10), (?t2, ?s2, 0)]" by code_simp
  have ht: "hd (sort_key tx_key [(?t1, ?s1, 10), (?t2, ?s2, 0)]) = (?t1, ?s1, 10)" by code_simp
  have dt': "distinct (map tx_id [?t1, ?t2])" by code_simp
  have st: "set [?t2, ?t1] = set [?t1, ?t2]" by (simp add: insert_commute)
  note pt = dr[THEN conjunct2, THEN conjunct2, THEN conjunct2, THEN conjunct2, THEN conjunct2,
      THEN conjunct2]
  have net: "tx_ranked ?att [?t1, ?t2] \<noteq> []" by (simp only: Rt) simp
  from pt rt nm net obtain u
    where u: "find_transaction ?att [?t1, ?t2] = Inr (Some (fst u))"
      "u = hd (sort_key tx_key (tx_ranked ?att [?t1, ?t2]))"
      "distinct (map tx_id [?t1, ?t2]) \<longrightarrow>
         (\<forall>y\<in>set (tx_ranked ?att [?t1, ?t2]). y \<noteq> u \<longrightarrow> tx_key u < tx_key y)
         \<and> (set [?t2, ?t1] = set [?t1, ?t2] \<longrightarrow>
              find_transaction ?att [?t2, ?t1] = Inr (Some (fst u)))"
    by blast
  from u(2) have uv: "fst u = ?t1" by (simp only: Rt ht fst_conv)
  from u(3) dt' st have "find_transaction ?att [?t2, ?t1] = Inr (Some (fst u))" by blast
  with u(1) have ft: "find_transaction ?att [?t1, ?t2] = Inr (Some ?t1)
      \<and> find_transaction ?att [?t2, ?t1] = Inr (Some ?t1)" by (simp only: uv simp_thms)
  from a a' fa ft show ?thesis by simp
qed

section \<open>find_attachment for a transaction with a contact\<close>



section \<open>Transactions without a usable date\<close>

lemma map_filter_parseable:
  "List.map_filter (tx_candidate_of att) (filter (\<lambda>t. parse_date (tx_date t) \<noteq> None) txs)
     = List.map_filter (tx_candidate_of att) txs"
proof (induction txs)
  case Nil
  show ?case by simp
next
  case (Cons t txs)
  show ?case
  proof (cases "parse_date (tx_date t)")
    case None
    then have "tx_candidate_of att t = None" by (simp add: tx_candidate_of_def)
    with None Cons show ?thesis by simp
  next
    case (Some d)
    with Cons show ?thesis by (simp split: option.splits)
  qed
qed

lemma find_transaction_phase2:
  "tx_by_reference att txs = None \<Longrightarrow> tx_by_reference att txs' = None \<Longrightarrow>
   tx_candidates att txs = tx_candidates att txs' \<Longrightarrow>
   find_transaction att txs = find_transaction att txs'"
  by (simp add: find_transaction_def tx_by_reference_def Let_def)

lemma tx_by_reference_filter:
  "tx_by_reference att txs = None \<Longrightarrow> tx_by_reference att (filter P txs) = None"
  by (auto simp: tx_by_reference_def find_None_iff split: if_splits)

text \<open>
  Claim C4. In \<open>find_attachment\<close>, when the reference scan finds nothing and the date of
  the transaction is missing or does not parse, the result is \<open>None\<close>. In
  \<open>find_transaction\<close> a transaction whose date is missing or does not parse is only left
  out of the candidates: the candidate list is the one built from the transactions with
  a parseable date, its records are exactly the amount-matching transactions with a
  parseable date, and when the reference scan finds nothing the result is the result on
  the transactions with a parseable date.
\<close>

theorem missing_date_policy:
  "(att_by_reference tx atts = None \<and> parse_date (tx_date tx) = None
      \<longrightarrow> find_attachment tx atts = Inr None)
   \<and> tx_candidates att txs
       = tx_candidates att (filter (\<lambda>t. parse_date (tx_date t) \<noteq> None) txs)
   \<and> (\<exists>cands. tx_candidates att txs = Inr cands
         \<and> map fst cands
             = filter (\<lambda>t. is_amount_match t att \<and> parse_date (tx_date t) \<noteq> None) txs)
   \<and> (tx_by_reference att txs = None
      \<longrightarrow> find_transaction att txs
          = find_transaction att (filter (\<lambda>t. parse_date (tx_date t) \<noteq> None) txs))"
proof -
  have a: "att_by_reference tx atts = None \<and> parse_date (tx_date tx) = None
      \<longrightarrow> find_attachment tx atts = Inr None"
    using find_attachment_no_date by blast
  have b: "tx_candidates att txs
       = tx_candidates att (filter (\<lambda>t. parse_date (tx_date t) \<noteq> None) txs)"
    by (simp only: tx_candidates_eq map_filter_parseable)
  have c: "\<exists>cands. tx_candidates att txs = Inr cands
         \<and> map fst cands
             = filter (\<lambda>t. is_amount_match t att \<and> parse_date (tx_date t) \<noteq> None) txs"
    using tx_candidates_eq map_fst_tx_candidates by blast
  have d: "tx_by_reference att txs = None
      \<longrightarrow> find_transaction att txs
          = find_transaction att (filter (\<lambda>t. parse_date (tx_date t) \<noteq> None) txs)"
    using find_transaction_phase2[OF _ tx_by_reference_filter b] by blast
  from a b c d show ?thesis by (intro conjI)
qed

text \<open>
  The theorem on a transaction dated 30 February, for which \<open>find_attachment\<close> gives
  \<open>None\<close> although the amount matches, and on an attachment with two amount-matching
  transactions, of which the one dated \<open>10.01.2024\<close> is skipped and the other is
  returned.
\<close>

theorem missing_date_policy_witness:
  "find_attachment ((ex_tx None)\<lparr>tx_date := Some (ustr ''2024-02-30'')\<rparr>)
     [ex_att 1 500 ''2024-02-30'' None] = Inr None
   \<and> find_transaction (ex_att 1 500 ''2024-01-10'' None)
        [(ex_tx None)\<lparr>tx_id := 8, tx_date := Some (ustr ''10.01.2024'')\<rparr>, ex_tx None]
     = Inr (Some (ex_tx None))
   \<and> find_transaction (ex_att 1 500 ''2024-01-10'' None)
        [(ex_tx None)\<lparr>tx_id := 8, tx_date := Some (ustr ''10.01.2024'')\<rparr>, ex_tx None]
     = find_transaction (ex_att 1 500 ''2024-01-10'' None) [ex_tx None]"
proof -
  let ?bad = "(ex_tx None)\<lparr>tx_date := Some (ustr ''2024-02-30'')\<rparr>"
  let ?att = "ex_att 1 500 ''2024-01-10'' None"
  let ?txs = "[(ex_tx None)\<lparr>tx_id := 8, tx_date := Some (ustr ''10.01.2024'')\<rparr>, ex_tx None]"
  note t = missing_date_policy[of ?bad "[ex_att 1 500 ''2024-02-30'' None]" ?att ?txs]
  have h1: "att_by_reference ?bad [ex_att 1 500 ''2024-02-30'' None] = None" by code_simp
  have h2: "parse_date (tx_date ?bad) = None" by code_simp
  have h3: "tx_by_reference ?att ?txs = None" by code_simp
  have f: "filter (\<lambda>t. parse_date (tx_date t) \<noteq> None) ?txs = [ex_tx None]" by code_simp
  have v: "find_transaction ?att [ex_tx None] = Inr (Some (ex_tx None))" by code_simp
  from t h1 h2 have a: "find_attachment ?bad [ex_att 1 500 ''2024-02-30'' None] = Inr None"
    by blast
  from t h3 have "find_transaction ?att ?txs
      = find_transaction ?att (filter (\<lambda>t. parse_date (tx_date t) \<noteq> None) ?txs)" by blast
  then have b: "find_transaction ?att ?txs = find_transaction ?att [ex_tx None]"
    by (simp only: f)
  from a b v show ?thesis by simp
qed

section \<open>The composite score\<close>

text \<open>
  Claim C6. In both directions the candidate loop returns a list (it never raises) whose
  records are the amount-matched records, and every candidate of the list has the score
  \<^verbatim>\<open>1 + name_sim + date_bonus\<close>, computed in floating point from left to right
  (\<open>fadd (fadd 1 ns) bonus\<close>), where the name similarity is the value of
  \<open>best_name_similarity\<close> and lies in [0,1], the date bonus is \<open>date_bonus\<close> of the
  candidate's date distance and lies in [0,1], and the score lies in [1,3]: rounding to
  the nearest double is monotone and 0, 1, 2 and 3 are doubles, so the bounds survive
  every rounding. The date bonus is the float \<^verbatim>\<open>1 - dist / 30\<close> for a distance of at most
  30 and 0 beyond. The score differs from the exact value of \<open>1 + ns + (1 - dist / 30)\<close>
  by at most \<open>7 / 2 ^ 53\<close>, the date bonus from \<open>1 - dist / 30\<close> by at most \<open>2 / 2 ^ 53\<close>.
\<close>

theorem composite_score_range:
  "(\<exists>cands. amt_candidates tx txd atts = Inr cands
       \<and> map fst cands = filter (is_amount_match tx) atts
       \<and> (\<forall>c\<in>set cands. \<exists>ns.
             best_name_similarity (tx_contact tx) (fst c) = Inr ns \<and> 0 \<le> ns \<and> ns \<le> 1
           \<and> cand_dist c = date_distance_days txd (fst c)
           \<and> 0 \<le> date_bonus (cand_dist c) \<and> date_bonus (cand_dist c) \<le> 1
           \<and> cand_score c = fadd (fadd 1 ns) (date_bonus (cand_dist c))
           \<and> \<bar>cand_score c - exact_score ns (cand_dist c)\<bar> \<le> 7 / 2 ^ 53
           \<and> 1 \<le> cand_score c \<and> cand_score c \<le> 3))
   \<and> (\<exists>cands. tx_candidates att txs = Inr cands
       \<and> map fst cands
           = filter (\<lambda>t. is_amount_match t att \<and> parse_date (tx_date t) \<noteq> None) txs
       \<and> (\<forall>c\<in>set cands. \<exists>ns d.
             best_name_similarity (tx_contact (fst c)) att = Inr ns \<and> 0 \<le> ns \<and> ns \<le> 1
           \<and> parse_date (tx_date (fst c)) = Some d
           \<and> cand_dist c = date_distance_days d att
           \<and> 0 \<le> date_bonus (cand_dist c) \<and> date_bonus (cand_dist c) \<le> 1
           \<and> cand_score c = fadd (fadd 1 ns) (date_bonus (cand_dist c))
           \<and> \<bar>cand_score c - exact_score ns (cand_dist c)\<bar> \<le> 7 / 2 ^ 53
           \<and> 1 \<le> cand_score c \<and> cand_score c \<le> 3))
   \<and> date_bonus dd = (if dd \<le> 30 then fsub 1 (int_quotient dd 30) else 0)
   \<and> (0 \<le> dd \<and> dd \<le> 30 \<longrightarrow> \<bar>date_bonus dd - (1 - of_int dd / 30)\<bar> \<le> 2 / 2 ^ 53)
   \<and> exact_score s dd = 1 + s + (if dd \<le> 30 then 1 - of_int dd / 30 else 0)"
proof -
  let ?mk = "\<lambda>a. (a, composite_of tx txd a, date_distance_days txd a)"
  have a: "\<exists>cands. amt_candidates tx txd atts = Inr cands
       \<and> map fst cands = filter (is_amount_match tx) atts
       \<and> (\<forall>c\<in>set cands. \<exists>ns.
             best_name_similarity (tx_contact tx) (fst c) = Inr ns \<and> 0 \<le> ns \<and> ns \<le> 1
           \<and> cand_dist c = date_distance_days txd (fst c)
           \<and> 0 \<le> date_bonus (cand_dist c) \<and> date_bonus (cand_dist c) \<le> 1
           \<and> cand_score c = fadd (fadd 1 ns) (date_bonus (cand_dist c))
           \<and> \<bar>cand_score c - exact_score ns (cand_dist c)\<bar> \<le> 7 / 2 ^ 53
           \<and> 1 \<le> cand_score c \<and> cand_score c \<le> 3)"
  proof (intro exI[of _ "map ?mk (filter (is_amount_match tx) atts)"] conjI ballI)
    show "amt_candidates tx txd atts = Inr (map ?mk (filter (is_amount_match tx) atts))"
      by (rule amt_candidates_eq)
    show "map fst (map ?mk (filter (is_amount_match tx) atts)) = filter (is_amount_match tx) atts"
      by (simp add: o_def)
    fix c assume "c \<in> set (map ?mk (filter (is_amount_match tx) atts))"
    then have c: "c = ?mk (fst c)" by auto
    let ?ns = "name_sim_of (tx_contact tx) (fst c)"
    have d: "0 \<le> date_distance_days txd (fst c)" by (rule date_distance_days_nonneg)
    have ns: "0 \<le> ?ns" "?ns \<le> 1" by (rule name_sim_of_bounds)+
    have cd: "cand_dist c = date_distance_days txd (fst c)"
      using c by (metis cand_dist_def snd_conv)
    have cs: "cand_score c = composite_of tx txd (fst c)"
      using c by (metis cand_score_def fst_conv snd_conv)
    from date_bonus_bounds[OF d]
    have db: "0 \<le> date_bonus (date_distance_days txd (fst c))"
      "date_bonus (date_distance_days txd (fst c)) \<le> 1" by simp_all
    show "\<exists>ns. best_name_similarity (tx_contact tx) (fst c) = Inr ns \<and> 0 \<le> ns \<and> ns \<le> 1
           \<and> cand_dist c = date_distance_days txd (fst c)
           \<and> 0 \<le> date_bonus (cand_dist c) \<and> date_bonus (cand_dist c) \<le> 1
           \<and> cand_score c = fadd (fadd 1 ns) (date_bonus (cand_dist c))
           \<and> \<bar>cand_score c - exact_score ns (cand_dist c)\<bar> \<le> 7 / 2 ^ 53
           \<and> 1 \<le> cand_score c \<and> cand_score c \<le> 3"
      using ns db composite_bounds[OF ns db] composite_exact_score[OF ns d]
      by (intro exI[of _ ?ns])
         (simp add: best_name_similarity_eq cd cs composite_of_def composite_def[symmetric])
  qed
  have b: "\<exists>cands. tx_candidates att txs = Inr cands
       \<and> map fst cands
           = filter (\<lambda>t. is_amount_match t att \<and> parse_date (tx_date t) \<noteq> None) txs
       \<and> (\<forall>c\<in>set cands. \<exists>ns d.
             best_name_similarity (tx_contact (fst c)) att = Inr ns \<and> 0 \<le> ns \<and> ns \<le> 1
           \<and> parse_date (tx_date (fst c)) = Some d
           \<and> cand_dist c = date_distance_days d att
           \<and> 0 \<le> date_bonus (cand_dist c) \<and> date_bonus (cand_dist c) \<le> 1
           \<and> cand_score c = fadd (fadd 1 ns) (date_bonus (cand_dist c))
           \<and> \<bar>cand_score c - exact_score ns (cand_dist c)\<bar> \<le> 7 / 2 ^ 53
           \<and> 1 \<le> cand_score c \<and> cand_score c \<le> 3)"
  proof (intro exI[of _ "List.map_filter (tx_candidate_of att) txs"] conjI ballI)
    show "tx_candidates att txs = Inr (List.map_filter (tx_candidate_of att) txs)"
      by (rule tx_candidates_eq)
    show "map fst (List.map_filter (tx_candidate_of att) txs)
        = filter (\<lambda>t. is_amount_match t att \<and> parse_date (tx_date t) \<noteq> None) txs"
      by (rule map_fst_tx_candidates)
    fix c assume "c \<in> set (List.map_filter (tx_candidate_of att) txs)"
    then obtain t where t: "tx_candidate_of att t = Some c"
      by (auto simp: set_map_filter)
    then obtain d where d: "parse_date (tx_date t) = Some d"
      and c: "c = (t, composite (name_sim_of (tx_contact t) att)
                        (date_bonus (date_distance_days d att)),
                 date_distance_days d att)"
      by (auto simp: tx_candidate_of_def split: if_splits option.splits)
    let ?ns = "name_sim_of (tx_contact t) att"
    have dn: "0 \<le> date_distance_days d att" by (rule date_distance_days_nonneg)
    have ns: "0 \<le> ?ns" "?ns \<le> 1" by (rule name_sim_of_bounds)+
    from date_bonus_bounds[OF dn]
    have db: "0 \<le> date_bonus (date_distance_days d att)"
      "date_bonus (date_distance_days d att) \<le> 1" by simp_all
    show "\<exists>ns d. best_name_similarity (tx_contact (fst c)) att = Inr ns \<and> 0 \<le> ns \<and> ns \<le> 1
           \<and> parse_date (tx_date (fst c)) = Some d
           \<and> cand_dist c = date_distance_days d att
           \<and> 0 \<le> date_bonus (cand_dist c) \<and> date_bonus (cand_dist c) \<le> 1
           \<and> cand_score c = fadd (fadd 1 ns) (date_bonus (cand_dist c))
           \<and> \<bar>cand_score c - exact_score ns (cand_dist c)\<bar> \<le> 7 / 2 ^ 53
           \<and> 1 \<le> cand_score c \<and> cand_score c \<le> 3"
      using c d ns db composite_bounds[OF ns db] composite_exact_score[OF ns dn]
      by (intro exI[of _ ?ns] exI[of _ d])
         (simp add: best_name_similarity_eq cand_dist_def cand_score_def composite_def[symmetric])
  qed
  have c: "date_bonus dd = (if dd \<le> 30 then fsub 1 (int_quotient dd 30) else 0)"
    by (simp add: date_bonus_def)
  have d: "0 \<le> dd \<and> dd \<le> 30 \<longrightarrow> \<bar>date_bonus dd - (1 - of_int dd / 30)\<bar> \<le> 2 / 2 ^ 53"
    using date_bonus_error by blast
  have e: "exact_score s dd = 1 + s + (if dd \<le> 30 then 1 - of_int dd / 30 else 0)"
    by (simp add: exact_score_def)
  from a b c d e show ?thesis by (intro conjI)
qed

text \<open>
  The theorem on a transaction and an attachment 15 days apart whose names have
  similarity 1/2: in both directions the candidate has score \<open>1 + 1/2 + 1/2 = 2\<close>, every
  operation being exact. At a distance of 10 days the quotient \<^verbatim>\<open>10 / 30\<close> and the
  difference \<^verbatim>\<open>1 - 10 / 30\<close> are both rounded, and the date bonus is the double
  0.66666666666666674, which is not the double nearest to 2/3.
\<close>

theorem composite_score_range_witness:
  "amt_candidates (ex_tx (Some ''Acme Beta'')) 738895
     [ex_att 1 500 ''2024-01-25'' (Some ''Acme Oy''), ex_att 2 7 ''2024-01-10'' None]
     = Inr [(ex_att 1 500 ''2024-01-25'' (Some ''Acme Oy''), 2, 15)]
   \<and> tx_candidates (ex_att 1 500 ''2024-01-25'' (Some ''Acme Oy''))
     [ex_tx (Some ''Acme Beta''), (ex_tx None)\<lparr>tx_amount := Some 3\<rparr>]
     = Inr [(ex_tx (Some ''Acme Beta''), 2, 15)]
   \<and> cand_score (ex_att 1 500 ''2024-01-25'' (Some ''Acme Oy''), 2, 15)
       = fadd (fadd 1 (1 / 2)) (date_bonus 15)
   \<and> cand_score (ex_tx (Some ''Acme Beta''), 2, 15) = fadd (fadd 1 (1 / 2)) (date_bonus 15)
   \<and> date_bonus 15 = 1 / 2 \<and> date_bonus 31 = 0
   \<and> date_bonus 10 = 6004799503160662 / 9007199254740992
   \<and> date_bonus 10 \<noteq> round_double (2 / 3)
   \<and> \<bar>date_bonus 10 - (1 - 10 / 30)\<bar> \<le> 2 / 2 ^ 53"
proof -
  let ?tx = "ex_tx (Some ''Acme Beta'')"
  let ?a = "ex_att 1 500 ''2024-01-25'' (Some ''Acme Oy'')"
  let ?atts = "[?a, ex_att 2 7 ''2024-01-10'' None]"
  let ?txs = "[?tx, (ex_tx None)\<lparr>tx_amount := Some 3\<rparr>]"
  let ?c = "(?a, 2, 15) :: attachment candidate"
  let ?t = "(?tx, 2, 15) :: transaction candidate"
  note r = composite_score_range[of ?tx 738895 ?atts ?a ?txs 15]
  note r' = composite_score_range[of ?tx 738895 ?atts ?a ?txs 10]
  have v1: "amt_candidates ?tx 738895 ?atts = Inr [?c]" by code_simp
  have v2: "tx_candidates ?a ?txs = Inr [?t]" by code_simp
  have s: "best_name_similarity (tx_contact ?tx) ?a = Inr (1 / 2)" by code_simp
  have d1: "cand_dist ?c = 15" "cand_dist ?t = 15" by (simp_all add: cand_dist_def)
  from r obtain cands where c1: "amt_candidates ?tx 738895 ?atts = Inr cands"
    and c2: "\<forall>c\<in>set cands. \<exists>ns.
             best_name_similarity (tx_contact ?tx) (fst c) = Inr ns \<and> 0 \<le> ns \<and> ns \<le> 1
           \<and> cand_dist c = date_distance_days 738895 (fst c)
           \<and> 0 \<le> date_bonus (cand_dist c) \<and> date_bonus (cand_dist c) \<le> 1
           \<and> cand_score c = fadd (fadd 1 ns) (date_bonus (cand_dist c))
           \<and> \<bar>cand_score c - exact_score ns (cand_dist c)\<bar> \<le> 7 / 2 ^ 53
           \<and> 1 \<le> cand_score c \<and> cand_score c \<le> 3" by blast
  from c1 v1 have "cands = [?c]" by simp
  with c2 obtain ns where "best_name_similarity (tx_contact ?tx) (fst ?c) = Inr ns"
    and sc: "cand_score ?c = fadd (fadd 1 ns) (date_bonus (cand_dist ?c))" by auto
  with s have "ns = 1 / 2" by simp
  with sc d1 have a: "cand_score ?c = fadd (fadd 1 (1 / 2)) (date_bonus 15)" by simp
  from r obtain tcands where t1: "tx_candidates ?a ?txs = Inr tcands"
    and t2: "\<forall>c\<in>set tcands. \<exists>ns d.
             best_name_similarity (tx_contact (fst c)) ?a = Inr ns \<and> 0 \<le> ns \<and> ns \<le> 1
           \<and> parse_date (tx_date (fst c)) = Some d
           \<and> cand_dist c = date_distance_days d ?a
           \<and> 0 \<le> date_bonus (cand_dist c) \<and> date_bonus (cand_dist c) \<le> 1
           \<and> cand_score c = fadd (fadd 1 ns) (date_bonus (cand_dist c))
           \<and> \<bar>cand_score c - exact_score ns (cand_dist c)\<bar> \<le> 7 / 2 ^ 53
           \<and> 1 \<le> cand_score c \<and> cand_score c \<le> 3" by blast
  from t1 v2 have "tcands = [?t]" by simp
  with t2 obtain ns' where "best_name_similarity (tx_contact (fst ?t)) ?a = Inr ns'"
    and sc': "cand_score ?t = fadd (fadd 1 ns') (date_bonus (cand_dist ?t))" by auto
  with s have "ns' = 1 / 2" by simp
  with sc' d1 have b: "cand_score ?t = fadd (fadd 1 (1 / 2)) (date_bonus 15)" by simp
  from r have db: "date_bonus 15 = (if (15::int) \<le> 30 then fsub 1 (int_quotient 15 30) else 0)"
    by blast
  have q15: "fsub 1 (int_quotient 15 30) = 1 / 2" by code_simp
  have db15: "date_bonus 15 = 1 / 2" by (simp add: db q15)
  have db31: "date_bonus 31 = 0" by (simp add: date_bonus_def)
  from r' have db': "date_bonus 10 = (if (10::int) \<le> 30 then fsub 1 (int_quotient 10 30) else 0)"
    by blast
  have q10: "fsub 1 (int_quotient 10 30) = 6004799503160662 / 9007199254740992" by code_simp
  have db10: "date_bonus 10 = 6004799503160662 / 9007199254740992" by (simp add: db' q10)
  have r23: "round_double (2 / 3) = 6004799503160661 / 9007199254740992" by code_simp
  have ne: "date_bonus 10 \<noteq> round_double (2 / 3)" by (simp add: db10 r23)
  from r' have "0 \<le> (10::int) \<and> (10::int) \<le> 30
      \<longrightarrow> \<bar>date_bonus 10 - (1 - of_int 10 / 30)\<bar> \<le> 2 / 2 ^ 53" by blast
  then have err: "\<bar>date_bonus 10 - (1 - 10 / 30)\<bar> \<le> 2 / 2 ^ 53" by simp
  from v1 v2 a b db15 db31 db10 ne err show ?thesis by (intro conjI)
qed

section \<open>The acceptance policy of find_transaction\<close>

text \<open>
  Claim C8. Let the reference scan of \<open>find_transaction\<close> find nothing and let \<open>cands\<close>
  be the amount-matched candidates. If the attachment has at least one counterparty name,
  at least one candidate carries a contact and at least one candidate with a contact has
  composite score at least 3/2, the top-ranked of the candidates with a contact and score
  at least 3/2 is returned. Otherwise (no counterparty name, no candidate with a contact,
  or none of them reaching 3/2) the result is the candidate at date distance 0 among all
  candidates when there is exactly one, and \<open>None\<close> when there is none or more than one.
\<close>

theorem transaction_acceptance:
  assumes "tx_by_reference att txs = None"
    and "tx_candidates att txs = Inr cands"
  shows "(attachment_names att \<noteq> []
          \<and> filter (\<lambda>c. truthy (tx_contact (fst c))) cands \<noteq> []
          \<and> filter (\<lambda>c. 3 / 2 \<le> cand_score c)
               (filter (\<lambda>c. truthy (tx_contact (fst c))) cands) \<noteq> []
          \<longrightarrow> (\<exists>b\<in>set (filter (\<lambda>c. 3 / 2 \<le> cand_score c)
                          (filter (\<lambda>c. truthy (tx_contact (fst c))) cands)).
                 find_transaction att txs = Inr (Some (fst b))
               \<and> b = hd (sort_key tx_key (filter (\<lambda>c. 3 / 2 \<le> cand_score c)
                          (filter (\<lambda>c. truthy (tx_contact (fst c))) cands)))
               \<and> (\<forall>y\<in>set (filter (\<lambda>c. 3 / 2 \<le> cand_score c)
                          (filter (\<lambda>c. truthy (tx_contact (fst c))) cands)).
                     tx_key b \<le> tx_key y)))
       \<and> (attachment_names att = []
          \<or> filter (\<lambda>c. truthy (tx_contact (fst c))) cands = []
          \<or> filter (\<lambda>c. 3 / 2 \<le> cand_score c)
               (filter (\<lambda>c. truthy (tx_contact (fst c))) cands) = []
          \<longrightarrow> (\<forall>c. filter (\<lambda>c. cand_dist c = 0) cands = [c]
                    \<longrightarrow> find_transaction att txs = Inr (Some (fst c)))
              \<and> (length (filter (\<lambda>c. cand_dist c = 0) cands) \<noteq> 1
                    \<longrightarrow> find_transaction att txs = Inr None))"
proof -
  let ?W = "filter (\<lambda>c. truthy (tx_contact (fst c))) cands"
  let ?Q = "filter (\<lambda>c. 3 / 2 \<le> cand_score c) ?W"
  let ?E = "filter (\<lambda>c. cand_dist c = 0) cands"
  note ft = find_transaction_policy[OF assms]
  have pos: "attachment_names att \<noteq> [] \<and> ?W \<noteq> [] \<and> ?Q \<noteq> []
      \<longrightarrow> (\<exists>b\<in>set ?Q. find_transaction att txs = Inr (Some (fst b))
               \<and> b = hd (sort_key tx_key ?Q) \<and> (\<forall>y\<in>set ?Q. tx_key b \<le> tx_key y))"
  proof
    assume h: "attachment_names att \<noteq> [] \<and> ?W \<noteq> [] \<and> ?Q \<noteq> []"
    then have ne: "?Q \<noteq> []" by blast
    from h have r: "find_transaction att txs = Inr (Some (fst (hd (sort_key tx_key ?Q))))"
      unfolding ft by (simp only: if_True simp_thms)
    from hd_sort_key_min[OF ne, of tx_key] r
    show "\<exists>b\<in>set ?Q. find_transaction att txs = Inr (Some (fst b))
               \<and> b = hd (sort_key tx_key ?Q) \<and> (\<forall>y\<in>set ?Q. tx_key b \<le> tx_key y)"
      by blast
  qed
  have neg: "attachment_names att = [] \<or> ?W = [] \<or> ?Q = []
      \<longrightarrow> (\<forall>c. ?E = [c] \<longrightarrow> find_transaction att txs = Inr (Some (fst c)))
          \<and> (length ?E \<noteq> 1 \<longrightarrow> find_transaction att txs = Inr None)"
  proof
    assume h: "attachment_names att = [] \<or> ?W = [] \<or> ?Q = []"
    have "?W = [] \<Longrightarrow> ?Q = []" by (simp only: filter.simps)
    with h have "\<not> (attachment_names att \<noteq> [] \<and> ?Q \<noteq> [])" by blast
    then have r: "find_transaction att txs = same_day_fallback cands"
      unfolding ft by (simp only: if_False)
    have one: "\<forall>c. ?E = [c] \<longrightarrow> find_transaction att txs = Inr (Some (fst c))"
      unfolding r same_day_fallback_eq by simp
    have other: "length ?E \<noteq> 1 \<longrightarrow> find_transaction att txs = Inr None"
      unfolding r same_day_fallback_eq
      by (cases ?E rule: list.exhaust; cases "tl ?E") auto
    from one other
    show "(\<forall>c. ?E = [c] \<longrightarrow> find_transaction att txs = Inr (Some (fst c)))
          \<and> (length ?E \<noteq> 1 \<longrightarrow> find_transaction att txs = Inr None)" by (rule conjI)
  qed
  from pos neg show ?thesis by (rule conjI)
qed

text \<open>
  The theorem on an attachment with the supplier \<open>Acme Oy\<close>, for which the transaction
  of contact \<open>Acme\<close> ten days later is ranked first; on the same attachment without a
  name, for which the only transaction of the same day is returned and two transactions
  of the same day give \<open>None\<close>; and on an attachment with the supplier \<open>Acme Beta\<close>, for
  which the transaction of contact \<open>Acme Beta\<close> ten days later (score
  2.666666666666667) is ranked before the transaction of contact \<open>Acme Beta Gamma\<close> of
  the same day (score 2.6666666666666665).
\<close>

theorem transaction_acceptance_witness:
  "find_transaction (ex_att 1 500 ''2024-01-10'' (Some ''Acme Oy''))
     [ex_tx_at 6 ''2024-01-10'' (Some ''Other''), ex_tx_at 5 ''2024-01-20'' (Some ''Acme''),
      ex_tx_at 7 ''2024-01-10'' None]
     = Inr (Some (ex_tx_at 5 ''2024-01-20'' (Some ''Acme'')))
   \<and> find_transaction (ex_att 1 500 ''2024-01-10'' None)
     [ex_tx_at 6 ''2024-01-10'' (Some ''Other''), ex_tx_at 5 ''2024-01-20'' (Some ''Acme'')]
     = Inr (Some (ex_tx_at 6 ''2024-01-10'' (Some ''Other'')))
   \<and> find_transaction (ex_att 1 500 ''2024-01-10'' None)
     [ex_tx_at 6 ''2024-01-10'' (Some ''Other''), ex_tx_at 5 ''2024-01-20'' (Some ''Acme''),
      ex_tx_at 7 ''2024-01-10'' None]
     = Inr None
   \<and> find_transaction (ex_att 1 500 ''2024-01-10'' (Some ''Acme Beta''))
     [ex_tx_at 1 ''2024-01-20'' (Some ''Acme Beta''),
      ex_tx_at 2 ''2024-01-10'' (Some ''Acme Beta Gamma'')]
     = Inr (Some (ex_tx_at 1 ''2024-01-20'' (Some ''Acme Beta'')))"
proof -
  let ?named = "ex_att 1 500 ''2024-01-10'' (Some ''Acme Oy'')"
  let ?plain = "ex_att 1 500 ''2024-01-10'' None"
  let ?beta = "ex_att 1 500 ''2024-01-10'' (Some ''Acme Beta'')"
  let ?t5 = "ex_tx_at 5 ''2024-01-20'' (Some ''Acme'')"
  let ?t6 = "ex_tx_at 6 ''2024-01-10'' (Some ''Other'')"
  let ?t7 = "ex_tx_at 7 ''2024-01-10'' None"
  let ?t1 = "ex_tx_at 1 ''2024-01-20'' (Some ''Acme Beta'')"
  let ?t2 = "ex_tx_at 2 ''2024-01-10'' (Some ''Acme Beta Gamma'')"
  let ?c5 = "(?t5, 3002399751580331 / 1125899906842624, 10) :: transaction candidate"
  let ?d5 = "(?t5, 7505999378950827 / 4503599627370496, 10) :: transaction candidate"
  let ?c6 = "(?t6, 2, 0) :: transaction candidate"
  let ?c7 = "(?t7, 2, 0) :: transaction candidate"
  let ?c1 = "(?t1, 3002399751580331 / 1125899906842624, 10) :: transaction candidate"
  let ?c2 = "(?t2, 6004799503160661 / 2251799813685248, 0) :: transaction candidate"
  let ?W = "\<lambda>cands :: transaction candidate list. filter (\<lambda>c. truthy (tx_contact (fst c))) cands"
  let ?Q = "\<lambda>cands. filter (\<lambda>c :: transaction candidate. 3 / 2 \<le> cand_score c) (?W cands)"
  let ?E = "\<lambda>cands :: transaction candidate list. filter (\<lambda>c. cand_dist c = 0) cands"
  have r1: "tx_by_reference ?named [?t6, ?t5, ?t7] = None" by code_simp
  have r2: "tx_by_reference ?plain [?t6, ?t5] = None" by code_simp
  have r3: "tx_by_reference ?plain [?t6, ?t5, ?t7] = None" by code_simp
  have r4: "tx_by_reference ?beta [?t1, ?t2] = None" by code_simp
  have c1: "tx_candidates ?named [?t6, ?t5, ?t7] = Inr [?c6, ?c5, ?c7]" by code_simp
  have c2: "tx_candidates ?plain [?t6, ?t5] = Inr [?c6, ?d5]" by code_simp
  have c3: "tx_candidates ?plain [?t6, ?t5, ?t7] = Inr [?c6, ?d5, ?c7]" by code_simp
  have c4: "tx_candidates ?beta [?t1, ?t2] = Inr [?c1, ?c2]" by code_simp
  have n1: "attachment_names ?named \<noteq> []" by code_simp
  have n2: "attachment_names ?plain = []" by code_simp
  have n4: "attachment_names ?beta \<noteq> []" by code_simp
  have w1: "?W [?c6, ?c5, ?c7] \<noteq> []" by code_simp
  have q1: "?Q [?c6, ?c5, ?c7] \<noteq> []" by code_simp
  have h1: "hd (sort_key tx_key (?Q [?c6, ?c5, ?c7])) = ?c5" by code_simp
  have w4: "?W [?c1, ?c2] \<noteq> []" by code_simp
  have q4: "?Q [?c1, ?c2] \<noteq> []" by code_simp
  have h4: "hd (sort_key tx_key (?Q [?c1, ?c2])) = ?c1" by code_simp
  have e2: "?E [?c6, ?d5] = [?c6]" by code_simp
  have e3: "length (?E [?c6, ?d5, ?c7]) \<noteq> 1" by code_simp
  from transaction_acceptance[OF r1 c1] n1 w1 q1
  obtain b where "find_transaction ?named [?t6, ?t5, ?t7] = Inr (Some (fst b))"
    and "b = hd (sort_key tx_key (?Q [?c6, ?c5, ?c7]))" by blast
  with h1 have a: "find_transaction ?named [?t6, ?t5, ?t7] = Inr (Some ?t5)" by simp
  from transaction_acceptance[OF r2 c2] n2 e2
  have "find_transaction ?plain [?t6, ?t5] = Inr (Some (fst ?c6))" by blast
  then have b: "find_transaction ?plain [?t6, ?t5] = Inr (Some ?t6)" by simp
  from transaction_acceptance[OF r3 c3] n2 e3
  have c: "find_transaction ?plain [?t6, ?t5, ?t7] = Inr None" by blast
  from transaction_acceptance[OF r4 c4] n4 w4 q4
  obtain u where "find_transaction ?beta [?t1, ?t2] = Inr (Some (fst u))"
    and "u = hd (sort_key tx_key (?Q [?c1, ?c2]))" by blast
  with h4 have d: "find_transaction ?beta [?t1, ?t2] = Inr (Some ?t1)" by simp
  from a b c d show ?thesis by (intro conjI)
qed

section \<open>Graceful degradation\<close>

lemma find_attachment_total:
  "\<exists>r. find_attachment tx atts = Inr r \<and> (\<forall>a. r = Some a \<longrightarrow> a \<in> set atts)"
proof (cases "att_by_reference tx atts")
  case (Some a)
  then have "a \<in> set atts"
    by (auto simp: att_by_reference_def find_Some_iff split: if_splits)
  with find_attachment_by_reference[OF Some] show ?thesis by simp
next
  case None
  note ref = this
  show ?thesis
  proof (cases "parse_date (tx_date tx)")
    case None
    with find_attachment_no_date[OF ref] show ?thesis by simp
  next
    case (Some txd)
    show ?thesis
    proof (cases "truthy (tx_contact tx)")
      case True
      let ?F = "map (\<lambda>a. (a, composite_of tx txd a, date_distance_days txd a))
             (filter (\<lambda>a. is_amount_match tx a \<and> 1 / 2 \<le> name_sim_of (tx_contact tx) a) atts)"
      note fa = find_attachment_contact[OF ref Some True]
      show ?thesis
      proof (cases "?F = []")
        case True
        then show ?thesis unfolding fa select_best_eq by simp
      next
        case False
        from hd_sort_key_min[OF False, of att_key]
        have "hd (sort_key att_key ?F) \<in> set ?F" by simp
        then have "fst (hd (sort_key att_key ?F)) \<in> set atts" by auto
        with False show ?thesis unfolding fa select_best_eq by simp
      qed
    next
      case False
      let ?E = "filter (\<lambda>a. is_amount_match tx a \<and> date_distance_days txd a = 0) atts"
      note fa = find_attachment_no_contact[OF ref Some False]
      have "\<And>a. ?E = [a] \<Longrightarrow> a \<in> set atts"
      proof -
        fix a assume "?E = [a]"
        then have "a \<in> set ?E" by simp
        then show "a \<in> set atts" by simp
      qed
      then show ?thesis unfolding fa by (auto split: list.splits)
    qed
  qed
qed

lemma find_transaction_total:
  "\<exists>r. find_transaction att txs = Inr r \<and> (\<forall>t. r = Some t \<longrightarrow> t \<in> set txs)"
proof (cases "tx_by_reference att txs")
  case (Some t)
  then have "t \<in> set txs"
    by (auto simp: tx_by_reference_def find_Some_iff split: if_splits)
  with find_transaction_by_reference[OF Some] show ?thesis by simp
next
  case None
  let ?cands = "List.map_filter (tx_candidate_of att) txs"
  let ?Q = "filter (\<lambda>c. 3 / 2 \<le> cand_score c) (filter (\<lambda>c. truthy (tx_contact (fst c))) ?cands)"
  let ?E = "filter (\<lambda>c. cand_dist c = 0) ?cands"
  note ft = find_transaction_policy[OF None tx_candidates_eq]
  have sub: "c \<in> set ?cands \<Longrightarrow> fst c \<in> set txs" for c
  proof -
    assume "c \<in> set ?cands"
    then have "fst c \<in> set (map fst ?cands)" by (simp only: set_map) (rule imageI)
    then show "fst c \<in> set txs" unfolding map_fst_tx_candidates by simp
  qed
  show ?thesis
  proof (cases "attachment_names att \<noteq> [] \<and> ?Q \<noteq> []")
    case True
    then have ne: "?Q \<noteq> []" by blast
    from hd_sort_key_min[OF ne, of tx_key] have "hd (sort_key tx_key ?Q) \<in> set ?cands" by simp
    from sub[OF this] True show ?thesis unfolding ft by simp
  next
    case False
    have "\<And>c. ?E = [c] \<Longrightarrow> fst c \<in> set txs"
    proof -
      fix c assume "?E = [c]"
      then have "c \<in> set ?E" by simp
      then have "c \<in> set ?cands" by simp
      then show "fst c \<in> set txs" by (rule sub)
    qed
    with False show ?thesis unfolding ft same_day_fallback_eq
      by (auto split: list.splits)
  qed
qed

lemma name_similarity_absent:
  "\<not> truthy a \<or> \<not> truthy b \<Longrightarrow> name_similarity a b = Inr 0"
  by (auto simp: name_similarity_def tokenize_def truthy_def Let_def split: option.splits)

lemma sentinel_distance:
  assumes "parse_date (due_date (get_data att)) = None"
    and "parse_date (invoicing_date (get_data att)) = None"
    and "parse_date (receiving_date (get_data att)) = None"
  shows "date_distance_days txd att = 10000"
  using assms by (simp add: date_distance_days_def Let_def)

lemma best_loop_Nil_names: "attachment_names att = [] \<Longrightarrow> best_name_similarity c att = Inr 0"
  by (simp add: best_name_similarity_def)

text \<open>
  Claim C9. On records of the shape of the data model \<open>find_attachment\<close> and
  \<open>find_transaction\<close> always return (the model functions are total), and what they return
  is never an error: it is \<open>None\<close> or a record of the input list. Missing and malformed
  fields count as absent information: a missing or empty date does not parse, a missing
  or empty name gives name similarity 0, a missing amount gives no amount match, an
  attachment none of whose three dates parses is at the sentinel distance 10000, which is
  not 0 and earns no date bonus, and an attachment without \<open>data\<close> has no name, no
  amount match, no reference and the sentinel distance.
\<close>

theorem graceful_degradation:
  "(\<exists>r. find_attachment tx atts = Inr r \<and> (\<forall>a. r = Some a \<longrightarrow> a \<in> set atts))
   \<and> (\<exists>r. find_transaction att txs = Inr r \<and> (\<forall>t. r = Some t \<longrightarrow> t \<in> set txs))
   \<and> parse_date None = None \<and> parse_date (Some []) = None
   \<and> (\<not> truthy a \<or> \<not> truthy b \<longrightarrow> name_similarity a b = Inr 0)
   \<and> (\<not> truthy c \<or> attachment_names att = [] \<longrightarrow> best_name_similarity c att = Inr 0)
   \<and> (tx_amount tx = None \<or> total_amount (get_data att) = None \<longrightarrow> \<not> is_amount_match tx att)
   \<and> (parse_date (due_date (get_data att)) = None
      \<and> parse_date (invoicing_date (get_data att)) = None
      \<and> parse_date (receiving_date (get_data att)) = None
      \<longrightarrow> date_distance_days txd att = 10000 \<and> date_distance_days txd att \<noteq> 0
          \<and> date_bonus (date_distance_days txd att) = 0)
   \<and> (att_data att = None
      \<longrightarrow> attachment_names att = [] \<and> \<not> is_amount_match tx att
          \<and> normalize_reference (reference (get_data att)) = None
          \<and> date_distance_days txd att = 10000)"
proof -
  have p1: "parse_date None = None \<and> parse_date (Some []) = None"
    by (simp add: parse_date_def)
  have p2: "\<not> truthy a \<or> \<not> truthy b \<longrightarrow> name_similarity a b = Inr 0"
    using name_similarity_absent by blast
  have p3: "\<not> truthy c \<or> attachment_names att = [] \<longrightarrow> best_name_similarity c att = Inr 0"
    by (auto simp: best_name_similarity_def)
  have p4: "tx_amount tx = None \<or> total_amount (get_data att) = None
      \<longrightarrow> \<not> is_amount_match tx att"
    by (auto simp: is_amount_match_def split: option.splits)
  have p5: "parse_date (due_date (get_data att)) = None
      \<and> parse_date (invoicing_date (get_data att)) = None
      \<and> parse_date (receiving_date (get_data att)) = None
      \<longrightarrow> date_distance_days txd att = 10000 \<and> date_distance_days txd att \<noteq> 0
          \<and> date_bonus (date_distance_days txd att) = 0"
    using sentinel_distance[of att txd] by (simp add: date_bonus_def)
  have p6: "att_data att = None
      \<longrightarrow> attachment_names att = [] \<and> \<not> is_amount_match tx att
          \<and> normalize_reference (reference (get_data att)) = None
          \<and> date_distance_days txd att = 10000"
  proof
    assume n: "att_data att = None"
    then have g: "get_data att = empty_data" by (simp add: get_data_def)
    have "attachment_names att = []"
      by (simp add: attachment_names_def g empty_data_def truthy_def)
    moreover have "\<not> is_amount_match tx att"
      by (simp add: is_amount_match_def g empty_data_def split: option.splits)
    moreover have "normalize_reference (reference (get_data att)) = None"
      by (simp add: g empty_data_def normalize_reference_def)
    moreover have "date_distance_days txd att = 10000"
      by (rule sentinel_distance) (simp_all add: g empty_data_def parse_date_def)
    ultimately show "attachment_names att = [] \<and> \<not> is_amount_match tx att
          \<and> normalize_reference (reference (get_data att)) = None
          \<and> date_distance_days txd att = 10000" by blast
  qed
  from find_attachment_total[of tx atts] find_transaction_total[of att txs] p1 p2 p3 p4 p5 p6
  show ?thesis by (intro conjI) blast+
qed

text \<open>
  The theorem on a transaction without amount, with an unparsable date, a blank
  reference and an empty contact, on an attachment without \<open>data\<close> and on an attachment
  whose date is written \<open>31/01/2024\<close>.
\<close>

theorem graceful_degradation_witness:
  "find_attachment ex_tx_blank [ex_att_nodata, ex_att 2 500 ''31/01/2024'' None] = Inr None
   \<and> find_transaction ex_att_nodata [ex_tx_blank, ex_tx None] = Inr None
   \<and> name_similarity (tx_contact ex_tx_blank) (Some (ustr ''Acme'')) = Inr 0
   \<and> best_name_similarity (Some (ustr ''Acme'')) ex_att_nodata = Inr 0
   \<and> \<not> is_amount_match ex_tx_blank (ex_att 2 500 ''31/01/2024'' None)
   \<and> date_distance_days 738895 (ex_att 2 500 ''31/01/2024'' None) = 10000
   \<and> date_bonus (date_distance_days 738895 (ex_att 2 500 ''31/01/2024'' None)) = 0"
proof -
  let ?atts = "[ex_att_nodata, ex_att 2 500 ''31/01/2024'' None]"
  let ?txs = "[ex_tx_blank, ex_tx None]"
  let ?bad = "ex_att 2 500 ''31/01/2024'' None"
  note g1 = graceful_degradation[of ex_tx_blank ?atts ex_att_nodata ?txs
      "tx_contact ex_tx_blank" "Some (ustr ''Acme'')" "Some (ustr ''Acme'')" 738895]
  note g2 = graceful_degradation[of ex_tx_blank ?atts ?bad ?txs
      "tx_contact ex_tx_blank" "Some (ustr ''Acme'')" "Some (ustr ''Acme'')" 738895]
  have v1: "find_attachment ex_tx_blank ?atts = Inr None" by code_simp
  have v2: "find_transaction ex_att_nodata ?txs = Inr None" by code_simp
  have h1: "\<not> truthy (tx_contact ex_tx_blank)" by code_simp
  have h2: "att_data ex_att_nodata = None" by code_simp
  have h3: "tx_amount ex_tx_blank = None" by code_simp
  have h4: "parse_date (due_date (get_data ?bad)) = None
      \<and> parse_date (invoicing_date (get_data ?bad)) = None
      \<and> parse_date (receiving_date (get_data ?bad)) = None" by code_simp
  from g1 h1 have a: "name_similarity (tx_contact ex_tx_blank) (Some (ustr ''Acme'')) = Inr 0"
    by blast
  from g1 h2 have "attachment_names ex_att_nodata = []" by blast
  with g1 have b: "best_name_similarity (Some (ustr ''Acme'')) ex_att_nodata = Inr 0" by blast
  from g2 h3 have c: "\<not> is_amount_match ex_tx_blank ?bad" by blast
  from g2 h4 have d: "date_distance_days 738895 ?bad = 10000
      \<and> date_bonus (date_distance_days 738895 ?bad) = 0" by blast
  from v1 v2 a b c d show ?thesis by (intro conjI) blast+
qed

end
